theory Spec2Isabelle
  imports Main "HOL-Library.Word"
begin

unbundle bit_operations_syntax

section \<open>Bluetooth Security Manager (stack/btm/btm_sec.cc)\<close>

text \<open>
  A shallow embedding of the security manager of the Bluetooth stack. The control block
  \<open>btm_cb\<close> is a record that every function takes and returns; a pointer to a device
  record (\<open>tBTM_SEC_DEV_REC*\<close>) is the position of the record in the list
  \<open>sec_dev_rec\<close>; a C truth test \<open>x & FLAG\<close> is \<open>x AND FLAG \<noteq> 0\<close>. Calls that leave
  the security manager (HCI commands, timers, callbacks of the upper layers) are appended to
  the field \<open>calls\<close>, in the order in which the code makes them.
\<close>

subsection \<open>Types and constants\<close>

type_synonym RawAddress = "48 word"
type_synonym tBTM_SEC_CALLBACK = nat
type_synonym tHCI_STATUS = "8 word"

datatype tBT_TRANSPORT = BT_TRANSPORT_AUTO | BT_TRANSPORT_BR_EDR | BT_TRANSPORT_LE

datatype tBTM_STATUS =
    BTM_SUCCESS | BTM_CMD_STARTED | BTM_BUSY | BTM_NO_RESOURCES | BTM_MODE_UNSUPPORTED
  | BTM_ILLEGAL_VALUE | BTM_WRONG_MODE | BTM_UNKNOWN_ADDR | BTM_DEVICE_TIMEOUT
  | BTM_ERR_PROCESSING | BTM_NOT_AUTHORIZED | BTM_ILLEGAL_ACTION | BTM_DELAY_CHECK
  | BTM_SUCCESS_NO_SECURITY | BTM_FAILED_ON_SECURITY | BTM_MODE4_LEVEL4_NOT_SUPPORTED

datatype tSECURITY_STATE =
    BTM_SEC_STATE_IDLE | BTM_SEC_STATE_AUTHENTICATING | BTM_SEC_STATE_ENCRYPTING
  | BTM_SEC_STATE_GETTING_NAME | BTM_SEC_STATE_AUTHORIZING | BTM_SEC_STATE_SWITCHING_ROLE
  | BTM_SEC_STATE_DISCONNECTING | BTM_SEC_STATE_DELAY_FOR_ENC
  | BTM_SEC_STATE_DISCONNECTING_BLE | BTM_SEC_STATE_DISCONNECTING_BOTH
  | BTM_SEC_STATE_LE_ENCRYPTING

datatype tBTM_PAIRING_STATE =
    BTM_PAIR_STATE_IDLE | BTM_PAIR_STATE_GET_REM_NAME | BTM_PAIR_STATE_WAIT_PIN_REQ
  | BTM_PAIR_STATE_WAIT_LOCAL_PIN | BTM_PAIR_STATE_WAIT_NUMERIC_CONFIRM
  | BTM_PAIR_STATE_KEY_ENTRY | BTM_PAIR_STATE_WAIT_LOCAL_OOB_RSP
  | BTM_PAIR_STATE_WAIT_LOCAL_IOCAPS | BTM_PAIR_STATE_INCOMING_SSP
  | BTM_PAIR_STATE_WAIT_AUTH_COMPLETE | BTM_PAIR_STATE_WAIT_DISCONNECT

datatype tBTM_BOND_TYPE = BOND_TYPE_UNKNOWN | BOND_TYPE_PERSISTENT | BOND_TYPE_TEMPORARY

datatype tBTM_BLE_SEC_ACT =
    BTM_BLE_SEC_NONE | BTM_BLE_SEC_ENCRYPT | BTM_BLE_SEC_ENCRYPT_NO_MITM
  | BTM_BLE_SEC_ENCRYPT_MITM

datatype tHCI_ROLE = HCI_ROLE_CENTRAL | HCI_ROLE_PERIPHERAL | HCI_ROLE_UNKNOWN

text \<open>
  Modelled from the spec: the flag constants below are declared in headers of the stack
  (btm_api_types.h, security_device_record.h, hcidefs.h) and not in btm_sec.cc. The spec
  describes \<open>sec_flags\<close>, \<open>security_required\<close>, \<open>sm4\<close> and \<open>pairing_flags\<close> as bitmasks with
  one bit per named flag; the values are those of these headers. \<open>BTM_SM4_TRUE\<close> contains
  the bit \<open>BTM_SM4_KNOWN\<close>, which the three macros \<open>BTM_SEC_IS_SM4*\<close> of btm_sec.cc rely on.
\<close>

definition HCI_INVALID_HANDLE :: "16 word" where "HCI_INVALID_HANDLE = 0xFFFF"

definition BTM_SEC_NONE :: "16 word" where "BTM_SEC_NONE = 0x0000"
definition BTM_SEC_IN_AUTHENTICATE :: "16 word" where "BTM_SEC_IN_AUTHENTICATE = 0x0002"
definition BTM_SEC_IN_ENCRYPT :: "16 word" where "BTM_SEC_IN_ENCRYPT = 0x0004"
definition BTM_SEC_OUT_AUTHENTICATE :: "16 word" where "BTM_SEC_OUT_AUTHENTICATE = 0x0010"
definition BTM_SEC_OUT_ENCRYPT :: "16 word" where "BTM_SEC_OUT_ENCRYPT = 0x0020"
definition BTM_SEC_MODE4_LEVEL4 :: "16 word" where "BTM_SEC_MODE4_LEVEL4 = 0x0040"
definition BTM_SEC_IN_MITM :: "16 word" where "BTM_SEC_IN_MITM = 0x1000"
definition BTM_SEC_OUT_MITM :: "16 word" where "BTM_SEC_OUT_MITM = 0x2000"
definition BTM_SEC_IN_MIN_16_DIGIT_PIN :: "16 word" where
  "BTM_SEC_IN_MIN_16_DIGIT_PIN = 0x4000"

definition BTM_SEC_OUT_FLAGS :: "16 word" where
  "BTM_SEC_OUT_FLAGS = (BTM_SEC_OUT_AUTHENTICATE OR BTM_SEC_OUT_ENCRYPT)"
definition BTM_SEC_IN_FLAGS :: "16 word" where
  "BTM_SEC_IN_FLAGS = (BTM_SEC_IN_AUTHENTICATE OR BTM_SEC_IN_ENCRYPT)"

definition BTM_SEC_AUTHENTICATED :: "16 word" where "BTM_SEC_AUTHENTICATED = 0x0002"
definition BTM_SEC_ENCRYPTED :: "16 word" where "BTM_SEC_ENCRYPTED = 0x0004"
definition BTM_SEC_NAME_KNOWN :: "16 word" where "BTM_SEC_NAME_KNOWN = 0x0008"
definition BTM_SEC_LINK_KEY_KNOWN :: "16 word" where "BTM_SEC_LINK_KEY_KNOWN = 0x0010"
definition BTM_SEC_LINK_KEY_AUTHED :: "16 word" where "BTM_SEC_LINK_KEY_AUTHED = 0x0020"
definition BTM_SEC_ROLE_SWITCHED :: "16 word" where "BTM_SEC_ROLE_SWITCHED = 0x0040"
definition BTM_SEC_IN_USE :: "16 word" where "BTM_SEC_IN_USE = 0x0080"
definition BTM_SEC_LE_AUTHENTICATED :: "16 word" where "BTM_SEC_LE_AUTHENTICATED = 0x0200"
definition BTM_SEC_LE_ENCRYPTED :: "16 word" where "BTM_SEC_LE_ENCRYPTED = 0x0400"
definition BTM_SEC_LE_LINK_KEY_KNOWN :: "16 word" where "BTM_SEC_LE_LINK_KEY_KNOWN = 0x1000"
definition BTM_SEC_LE_LINK_KEY_AUTHED :: "16 word" where
  "BTM_SEC_LE_LINK_KEY_AUTHED = 0x2000"
definition BTM_SEC_16_DIGIT_PIN_AUTHED :: "16 word" where
  "BTM_SEC_16_DIGIT_PIN_AUTHED = 0x4000"

definition BTM_SM4_UNKNOWN :: "8 word" where "BTM_SM4_UNKNOWN = 0x00"
definition BTM_SM4_KNOWN :: "8 word" where "BTM_SM4_KNOWN = 0x10"
definition BTM_SM4_TRUE :: "8 word" where "BTM_SM4_TRUE = 0x11"
definition BTM_SM4_REQ_PEND :: "8 word" where "BTM_SM4_REQ_PEND = 0x08"
definition BTM_SM4_UPGRADE :: "8 word" where "BTM_SM4_UPGRADE = 0x04"
definition BTM_SM4_RETRY :: "8 word" where "BTM_SM4_RETRY = 0x02"
definition BTM_SM4_CONN_PEND :: "8 word" where "BTM_SM4_CONN_PEND = 0x40"

definition BTM_LKEY_TYPE_UNAUTH_COMB :: "8 word" where "BTM_LKEY_TYPE_UNAUTH_COMB = 0x04"
definition BTM_LKEY_TYPE_AUTH_COMB :: "8 word" where "BTM_LKEY_TYPE_AUTH_COMB = 0x05"
definition BTM_LKEY_TYPE_UNAUTH_COMB_P_256 :: "8 word" where
  "BTM_LKEY_TYPE_UNAUTH_COMB_P_256 = 0x07"
definition BTM_LKEY_TYPE_AUTH_COMB_P_256 :: "8 word" where
  "BTM_LKEY_TYPE_AUTH_COMB_P_256 = 0x08"

definition BTM_SEC_MODE_SERVICE :: "8 word" where "BTM_SEC_MODE_SERVICE = 2"
definition BTM_SEC_MODE_SP :: "8 word" where "BTM_SEC_MODE_SP = 4"
definition BTM_SEC_MODE_SC :: "8 word" where "BTM_SEC_MODE_SC = 6"

definition BTM_IO_CAP_MAX :: "8 word" where "BTM_IO_CAP_MAX = 5"

definition BTM_PAIR_FLAGS_WE_STARTED_DD :: "8 word" where
  "BTM_PAIR_FLAGS_WE_STARTED_DD = 0x01"
definition BTM_PAIR_FLAGS_PEER_STARTED_DD :: "8 word" where
  "BTM_PAIR_FLAGS_PEER_STARTED_DD = 0x02"
definition BTM_PAIR_FLAGS_DISC_WHEN_DONE :: "8 word" where
  "BTM_PAIR_FLAGS_DISC_WHEN_DONE = 0x04"
definition BTM_PAIR_FLAGS_PIN_REQD :: "8 word" where "BTM_PAIR_FLAGS_PIN_REQD = 0x08"
definition BTM_PAIR_FLAGS_REJECTED_CONNECT :: "8 word" where
  "BTM_PAIR_FLAGS_REJECTED_CONNECT = 0x20"
definition BTM_PAIR_FLAGS_WE_CANCEL_DD :: "8 word" where
  "BTM_PAIR_FLAGS_WE_CANCEL_DD = 0x40"
definition BTM_PAIR_FLAGS_LE_ACTIVE :: "8 word" where "BTM_PAIR_FLAGS_LE_ACTIVE = 0x80"

definition HCI_SUCCESS :: tHCI_STATUS where "HCI_SUCCESS = 0x00"
definition HCI_ERR_AUTH_FAILURE :: tHCI_STATUS where "HCI_ERR_AUTH_FAILURE = 0x05"
definition HCI_ERR_KEY_MISSING :: tHCI_STATUS where "HCI_ERR_KEY_MISSING = 0x06"
definition HCI_ERR_COMMAND_DISALLOWED :: tHCI_STATUS where
  "HCI_ERR_COMMAND_DISALLOWED = 0x0C"
definition HCI_ERR_HOST_REJECT_SECURITY :: tHCI_STATUS where
  "HCI_ERR_HOST_REJECT_SECURITY = 0x0E"
definition HCI_ERR_PEER_USER :: tHCI_STATUS where "HCI_ERR_PEER_USER = 0x13"
definition HCI_ERR_CONN_CAUSE_LOCAL_HOST :: tHCI_STATUS where
  "HCI_ERR_CONN_CAUSE_LOCAL_HOST = 0x16"
definition HCI_ERR_UNDEFINED :: tHCI_STATUS where "HCI_ERR_UNDEFINED = 0xFF"
definition HCI_ERR_LMP_ERR_TRANS_COLLISION :: tHCI_STATUS where
  "HCI_ERR_LMP_ERR_TRANS_COLLISION = 0x23"
definition HCI_ERR_ENCRY_MODE_NOT_ACCEPTABLE :: tHCI_STATUS where
  "HCI_ERR_ENCRY_MODE_NOT_ACCEPTABLE = 0x25"
definition HCI_ERR_DIFF_TRANSACTION_COLLISION :: tHCI_STATUS where
  "HCI_ERR_DIFF_TRANSACTION_COLLISION = 0x2A"

text \<open>The two constants that btm_sec.cc defines itself: the collision window, in
  milliseconds, and (through \<open>BT_1SEC_TIMEOUT_MS\<close>) the delay of the collision timer.\<close>

definition BTM_SEC_MAX_COLLISION_DELAY :: "64 word" where
  "BTM_SEC_MAX_COLLISION_DELAY = 5000"
definition BT_1SEC_TIMEOUT_MS :: nat where "BT_1SEC_TIMEOUT_MS = 1000"

definition BTM_SEC_IS_SM4 :: "8 word \<Rightarrow> bool" where
  "BTM_SEC_IS_SM4 sm \<longleftrightarrow> BTM_SM4_TRUE = (sm AND BTM_SM4_TRUE)"
definition BTM_SEC_IS_SM4_UNKNOWN :: "8 word \<Rightarrow> bool" where
  "BTM_SEC_IS_SM4_UNKNOWN sm \<longleftrightarrow> BTM_SM4_UNKNOWN = (sm AND BTM_SM4_TRUE)"

subsection \<open>Device records, queue entries and the control block\<close>

text \<open>The fields of \<open>tBTM_SEC_DEV_REC\<close> that btm_sec.cc reads or writes. \<open>p_callback\<close> is
  \<open>None\<close> for a null function pointer.\<close>

record tBTM_SEC_DEV_REC =
  bd_addr :: RawAddress
  ble_pseudo_addr :: RawAddress
  dev_class :: "8 word list"
  sec_bd_name :: string
  hci_handle :: "16 word"
  ble_hci_handle :: "16 word"
  sec_flags :: "16 word"
  security_required :: "16 word"
  required_security_flags_for_pairing :: "16 word"
  is_originator :: bool
  sm4 :: "8 word"
  sec_state :: tSECURITY_STATE
  link_key_type :: "8 word"
  pin_code_length :: "8 word"
  rmt_io_caps :: "8 word"
  rmt_auth_req :: "8 word"
  enc_key_size :: "8 word"
  p_callback :: "tBTM_SEC_CALLBACK option"
  p_ref_data :: nat
  bond_type :: tBTM_BOND_TYPE
  remote_supports_secure_connections :: bool
  new_encryption_key_is_p256 :: bool
  sec_status :: tHCI_STATUS
  ble_key_type :: "8 word"

record tBTM_SEC_QUEUE_ENTRY =
  q_bd_addr :: RawAddress
  q_psm :: "16 word"
  q_is_orig :: bool
  q_p_callback :: "tBTM_SEC_CALLBACK option"
  q_p_ref_data :: nat
  q_transport :: tBT_TRANSPORT
  q_sec_act :: tBTM_BLE_SEC_ACT
  q_rfcomm_security_requirement :: "16 word"

text \<open>The calls that leave the security manager. \<open>sec_callback\<close> is a synchronous call
  \<open>(*p_callback)(...)\<close> of a \<open>tBTM_SEC_CALLBACK\<close>; \<open>do_in_main_thread\<close> posts the same
  call to the main loop; \<open>do_in_main_thread_delayed\<close> posts \<open>btm_sec_auth_timer_timeout\<close>
  for the given address. \<open>alarm_set_sec_collision_timer ms\<close> is
  \<open>alarm_set_on_mloop(btm_cb.sec_collision_timer, ms, btm_sec_collision_timeout, NULL)\<close>;
  \<open>alarm_set_pairing_timer\<close> arms the pairing timer for \<open>BTM_SEC_TIMEOUT_VALUE\<close> seconds;
  \<open>auth_complete_callback\<close> is a call of \<open>btm_cb.api.p_auth_complete_callback\<close>, with the
  address and the status (the device class and the name are its other arguments);
  \<open>pin_callback\<close> is a call of \<open>btm_cb.api.p_pin_callback\<close>.\<close>

datatype ext_call =
    SendRemoteNameRequest RawAddress
  | btsnd_hcic_auth_request "16 word"
  | btsnd_hcic_set_conn_encrypt "16 word" bool
  | do_in_main_thread_delayed RawAddress
  | do_in_main_thread tBTM_SEC_CALLBACK RawAddress tBT_TRANSPORT nat tBTM_STATUS
  | sec_callback tBTM_SEC_CALLBACK RawAddress tBT_TRANSPORT nat tBTM_STATUS
  | alarm_set_sec_collision_timer nat
  | btsnd_hcic_write_auth_enable bool
  | btsnd_hcic_write_pin_type "8 word"
  | l2cu_resubmit_pending_sec_req "RawAddress option"
  | btm_ble_set_encryption RawAddress tBTM_BLE_SEC_ACT tHCI_ROLE
  | alarm_cancel_pairing_timer
  | alarm_set_pairing_timer
  | l2cu_update_lcb_4_bonding RawAddress bool
  | btm_inq_clear_ssp
  | l2cu_start_post_bond_timer "16 word"
  | acl_disconnect_after_role_switch "16 word" tHCI_STATUS
  | auth_complete_callback nat RawAddress tHCI_STATUS
  | BTM_SwitchRoleToCentral RawAddress
  | SMP_BR_PairWith RawAddress
  | btm_ble_link_encrypted RawAddress "8 word"
  | BTM_DeleteStoredLinkKey RawAddress
  | btm_ble_init_pseudo_addr nat RawAddress
  | SMP_Pair RawAddress "8 word"
  | BTM_ReadRemoteDeviceName RawAddress tBT_TRANSPORT
  | l2cu_ConnectAclForSecurity RawAddress
  | acl_set_disconnect_reason tHCI_STATUS
  | btsnd_hcic_pin_code_neg_reply RawAddress
  | btsnd_hcic_pin_code_req_reply RawAddress "8 word" "8 word list"
  | pin_callback nat RawAddress "8 word list" string bool

text \<open>The control block \<open>btm_cb\<close>, with the device records. Two more fields stand for what
  lies outside btm_sec.cc: \<open>acl_links\<close>, the ACL layer's table of links (the handle of the
  link to an address on a transport, if there is one), and \<open>calls\<close>.\<close>

record tBTM_CB =
  pairing_state :: tBTM_PAIRING_STATE
  pairing_bda :: RawAddress
  pairing_flags :: "8 word"
  security_mode :: "8 word"
  security_mode_changed :: bool
  pin_type_changed :: bool
  cfg_pin_type :: "8 word"
  pin_code_len :: "8 word"
  pin_code :: "8 word list"
  sec_req_pending :: bool
  sec_pending_q :: "tBTM_SEC_QUEUE_ENTRY list"
  collision_start_time :: "64 word"
  p_collided_dev_rec :: "nat option"
  loc_io_caps :: "8 word"
  loc_auth_req :: "8 word"
  p_auth_complete_callback :: "nat option"
  p_pin_callback :: "nat option"
  sec_dev_rec :: "tBTM_SEC_DEV_REC list"
  acl_links :: "RawAddress \<Rightarrow> tBT_TRANSPORT \<Rightarrow> 16 word option"
  calls :: "ext_call list"

text \<open>The collaborators of the security manager. \<open>run_callback\<close> is what a callback of an
  upper layer does to the control block when it is called: it may call back into the
  security manager, so it is any function on the control block. The same holds for
  L2CAP's \<open>l2cu_resubmit_pending_sec_req\<close>, for \<open>btm_ble_set_encryption\<close> of the LE
  security manager and for the allocation of a device record (\<open>btm_sec_alloc_dev\<close> of
  btm_dev.cc), none of which is among the sources; \<open>run_external\<close> is the effect of any
  other call into another module that may come back before it returns. The other fields
  are what the collaborators answer: \<open>L2CA_GetPeerFeatures\<close> gives the first byte of the
  fixed channel mask, or nothing when it fails; \<open>concurrentPeerAuthIsEnabled\<close> and
  \<open>handleUnexpectedEncryptionChange\<close> are the two system properties read by btm_sec.cc;
  \<open>BTM_ReadDevInfo\<close> gives the device type and the address type that it writes to its
  two out parameters; \<open>controller_get_is_ready\<close> and \<open>controller_supports_simple_pairing\<close>
  are the answers of the controller interface; \<open>SMP_Pair_started\<close> tells whether
  \<open>SMP_Pair\<close> answers \<open>SMP_STARTED\<close>; a field \<open>f_status\<close> is the status that \<open>f\<close>
  returns.\<close>

record env =
  run_callback ::
    "tBTM_SEC_CALLBACK \<Rightarrow> RawAddress \<Rightarrow> tBT_TRANSPORT \<Rightarrow> nat \<Rightarrow> tBTM_STATUS \<Rightarrow> tBTM_CB \<Rightarrow> tBTM_CB"
  BTM_IsDeviceUp :: bool
  post_delayed_ok :: bool
  supports_secure_connections :: bool
  btm_sec_alloc_dev :: "RawAddress \<Rightarrow> tBTM_CB \<Rightarrow> nat option \<times> tBTM_CB"
  run_l2cu_resubmit :: "RawAddress option \<Rightarrow> tBTM_CB \<Rightarrow> tBTM_CB"
  run_ble_set_encryption ::
    "RawAddress \<Rightarrow> tBTM_BLE_SEC_ACT \<Rightarrow> tHCI_ROLE \<Rightarrow> tBTM_CB \<Rightarrow> tBTM_STATUS \<times> tBTM_CB"
  L2CA_GetBleConnRole :: "RawAddress \<Rightarrow> tHCI_ROLE"
  run_external :: "ext_call \<Rightarrow> tBTM_CB \<Rightarrow> tBTM_CB"
  BTM_GetRole :: "RawAddress \<Rightarrow> tHCI_ROLE"
  BTM_IsBleConnection :: "16 word \<Rightarrow> bool"
  L2CA_GetPeerFeatures :: "RawAddress \<Rightarrow> 8 word option"
  concurrentPeerAuthIsEnabled :: bool
  handleUnexpectedEncryptionChange :: bool
  BTM_UseLeLink :: "RawAddress \<Rightarrow> bool"
  BTM_ReadDevInfo :: "RawAddress \<Rightarrow> 8 word \<times> 8 word"
  controller_get_is_ready :: bool
  controller_supports_simple_pairing :: bool
  BTM_DeleteStoredLinkKey_status :: "RawAddress \<Rightarrow> tBTM_STATUS"
  SMP_Pair_started :: "RawAddress \<Rightarrow> 8 word \<Rightarrow> bool"
  BTM_ReadRemoteDeviceName_status :: "RawAddress \<Rightarrow> tBTM_STATUS"
  l2cu_ConnectAclForSecurity_status :: "RawAddress \<Rightarrow> tBTM_STATUS"

definition dev :: "tBTM_CB \<Rightarrow> nat \<Rightarrow> tBTM_SEC_DEV_REC" where
  "dev w p = sec_dev_rec w ! p"

definition upd_dev :: "nat \<Rightarrow> (tBTM_SEC_DEV_REC \<Rightarrow> tBTM_SEC_DEV_REC) \<Rightarrow> tBTM_CB \<Rightarrow> tBTM_CB" where
  "upd_dev p f w = w\<lparr>sec_dev_rec := (sec_dev_rec w)[p := f (sec_dev_rec w ! p)]\<rparr>"

definition emit :: "ext_call \<Rightarrow> tBTM_CB \<Rightarrow> tBTM_CB" where
  "emit c w = w\<lparr>calls := calls w @ [c]\<rparr>"

definition call_out :: "env \<Rightarrow> ext_call \<Rightarrow> tBTM_CB \<Rightarrow> tBTM_CB" where
  "call_out e c w = run_external e c (emit c w)"

definition invoke_callback ::
  "env \<Rightarrow> tBTM_SEC_CALLBACK \<Rightarrow> RawAddress \<Rightarrow> tBT_TRANSPORT \<Rightarrow> nat \<Rightarrow> tBTM_STATUS \<Rightarrow> tBTM_CB \<Rightarrow> tBTM_CB"
  where
  "invoke_callback e cb a tr ref st w =
     run_callback e cb a tr ref st (emit (sec_callback cb a tr ref st) w)"

text \<open>Modelled from the spec: \<open>btm_find_dev\<close> and \<open>btm_find_dev_by_handle\<close> are defined in
  btm_dev.cc, which is not among the sources. The spec keys the device record store by
  Bluetooth address and by the classic or the LE connection handle; the first record that
  matches is the one found.\<close>

fun find_index :: "('a \<Rightarrow> bool) \<Rightarrow> 'a list \<Rightarrow> nat option" where
  "find_index P [] = None"
| "find_index P (x # xs) =
     (if P x then Some 0 else map_option Suc (find_index P xs))"

definition btm_find_dev :: "tBTM_CB \<Rightarrow> RawAddress \<Rightarrow> nat option" where
  "btm_find_dev w a = find_index (\<lambda>r. bd_addr r = a) (sec_dev_rec w)"

definition btm_find_dev_by_handle :: "tBTM_CB \<Rightarrow> 16 word \<Rightarrow> nat option" where
  "btm_find_dev_by_handle w h =
     find_index (\<lambda>r. hci_handle r = h \<or> ble_hci_handle r = h) (sec_dev_rec w)"

text \<open>Modelled from the spec: the member functions of \<open>tBTM_SEC_DEV_REC\<close> are declared in
  security_device_record.h, which is not among the sources. \<open>IsLocallyInitiated\<close> is the
  spec's \<open>is_originator\<close> (who initiated), \<open>is_bond_type_temporary\<close> its bond type
  "temporary", and the encrypting states are its \<open>ENCRYPTING\<close> and \<open>LE_ENCRYPTING\<close>.\<close>

definition IsLocallyInitiated :: "tBTM_SEC_DEV_REC \<Rightarrow> bool" where
  "IsLocallyInitiated r = is_originator r"

definition is_bond_type_temporary :: "tBTM_SEC_DEV_REC \<Rightarrow> bool" where
  "is_bond_type_temporary r \<longleftrightarrow> bond_type r = BOND_TYPE_TEMPORARY"

definition is_security_state_bredr_encrypting :: "tBTM_SEC_DEV_REC \<Rightarrow> bool" where
  "is_security_state_bredr_encrypting r \<longleftrightarrow> sec_state r = BTM_SEC_STATE_ENCRYPTING"

definition SupportsSecureConnections :: "tBTM_SEC_DEV_REC \<Rightarrow> bool" where
  "SupportsSecureConnections r = remote_supports_secure_connections r"

subsection \<open>The security procedure of a device\<close>

definition btm_dev_authenticated :: "tBTM_SEC_DEV_REC \<Rightarrow> bool" where
  "btm_dev_authenticated r \<longleftrightarrow> sec_flags r AND BTM_SEC_AUTHENTICATED \<noteq> 0"

definition btm_dev_encrypted :: "tBTM_SEC_DEV_REC \<Rightarrow> bool" where
  "btm_dev_encrypted r \<longleftrightarrow> sec_flags r AND BTM_SEC_ENCRYPTED \<noteq> 0"

definition btm_dev_16_digit_authenticated :: "tBTM_SEC_DEV_REC \<Rightarrow> bool" where
  "btm_dev_16_digit_authenticated r \<longleftrightarrow> sec_flags r AND BTM_SEC_16_DIGIT_PIN_AUTHED \<noteq> 0"

definition access_secure_service_from_temp_bond ::
  "tBTM_SEC_DEV_REC \<Rightarrow> bool \<Rightarrow> 16 word \<Rightarrow> bool" where
  "access_secure_service_from_temp_bond r locally_initiated security_req \<longleftrightarrow>
     \<not> locally_initiated \<and> security_req AND BTM_SEC_IN_AUTHENTICATE \<noteq> 0 \<and>
     is_bond_type_temporary r"

definition btm_sec_start_get_name :: "env \<Rightarrow> nat \<Rightarrow> tBTM_CB \<Rightarrow> bool \<times> tBTM_CB" where
  "btm_sec_start_get_name e p w =
     (if \<not> BTM_IsDeviceUp e then (False, w)
      else
        let w1 = upd_dev p (\<lambda>r. r\<lparr>sec_state := BTM_SEC_STATE_GETTING_NAME\<rparr>) w
        in (True, emit (SendRemoteNameRequest (bd_addr (dev w1 p))) w1))"

definition btm_sec_auth_timer_timeout :: "RawAddress \<Rightarrow> tBTM_CB \<Rightarrow> tBTM_CB" where
  "btm_sec_auth_timer_timeout a w =
     (case btm_find_dev w a of
        None \<Rightarrow> w
      | Some p \<Rightarrow>
          if btm_dev_authenticated (dev w p) then w
          else if sec_state (dev w p) = BTM_SEC_STATE_AUTHENTICATING then w
          else
            let w1 = upd_dev p (\<lambda>r. r\<lparr>sec_state := BTM_SEC_STATE_AUTHENTICATING\<rparr>) w
            in emit (btsnd_hcic_auth_request (hci_handle (dev w1 p))) w1)"

definition btm_sec_wait_and_start_authentication :: "env \<Rightarrow> nat \<Rightarrow> tBTM_CB \<Rightarrow> tBTM_CB" where
  "btm_sec_wait_and_start_authentication e p w =
     (let addr = bd_addr (dev w p);
          w1 = emit (do_in_main_thread_delayed addr) w
      in if post_delayed_ok e then w1 else btm_sec_auth_timer_timeout addr w)"

definition btm_sec_execute_procedure :: "env \<Rightarrow> nat \<Rightarrow> tBTM_CB \<Rightarrow> tBTM_STATUS \<times> tBTM_CB" where
  "btm_sec_execute_procedure e p w =
     (let r = dev w p in
      if sec_state r \<noteq> BTM_SEC_STATE_IDLE \<and> sec_state r \<noteq> BTM_SEC_STATE_LE_ENCRYPTING
      then (BTM_CMD_STARTED, w)
      else if sec_flags r AND BTM_SEC_NAME_KNOWN = 0 \<and> hci_handle r \<noteq> HCI_INVALID_HANDLE
      then
        (case btm_sec_start_get_name e p w of
           (started, w1) \<Rightarrow>
             if \<not> started then (BTM_NO_RESOURCES, w1) else (BTM_CMD_STARTED, w1))
      else
        let start_auth =
              ((sec_flags r AND BTM_SEC_AUTHENTICATED = 0 \<and>
                (if IsLocallyInitiated r
                 then security_required r AND
                        (BTM_SEC_OUT_AUTHENTICATE OR BTM_SEC_OUT_ENCRYPT) \<noteq> 0
                 else security_required r AND
                        (BTM_SEC_IN_AUTHENTICATE OR BTM_SEC_IN_ENCRYPT) \<noteq> 0)) \<or>
               (sec_flags r AND BTM_SEC_16_DIGIT_PIN_AUTHED = 0 \<and>
                \<not> IsLocallyInitiated r \<and>
                security_required r AND BTM_SEC_IN_MIN_16_DIGIT_PIN \<noteq> 0))
        in
        if hci_handle r \<noteq> HCI_INVALID_HANDLE \<and> start_auth
        then
          let w1 =
                (if sec_flags r AND BTM_SEC_LINK_KEY_KNOWN \<noteq> 0 \<and>
                    sec_flags r AND BTM_SEC_16_DIGIT_PIN_AUTHED = 0 \<and>
                    \<not> IsLocallyInitiated r \<and>
                    security_required r AND BTM_SEC_IN_MIN_16_DIGIT_PIN \<noteq> 0
                 then upd_dev p (\<lambda>r. r\<lparr>sec_flags := sec_flags r AND
                        NOT (BTM_SEC_LINK_KEY_KNOWN OR BTM_SEC_LINK_KEY_AUTHED OR
                             BTM_SEC_AUTHENTICATED)\<rparr>) w
                 else w)
          in (BTM_CMD_STARTED, btm_sec_wait_and_start_authentication e p w1)
        else if sec_flags r AND BTM_SEC_ENCRYPTED = 0 \<and>
                ((IsLocallyInitiated r \<and>
                  security_required r AND BTM_SEC_OUT_ENCRYPT \<noteq> 0) \<or>
                 (\<not> IsLocallyInitiated r \<and>
                  security_required r AND BTM_SEC_IN_ENCRYPT \<noteq> 0)) \<and>
                hci_handle r \<noteq> HCI_INVALID_HANDLE
        then
          let w1 = emit (btsnd_hcic_set_conn_encrypt (hci_handle r) True) w
          in (BTM_CMD_STARTED,
              upd_dev p (\<lambda>r. r\<lparr>sec_state := BTM_SEC_STATE_ENCRYPTING\<rparr>) w1)
        else if security_required r AND BTM_SEC_MODE4_LEVEL4 \<noteq> 0 \<and>
                link_key_type r \<noteq> BTM_LKEY_TYPE_AUTH_COMB_P_256
        then (BTM_FAILED_ON_SECURITY, w)
        else if access_secure_service_from_temp_bond r (IsLocallyInitiated r)
                  (security_required r)
        then (BTM_FAILED_ON_SECURITY, w)
        else
          (BTM_SUCCESS,
           upd_dev p (\<lambda>r. r\<lparr>security_required := security_required r AND
              NOT (BTM_SEC_OUT_AUTHENTICATE OR BTM_SEC_IN_AUTHENTICATE OR
                   BTM_SEC_OUT_ENCRYPT OR BTM_SEC_IN_ENCRYPT)\<rparr>) w))"

subsection \<open>Requests for encryption and for access\<close>

text \<open>Modelled from the spec: \<open>BTM_IsAclConnectionUp\<close> and \<open>BTM_GetHCIConnHandle\<close> belong
  to the ACL layer (acl_api.h), which is not among the sources: a link is up when the ACL
  table holds it, and the handle of a link that is not up is the invalid handle.
  \<open>btm_find_or_alloc_dev\<close> (btm_dev.cc) finds the record of an address or allocates one.\<close>

definition BTM_IsAclConnectionUp :: "tBTM_CB \<Rightarrow> RawAddress \<Rightarrow> tBT_TRANSPORT \<Rightarrow> bool" where
  "BTM_IsAclConnectionUp w a tr \<longleftrightarrow> acl_links w a tr \<noteq> None"


definition btm_find_or_alloc_dev :: "env \<Rightarrow> RawAddress \<Rightarrow> tBTM_CB \<Rightarrow> nat option \<times> tBTM_CB" where
  "btm_find_or_alloc_dev e a w =
     (case btm_find_dev w a of Some p \<Rightarrow> (Some p, w) | None \<Rightarrow> btm_sec_alloc_dev e a w)"

definition btm_sec_queue_mx_request ::
  "RawAddress \<Rightarrow> 16 word \<Rightarrow> bool \<Rightarrow> 16 word \<Rightarrow> tBTM_SEC_CALLBACK option \<Rightarrow> nat \<Rightarrow> tBTM_CB \<Rightarrow> tBTM_CB"
  where
  "btm_sec_queue_mx_request a psm is_orig security_req cb ref w =
     w\<lparr>sec_pending_q := sec_pending_q w @
        [\<lparr>q_bd_addr = a, q_psm = psm, q_is_orig = is_orig, q_p_callback = cb,
          q_p_ref_data = ref, q_transport = BT_TRANSPORT_BR_EDR,
          q_sec_act = BTM_BLE_SEC_NONE,
          q_rfcomm_security_requirement = security_req\<rparr>]\<rparr>"

text \<open>An encryption request has PSM 0. The code leaves \<open>is_orig\<close> and
  \<open>rfcomm_security_requirement\<close> of such an entry as allocated; nothing reads them.\<close>

definition btm_sec_queue_encrypt_request ::
  "RawAddress \<Rightarrow> tBT_TRANSPORT \<Rightarrow> tBTM_SEC_CALLBACK option \<Rightarrow> nat \<Rightarrow> tBTM_BLE_SEC_ACT \<Rightarrow> tBTM_CB \<Rightarrow> tBTM_CB"
  where
  "btm_sec_queue_encrypt_request a tr cb ref sec_act w =
     w\<lparr>sec_pending_q := sec_pending_q w @
        [\<lparr>q_bd_addr = a, q_psm = 0, q_is_orig = False, q_p_callback = cb,
          q_p_ref_data = ref, q_transport = tr, q_sec_act = sec_act,
          q_rfcomm_security_requirement = 0\<rparr>]\<rparr>"

text \<open>\<open>do_in_main_thread(FROM_HERE, base::Bind(p_callback, ...))\<close> under \<open>if (p_callback)\<close>.\<close>

definition post_callback ::
  "tBTM_SEC_CALLBACK option \<Rightarrow> RawAddress \<Rightarrow> tBT_TRANSPORT \<Rightarrow> nat \<Rightarrow> tBTM_STATUS \<Rightarrow> tBTM_CB \<Rightarrow> tBTM_CB"
  where
  "post_callback cb a tr ref st w =
     (case cb of None \<Rightarrow> w | Some c \<Rightarrow> emit (do_in_main_thread c a tr ref st) w)"

definition BTM_SetEncryption ::
  "env \<Rightarrow> RawAddress \<Rightarrow> tBT_TRANSPORT \<Rightarrow> tBTM_SEC_CALLBACK option \<Rightarrow> nat \<Rightarrow> tBTM_BLE_SEC_ACT \<Rightarrow>
   tBTM_CB \<Rightarrow> tBTM_STATUS \<times> tBTM_CB" where
  "BTM_SetEncryption e a transport cb ref sec_act w =
     (case btm_find_dev w a of
        None \<Rightarrow> (BTM_WRONG_MODE, w)
      | Some p \<Rightarrow>
          let r = dev w p in
          if transport = BT_TRANSPORT_BR_EDR \<and> hci_handle r = HCI_INVALID_HANDLE
          then (BTM_WRONG_MODE, post_callback cb a transport ref BTM_WRONG_MODE w)
          else if transport = BT_TRANSPORT_BR_EDR \<and> sec_flags r AND BTM_SEC_ENCRYPTED \<noteq> 0
          then (BTM_SUCCESS, post_callback cb a transport ref BTM_SUCCESS w)
          else if transport = BT_TRANSPORT_LE \<and> ble_hci_handle r = HCI_INVALID_HANDLE
          then (BTM_WRONG_MODE, post_callback cb a transport ref BTM_WRONG_MODE w)
          else if transport = BT_TRANSPORT_LE \<and> sec_flags r AND BTM_SEC_LE_ENCRYPTED \<noteq> 0
          then (BTM_SUCCESS, post_callback cb a transport ref BTM_SUCCESS w)
          else if p_callback r \<noteq> None \<or> sec_state r \<noteq> BTM_SEC_STATE_IDLE
          then (BTM_CMD_STARTED, btm_sec_queue_encrypt_request a transport cb ref sec_act w)
          else
            let w1 = upd_dev p (\<lambda>r. r\<lparr>p_callback := cb, p_ref_data := ref,
                       security_required := security_required r OR
                         (BTM_SEC_IN_AUTHENTICATE OR BTM_SEC_IN_ENCRYPT),
                       is_originator := False\<rparr>) w;
                (rc, w2) =
                  (case transport of
                     BT_TRANSPORT_LE \<Rightarrow>
                       if BTM_IsAclConnectionUp w1 a BT_TRANSPORT_LE
                       then run_ble_set_encryption e a sec_act (L2CA_GetBleConnRole e a)
                              (emit (btm_ble_set_encryption a sec_act
                                       (L2CA_GetBleConnRole e a)) w1)
                       else (BTM_WRONG_MODE, w1)
                   | BT_TRANSPORT_BR_EDR \<Rightarrow> btm_sec_execute_procedure e p w1
                   | BT_TRANSPORT_AUTO \<Rightarrow> (BTM_SUCCESS, w1))
            in
            if rc = BTM_CMD_STARTED \<or> rc = BTM_BUSY then (rc, w2)
            else
              (case cb of
                 None \<Rightarrow> (rc, w2)
               | Some c \<Rightarrow>
                   let w3 = upd_dev p (\<lambda>r. r\<lparr>p_callback := None\<rparr>) w2
                   in (rc, emit (do_in_main_thread c a transport
                                   (p_ref_data (dev w3 p)) rc) w3)))"

text \<open>The table \<open>btm_sec_io_map[BTM_IO_CAP_MAX][BTM_IO_CAP_MAX]\<close>: true where an
  authenticated link key is possible. The initialiser gives four rows of four entries;
  the other entries of the array are zero, that is, false.\<close>

definition btm_sec_io_map :: "bool list list" where
  "btm_sec_io_map =
     [[False, False, True, False],
      [False, True, True, False],
      [True, True, True, False],
      [False, False, False, False]]"

definition io_map_at :: "8 word \<Rightarrow> 8 word \<Rightarrow> bool" where
  "io_map_at i j \<longleftrightarrow>
     unat i < length btm_sec_io_map \<and> unat j < length (btm_sec_io_map ! unat i) \<and>
     btm_sec_io_map ! unat i ! unat j"

definition btm_sec_is_upgrade_possible :: "tBTM_CB \<Rightarrow> nat \<Rightarrow> bool \<Rightarrow> bool" where
  "btm_sec_is_upgrade_possible w p is_orig =
     (let r = dev w p;
          mtm_check = (if is_orig then BTM_SEC_OUT_MITM else BTM_SEC_IN_MITM)
      in if sec_flags r AND BTM_SEC_LINK_KEY_KNOWN \<noteq> 0
         then security_required r AND mtm_check \<noteq> 0 \<and>
              (link_key_type r = BTM_LKEY_TYPE_UNAUTH_COMB \<or>
               link_key_type r = BTM_LKEY_TYPE_UNAUTH_COMB_P_256) \<and>
              rmt_io_caps r < BTM_IO_CAP_MAX \<and>
              io_map_at (rmt_io_caps r) (loc_io_caps w)
         else True)"

definition btm_sec_check_upgrade :: "nat \<Rightarrow> bool \<Rightarrow> tBTM_CB \<Rightarrow> tBTM_CB" where
  "btm_sec_check_upgrade p is_orig w =
     (if sec_flags (dev w p) AND BTM_SEC_LINK_KEY_KNOWN = 0 then w
      else if btm_sec_is_upgrade_possible w p is_orig
      then upd_dev p (\<lambda>r. r\<lparr>sm4 := sm4 r OR BTM_SM4_UPGRADE,
             sec_flags := (sec_flags r AND
                NOT (BTM_SEC_LINK_KEY_KNOWN OR BTM_SEC_LINK_KEY_AUTHED)) AND
                NOT BTM_SEC_AUTHENTICATED\<rparr>) w
      else w)"

text \<open>A call \<open>(*p_callback)(...)\<close> under \<open>if (p_callback)\<close>, and one without the test: a call
  through a null pointer has no defined behaviour.\<close>

definition call_if_set ::
  "env \<Rightarrow> tBTM_SEC_CALLBACK option \<Rightarrow> RawAddress \<Rightarrow> tBT_TRANSPORT \<Rightarrow> nat \<Rightarrow> tBTM_STATUS \<Rightarrow>
   tBTM_CB \<Rightarrow> tBTM_CB" where
  "call_if_set e cb a tr ref st w =
     (case cb of None \<Rightarrow> w | Some c \<Rightarrow> invoke_callback e c a tr ref st w)"


definition BT_PSM_RFCOMM :: "16 word" where "BT_PSM_RFCOMM = 0x0003"

text \<open>\<open>btm_sec_mx_access_request\<close>. Its local \<open>bool transport = false\<close> reaches the callback
  as the transport of value 0, \<open>BT_TRANSPORT_AUTO\<close>. The record comes from
  \<open>btm_find_or_alloc_dev\<close> and is used without a test: the use of a null pointer has no
  defined behaviour.\<close>

definition btm_sec_mx_access_request ::
  "env \<Rightarrow> RawAddress \<Rightarrow> bool \<Rightarrow> 16 word \<Rightarrow> tBTM_SEC_CALLBACK option \<Rightarrow> nat \<Rightarrow> tBTM_CB \<Rightarrow>
   tBTM_STATUS \<times> tBTM_CB" where
  "btm_sec_mx_access_request e a is_orig security_req cb ref w =
     (case btm_find_or_alloc_dev e a w of
        (None, w0) \<Rightarrow> undefined
      | (Some p, w0) \<Rightarrow>
          let r = dev w0 p in
          if p_callback r \<noteq> None \<or> pairing_state w0 \<noteq> BTM_PAIR_STATE_IDLE
          then
            let rc1 =
                  (if security_mode w0 = BTM_SEC_MODE_SERVICE \<or> BTM_SM4_KNOWN = sm4 r \<or>
                      (BTM_SEC_IS_SM4 (sm4 r) \<and> \<not> btm_sec_is_upgrade_possible w0 p is_orig)
                   then
                     let rc =
                           (if is_orig
                            then
                              (if security_req AND BTM_SEC_OUT_FLAGS = 0 \<or>
                                  (security_req AND BTM_SEC_OUT_FLAGS =
                                     BTM_SEC_OUT_AUTHENTICATE \<and>
                                   btm_dev_authenticated r) \<or>
                                  (security_req AND BTM_SEC_OUT_FLAGS =
                                     (BTM_SEC_OUT_AUTHENTICATE OR BTM_SEC_OUT_ENCRYPT) \<and>
                                   btm_dev_encrypted r)
                               then BTM_SUCCESS else BTM_CMD_STARTED)
                            else
                              (if security_req AND BTM_SEC_IN_FLAGS = 0 \<or>
                                  (security_req AND BTM_SEC_IN_FLAGS =
                                     BTM_SEC_IN_AUTHENTICATE \<and>
                                   btm_dev_authenticated r) \<or>
                                  (security_req AND BTM_SEC_IN_FLAGS =
                                     (BTM_SEC_IN_AUTHENTICATE OR BTM_SEC_IN_ENCRYPT) \<and>
                                   btm_dev_encrypted r)
                               then
                                 (if security_req AND BTM_SEC_IN_MIN_16_DIGIT_PIN = 0 \<or>
                                     (security_req AND BTM_SEC_IN_MIN_16_DIGIT_PIN =
                                        BTM_SEC_IN_MIN_16_DIGIT_PIN \<and>
                                      btm_dev_16_digit_authenticated r)
                                  then BTM_SUCCESS else BTM_CMD_STARTED)
                               else BTM_CMD_STARTED))
                     in if rc = BTM_SUCCESS \<and> security_req AND BTM_SEC_MODE4_LEVEL4 \<noteq> 0 \<and>
                           link_key_type r \<noteq> BTM_LKEY_TYPE_AUTH_COMB_P_256
                        then BTM_CMD_STARTED else rc
                   else BTM_CMD_STARTED);
                rc2 = (if sec_state r \<noteq> BTM_SEC_STATE_IDLE then BTM_CMD_STARTED else rc1)
            in
            if rc2 = BTM_CMD_STARTED
            then (rc2, btm_sec_queue_mx_request a BT_PSM_RFCOMM is_orig security_req cb ref w0)
            else
              let rc3 = (if access_secure_service_from_temp_bond r is_orig security_req
                         then BTM_FAILED_ON_SECURITY else rc2)
              in (rc3, call_if_set e cb a BT_TRANSPORT_AUTO ref rc3 w0)
          else if \<not> is_orig \<and>
                  (security_req AND BTM_SEC_MODE4_LEVEL4 \<noteq> 0 \<or>
                   security_mode w0 = BTM_SEC_MODE_SC) \<and>
                  (\<not> supports_secure_connections e \<or> \<not> SupportsSecureConnections r)
          then (BTM_MODE4_LEVEL4_NOT_SUPPORTED,
                call_if_set e cb a BT_TRANSPORT_AUTO ref BTM_MODE4_LEVEL4_NOT_SUPPORTED w0)
          else
            let sr1 = (if security_req AND BTM_SEC_OUT_AUTHENTICATE \<noteq> 0
                       then security_req OR BTM_SEC_OUT_MITM else security_req);
                sr2 = (if sr1 AND BTM_SEC_IN_AUTHENTICATE \<noteq> 0
                       then sr1 OR BTM_SEC_IN_MITM else sr1);
                w1 = upd_dev p (\<lambda>r. r\<lparr>required_security_flags_for_pairing := sr2,
                       security_required := sr2\<rparr>) w0;
                w2 =
                  (if security_mode w1 = BTM_SEC_MODE_SP \<or> security_mode w1 = BTM_SEC_MODE_SC
                   then
                     if BTM_SEC_IS_SM4 (sm4 (dev w1 p))
                     then
                       if security_required (dev w1 p) AND BTM_SEC_MODE4_LEVEL4 \<noteq> 0 \<and>
                          link_key_type (dev w1 p) \<noteq> BTM_LKEY_TYPE_AUTH_COMB_P_256
                       then upd_dev p (\<lambda>r. r\<lparr>
                              sm4 := (if sec_flags r AND BTM_SEC_LINK_KEY_KNOWN \<noteq> 0
                                      then sm4 r OR BTM_SM4_UPGRADE else sm4 r),
                              sec_flags := sec_flags r AND
                                NOT (BTM_SEC_LINK_KEY_KNOWN OR BTM_SEC_LINK_KEY_AUTHED OR
                                     BTM_SEC_AUTHENTICATED)\<rparr>) w1
                       else btm_sec_check_upgrade p is_orig w1
                     else w1
                   else w1);
                w3 = upd_dev p (\<lambda>r. r\<lparr>is_originator := is_orig, p_callback := cb,
                       p_ref_data := ref\<rparr>) w2;
                (rc, w4) = btm_sec_execute_procedure e p w3
            in
            if rc \<noteq> BTM_CMD_STARTED
            then
              (case cb of
                 None \<Rightarrow> (rc, w4)
               | Some c \<Rightarrow>
                   (rc, invoke_callback e c a BT_TRANSPORT_AUTO ref rc
                          (upd_dev p (\<lambda>r. r\<lparr>p_callback := None\<rparr>) w4)))
            else (rc, w4))"


subsection \<open>The queue of pending requests and the delivery of the stored callback\<close>

text \<open>The loop of \<open>btm_sec_check_pending_reqs\<close> over the queue that it has taken out of the
  control block.\<close>

fun resubmit_all :: "env \<Rightarrow> tBTM_SEC_QUEUE_ENTRY list \<Rightarrow> tBTM_CB \<Rightarrow> tBTM_CB" where
  "resubmit_all e [] w = w"
| "resubmit_all e (p_e # bq) w =
     resubmit_all e bq
       (if BTM_IsAclConnectionUp w (q_bd_addr p_e) (q_transport p_e)
        then
          if q_psm p_e \<noteq> 0
          then snd (btm_sec_mx_access_request e (q_bd_addr p_e) (q_is_orig p_e)
                      (q_rfcomm_security_requirement p_e) (q_p_callback p_e)
                      (q_p_ref_data p_e) w)
          else snd (BTM_SetEncryption e (q_bd_addr p_e) (q_transport p_e)
                      (q_p_callback p_e) (q_p_ref_data p_e) (q_sec_act p_e) w)
        else w)"

definition btm_sec_check_pending_reqs :: "env \<Rightarrow> tBTM_CB \<Rightarrow> tBTM_CB" where
  "btm_sec_check_pending_reqs e w =
     (if pairing_state w = BTM_PAIR_STATE_IDLE
      then
        let w1 = (if sec_req_pending w
                  then run_l2cu_resubmit e None
                         (emit (l2cu_resubmit_pending_sec_req None)
                            (w\<lparr>sec_req_pending := False\<rparr>))
                  else w);
            bq = sec_pending_q w1;
            w2 = w1\<lparr>sec_pending_q := []\<rparr>
        in resubmit_all e bq w2
      else w)"

definition btm_sec_dev_rec_cback_event ::
  "env \<Rightarrow> nat \<Rightarrow> tBTM_STATUS \<Rightarrow> bool \<Rightarrow> tBTM_CB \<Rightarrow> tBTM_CB" where
  "btm_sec_dev_rec_cback_event e p btm_status is_le_transport w =
     (let cb = p_callback (dev w p);
          w1 = upd_dev p (\<lambda>r. r\<lparr>p_callback := None\<rparr>) w;
          w2 = (case cb of
                  None \<Rightarrow> w1
                | Some c \<Rightarrow>
                    if is_le_transport
                    then invoke_callback e c (ble_pseudo_addr (dev w1 p)) BT_TRANSPORT_LE
                           (p_ref_data (dev w1 p)) btm_status w1
                    else invoke_callback e c (bd_addr (dev w1 p)) BT_TRANSPORT_BR_EDR
                           (p_ref_data (dev w1 p)) btm_status w1)
      in btm_sec_check_pending_reqs e w2)"

subsection \<open>Collisions, the retry for a missing key, and the two completion events\<close>

text \<open>Modelled from the spec: the values of \<open>BTM_AUTH_SP_NO\<close>, \<open>BTM_LE_KEY_NONE\<close>,
  \<open>L2CAP_FIXED_CHNL_SMP_BR_BIT\<close> and \<open>RawAddress::kAny\<close> come from headers that are not
  among the sources.\<close>

definition BTM_AUTH_SP_NO :: "8 word" where "BTM_AUTH_SP_NO = 0"
definition BTM_LE_KEY_NONE :: "8 word" where "BTM_LE_KEY_NONE = 0"
definition L2CAP_FIXED_CHNL_SMP_BR_BIT :: "8 word" where "L2CAP_FIXED_CHNL_SMP_BR_BIT = 0x80"
definition kAny :: RawAddress where "kAny = 0xFFFFFFFFFFFF"

definition btm_restore_mode :: "tBTM_CB \<Rightarrow> tBTM_CB" where
  "btm_restore_mode w =
     (let w1 = (if security_mode_changed w
                then emit (btsnd_hcic_write_auth_enable False)
                       (w\<lparr>security_mode_changed := False\<rparr>)
                else w)
      in if pin_type_changed w1
         then emit (btsnd_hcic_write_pin_type (cfg_pin_type w1))
                (w1\<lparr>pin_type_changed := False\<rparr>)
         else w1)"

definition btm_sec_find_dev_by_sec_state :: "tBTM_CB \<Rightarrow> tSECURITY_STATE \<Rightarrow> nat option" where
  "btm_sec_find_dev_by_sec_state w state =
     find_index (\<lambda>r. sec_state r = state) (sec_dev_rec w)"

definition btm_sec_change_pairing_state :: "env \<Rightarrow> tBTM_PAIRING_STATE \<Rightarrow> tBTM_CB \<Rightarrow> tBTM_CB" where
  "btm_sec_change_pairing_state e new_state w =
     (let old_state = pairing_state w;
          w1 = w\<lparr>pairing_state := new_state\<rparr>
      in if new_state = BTM_PAIR_STATE_IDLE
         then
           let w2 = emit alarm_cancel_pairing_timer w1;
               w3 = w2\<lparr>pairing_flags := 0, pin_code_len := 0\<rparr>;
               w4 = call_out e (l2cu_update_lcb_4_bonding (pairing_bda w3) False) w3;
               w5 = btm_restore_mode w4;
               w6 = btm_sec_check_pending_reqs e w5;
               w7 = call_out e btm_inq_clear_ssp w6
           in w7\<lparr>pairing_bda := kAny\<rparr>
         else
           let w2 = (if old_state = BTM_PAIR_STATE_IDLE
                     then call_out e (l2cu_update_lcb_4_bonding (pairing_bda w1) True) w1
                     else w1)
           in emit alarm_set_pairing_timer w2)"

text \<open>\<open>btm_sec_auth_collision\<close> reads the boot-time clock twice: \<open>t1\<close> is the reading that
  becomes the start of the collision window when no window is open, \<open>t2\<close> the reading that
  is compared with the start. The difference and the comparison are unsigned, on 64
  bits.\<close>

definition btm_sec_auth_collision :: "64 word \<Rightarrow> 64 word \<Rightarrow> 16 word \<Rightarrow> tBTM_CB \<Rightarrow> tBTM_CB" where
  "btm_sec_auth_collision t1 t2 handle w =
     (let w1 = (if collision_start_time w = 0 then w\<lparr>collision_start_time := t1\<rparr> else w)
      in if t2 - collision_start_time w1 < BTM_SEC_MAX_COLLISION_DELAY
         then
           let p_dev_rec =
                 (if handle = HCI_INVALID_HANDLE
                  then
                    (case btm_sec_find_dev_by_sec_state w1 BTM_SEC_STATE_AUTHENTICATING of
                       None \<Rightarrow> btm_sec_find_dev_by_sec_state w1 BTM_SEC_STATE_ENCRYPTING
                     | Some p \<Rightarrow> Some p)
                  else btm_find_dev_by_handle w1 handle)
           in case p_dev_rec of
                None \<Rightarrow> w1
              | Some p \<Rightarrow>
                  let w2 = (if sec_state (dev w1 p) = BTM_SEC_STATE_AUTHENTICATING \<or>
                               is_security_state_bredr_encrypting (dev w1 p)
                            then upd_dev p (\<lambda>r. r\<lparr>sec_state := BTM_SEC_STATE_IDLE\<rparr>) w1
                            else w1);
                      w3 = w2\<lparr>p_collided_dev_rec := Some p\<rparr>
                  in emit (alarm_set_sec_collision_timer BT_1SEC_TIMEOUT_MS) w3
         else w1)"

text \<open>\<open>btm_sec_collision_timeout\<close>, the expiry of the collision timer.
  \<open>btm_sec_execute_procedure\<close> and \<open>btm_sec_dev_rec_cback_event\<close> stop the program on a
  null record (\<open>CHECK\<close>, \<open>ASSERT\<close>): nothing is defined after that.\<close>

definition btm_sec_collision_timeout :: "env \<Rightarrow> tBTM_CB \<Rightarrow> tBTM_CB" where
  "btm_sec_collision_timeout e w =
     (case p_collided_dev_rec w of
        None \<Rightarrow> undefined
      | Some p \<Rightarrow>
          (case btm_sec_execute_procedure e p w of
             (status, w1) \<Rightarrow>
               if status \<noteq> BTM_CMD_STARTED
               then
                 (case p_collided_dev_rec w1 of
                    None \<Rightarrow> undefined
                  | Some q \<Rightarrow> btm_sec_dev_rec_cback_event e q status False w1)
               else w1))"

definition btm_sec_auth_retry :: "env \<Rightarrow> 16 word \<Rightarrow> tHCI_STATUS \<Rightarrow> tBTM_CB \<Rightarrow> bool \<times> tBTM_CB" where
  "btm_sec_auth_retry e handle status w =
     (case btm_find_dev_by_handle w handle of
        None \<Rightarrow> (False, w)
      | Some p \<Rightarrow>
          let old_sm4 = sm4 (dev w p);
              w1 = upd_dev p (\<lambda>r. r\<lparr>sm4 := sm4 r AND NOT BTM_SM4_RETRY\<rparr>) w
          in if pairing_state w1 = BTM_PAIR_STATE_IDLE \<and> old_sm4 AND BTM_SM4_RETRY = 0 \<and>
                HCI_ERR_KEY_MISSING = status \<and> BTM_SEC_IS_SM4 (sm4 (dev w1 p))
             then
               let w2 = btm_restore_mode (w1\<lparr>collision_start_time := 0\<rparr>);
                   w3 = upd_dev p (\<lambda>r. r\<lparr>sm4 := sm4 r OR BTM_SM4_RETRY,
                          sec_flags := sec_flags r AND NOT BTM_SEC_LINK_KEY_KNOWN,
                          sec_state := BTM_SEC_STATE_IDLE\<rparr>) w2
               in (True, snd (btm_sec_execute_procedure e p w3))
             else (False, w1))"

definition btm_sec_send_hci_disconnect ::
  "env \<Rightarrow> nat \<Rightarrow> tHCI_STATUS \<Rightarrow> 16 word \<Rightarrow> tBTM_CB \<Rightarrow> tBTM_STATUS \<times> tBTM_CB" where
  "btm_sec_send_hci_disconnect e p reason conn_handle w =
     (let old_state = sec_state (dev w p);
          send = (\<lambda>w. (BTM_CMD_STARTED,
                    call_out e (acl_disconnect_after_role_switch conn_handle reason) w))
      in if old_state = BTM_SEC_STATE_DISCONNECTING
         then
           if conn_handle = hci_handle (dev w p) then (BTM_CMD_STARTED, w)
           else send (upd_dev p (\<lambda>r. r\<lparr>sec_state := BTM_SEC_STATE_DISCONNECTING_BOTH\<rparr>) w)
         else if old_state = BTM_SEC_STATE_DISCONNECTING_BLE
         then
           if conn_handle = ble_hci_handle (dev w p) then (BTM_CMD_STARTED, w)
           else send (upd_dev p (\<lambda>r. r\<lparr>sec_state := BTM_SEC_STATE_DISCONNECTING_BOTH\<rparr>) w)
         else if old_state = BTM_SEC_STATE_DISCONNECTING_BOTH
         then (BTM_CMD_STARTED, w)
         else
           send (upd_dev p (\<lambda>r. r\<lparr>sec_state :=
                   (if conn_handle = hci_handle r then BTM_SEC_STATE_DISCONNECTING
                    else BTM_SEC_STATE_DISCONNECTING_BLE)\<rparr>) w))"

text \<open>\<open>NotifyBondingChange\<close> and the other calls of the registered
  \<open>p_auth_complete_callback\<close>.\<close>

definition NotifyBondingChange :: "env \<Rightarrow> nat \<Rightarrow> tHCI_STATUS \<Rightarrow> tBTM_CB \<Rightarrow> tBTM_CB" where
  "NotifyBondingChange e p status w =
     (case p_auth_complete_callback w of
        None \<Rightarrow> w
      | Some f \<Rightarrow> call_out e (auth_complete_callback f (bd_addr (dev w p)) status) w)"

definition btm_sec_auth_complete ::
  "env \<Rightarrow> 64 word \<Rightarrow> 64 word \<Rightarrow> 16 word \<Rightarrow> tHCI_STATUS \<Rightarrow> tBTM_CB \<Rightarrow> tBTM_CB" where
  "btm_sec_auth_complete e t1 t2 handle status w =
     (let old_state = pairing_state w;
          p_dev_rec = btm_find_dev_by_handle w handle
      in
      if status = HCI_ERR_LMP_ERR_TRANS_COLLISION \<or>
         status = HCI_ERR_DIFF_TRANSACTION_COLLISION
      then btm_sec_auth_collision t1 t2 handle w
      else
        (case btm_sec_auth_retry e handle status w of
           (True, w1) \<Rightarrow> w1
         | (False, w1) \<Rightarrow>
             let w2 = btm_restore_mode (w1\<lparr>collision_start_time := 0\<rparr>) in
             (case p_dev_rec of
                None \<Rightarrow> w2
              | Some p \<Rightarrow>
                  let w3 = (if pairing_flags w2 AND BTM_PAIR_FLAGS_WE_STARTED_DD \<noteq> 0 \<and>
                               pairing_flags w2 AND BTM_PAIR_FLAGS_DISC_WHEN_DONE = 0
                            then
                              let w' = upd_dev p (\<lambda>r. r\<lparr>security_required :=
                                         security_required r AND
                                           NOT BTM_SEC_OUT_AUTHENTICATE\<rparr>) w2
                              in call_out e
                                   (l2cu_start_post_bond_timer (hci_handle (dev w' p))) w'
                            else w2);
                      was_authenticating =
                        (sec_state (dev w3 p) = BTM_SEC_STATE_AUTHENTICATING);
                      status1 =
                        (if was_authenticating \<and> status = HCI_ERR_COMMAND_DISALLOWED \<and>
                            sec_flags (dev w3 p) AND
                              (BTM_SEC_AUTHENTICATED OR BTM_SEC_ENCRYPTED) =
                              (BTM_SEC_AUTHENTICATED OR BTM_SEC_ENCRYPTED)
                         then HCI_SUCCESS else status);
                      w4 = (if was_authenticating
                            then upd_dev p (\<lambda>r. r\<lparr>sec_state := BTM_SEC_STATE_IDLE,
                                   sec_flags := (if status1 = HCI_SUCCESS
                                                 then sec_flags r OR BTM_SEC_AUTHENTICATED
                                                 else sec_flags r)\<rparr>) w3
                            else w3);
                      pairing_dev = (pairing_state w4 \<noteq> BTM_PAIR_STATE_IDLE \<and>
                                     bd_addr (dev w4 p) = pairing_bda w4);
                      are_bonding =
                        (pairing_dev \<and>
                         pairing_flags w4 AND BTM_PAIR_FLAGS_WE_STARTED_DD \<noteq> 0);
                      w5 = (if pairing_dev
                            then btm_sec_change_pairing_state e BTM_PAIR_STATE_IDLE w4
                            else w4)
                  in
                  if \<not> was_authenticating
                  then
                    if status1 \<noteq> HCI_SUCCESS \<and> old_state \<noteq> BTM_PAIR_STATE_IDLE
                    then NotifyBondingChange e p status1 w5
                    else w5
                  else
                    let w6 = (if old_state \<noteq> BTM_PAIR_STATE_IDLE \<or> status1 \<noteq> HCI_SUCCESS
                              then NotifyBondingChange e p status1 w5
                              else w5)
                    in
                    if are_bonding
                    then
                      let w7 = upd_dev p (\<lambda>r. r\<lparr>security_required :=
                                 security_required r AND NOT BTM_SEC_OUT_AUTHENTICATE\<rparr>) w6
                      in
                      if status1 \<noteq> HCI_SUCCESS
                      then
                        if status1 \<noteq> HCI_ERR_PEER_USER \<and>
                           status1 \<noteq> HCI_ERR_CONN_CAUSE_LOCAL_HOST
                        then snd (btm_sec_send_hci_disconnect e p HCI_ERR_PEER_USER
                                    (hci_handle (dev w7 p)) w7)
                        else w7
                      else
                        let role = BTM_GetRole e (bd_addr (dev w7 p));
                            w8 = (if role = HCI_ROLE_CENTRAL
                                  then snd (BTM_SetEncryption e (bd_addr (dev w7 p))
                                              BT_TRANSPORT_BR_EDR None 0 BTM_BLE_SEC_NONE w7)
                                  else if IsLocallyInitiated (dev w7 p)
                                  then call_out e
                                         (BTM_SwitchRoleToCentral (bd_addr (dev w7 p))) w7
                                  else w7)
                        in call_out e (l2cu_start_post_bond_timer (hci_handle (dev w8 p))) w8
                    else if status1 \<noteq> HCI_SUCCESS
                    then
                      let w7 = btm_sec_dev_rec_cback_event e p BTM_ERR_PROCESSING False w6
                      in if pairing_flags w7 AND BTM_PAIR_FLAGS_DISC_WHEN_DONE \<noteq> 0
                         then snd (btm_sec_send_hci_disconnect e p HCI_ERR_AUTH_FAILURE
                                     (hci_handle (dev w7 p)) w7)
                         else w7
                    else
                      let w7 = (if 16 \<le> pin_code_length (dev w6 p) \<or>
                                   link_key_type (dev w6 p) = BTM_LKEY_TYPE_AUTH_COMB \<or>
                                   link_key_type (dev w6 p) = BTM_LKEY_TYPE_AUTH_COMB_P_256
                                then upd_dev p (\<lambda>r. r\<lparr>sec_flags := sec_flags r OR
                                       BTM_SEC_16_DIGIT_PIN_AUTHED\<rparr>) w6
                                else w6)
                      in (case btm_sec_execute_procedure e p w7 of
                            (btm_status, w8) \<Rightarrow>
                              if btm_status \<noteq> BTM_CMD_STARTED
                              then btm_sec_dev_rec_cback_event e p btm_status False w8
                              else w8))))"

text \<open>The loop of \<open>btm_sec_check_pending_enc_req\<close> over the entries of the queue. An entry
  that is served is taken out of the queue.\<close>

fun pending_enc_loop ::
  "env \<Rightarrow> nat \<Rightarrow> tBT_TRANSPORT \<Rightarrow> 8 word \<Rightarrow> tBTM_STATUS \<Rightarrow> tBTM_SEC_QUEUE_ENTRY list \<Rightarrow>
   tBTM_CB \<Rightarrow> tBTM_CB" where
  "pending_enc_loop e p transport encr_enable res [] w = w"
| "pending_enc_loop e p transport encr_enable res (p_e # rest) w =
     pending_enc_loop e p transport encr_enable res rest
       (if q_bd_addr p_e = bd_addr (dev w p) \<and> q_psm p_e = 0 \<and> q_transport p_e = transport
        then
          if encr_enable = 0 \<or> transport = BT_TRANSPORT_BR_EDR \<or>
             q_sec_act p_e = BTM_BLE_SEC_ENCRYPT \<or>
             q_sec_act p_e = BTM_BLE_SEC_ENCRYPT_NO_MITM \<or>
             (q_sec_act p_e = BTM_BLE_SEC_ENCRYPT_MITM \<and>
              sec_flags (dev w p) AND BTM_SEC_LE_AUTHENTICATED \<noteq> 0)
          then
            let w1 = call_if_set e (q_p_callback p_e) (bd_addr (dev w p)) transport
                       (q_p_ref_data p_e) res w
            in w1\<lparr>sec_pending_q := remove1 p_e (sec_pending_q w1)\<rparr>
          else w
        else w)"

definition btm_sec_check_pending_enc_req ::
  "env \<Rightarrow> nat \<Rightarrow> tBT_TRANSPORT \<Rightarrow> 8 word \<Rightarrow> tBTM_CB \<Rightarrow> tBTM_CB" where
  "btm_sec_check_pending_enc_req e p transport encr_enable w =
     (if sec_pending_q w = [] then w
      else
        let res = (if encr_enable \<noteq> 0 then BTM_SUCCESS else BTM_ERR_PROCESSING)
        in pending_enc_loop e p transport encr_enable res (sec_pending_q w) w)"

definition btm_sec_use_smp_br_chnl :: "env \<Rightarrow> tBTM_SEC_DEV_REC \<Rightarrow> bool" where
  "btm_sec_use_smp_br_chnl e r =
     (if link_key_type r \<noteq> BTM_LKEY_TYPE_UNAUTH_COMB_P_256 \<and>
         link_key_type r \<noteq> BTM_LKEY_TYPE_AUTH_COMB_P_256
      then False
      else
        (case L2CA_GetPeerFeatures e (bd_addr r) of
           None \<Rightarrow> False
         | Some chnl_mask0 \<Rightarrow> chnl_mask0 AND L2CAP_FIXED_CHNL_SMP_BR_BIT \<noteq> 0))"

text \<open>\<open>btm_sec_encrypt_change\<close>. Its last test compares the HCI status with
  \<open>BTM_CMD_STARTED\<close>, the second value (1) of the enumeration \<open>tBTM_STATUS\<close>.\<close>

definition btm_sec_encrypt_change ::
  "env \<Rightarrow> 64 word \<Rightarrow> 64 word \<Rightarrow> 16 word \<Rightarrow> tHCI_STATUS \<Rightarrow> 8 word \<Rightarrow> tBTM_CB \<Rightarrow> tBTM_CB" where
  "btm_sec_encrypt_change e t1 t2 handle status encr_enable w =
     (if status = HCI_ERR_LMP_ERR_TRANS_COLLISION \<or>
         status = HCI_ERR_DIFF_TRANSACTION_COLLISION
      then btm_sec_auth_collision t1 t2 handle w
      else
        let w0 = w\<lparr>collision_start_time := 0\<rparr> in
        (case btm_find_dev_by_handle w0 handle of
           None \<Rightarrow> w0
         | Some p \<Rightarrow>
             let transport = (if BTM_IsBleConnection e handle then BT_TRANSPORT_LE
                              else BT_TRANSPORT_BR_EDR);
                 r0 = dev w0 p
             in
             if status = HCI_SUCCESS \<and> encr_enable \<noteq> 0 \<and> hci_handle r0 = handle \<and>
                sec_flags r0 AND BTM_SEC_AUTHENTICATED \<noteq> 0 \<and>
                sec_flags r0 AND BTM_SEC_ENCRYPTED \<noteq> 0
             then w0
             else
               let w1 =
                     (if status = HCI_SUCCESS
                      then
                        if encr_enable \<noteq> 0
                        then
                          if hci_handle r0 = handle
                          then upd_dev p (\<lambda>r. r\<lparr>sec_flags :=
                                 (if 16 \<le> pin_code_length r \<or>
                                     link_key_type r = BTM_LKEY_TYPE_AUTH_COMB \<or>
                                     link_key_type r = BTM_LKEY_TYPE_AUTH_COMB_P_256
                                  then (sec_flags r OR
                                          (BTM_SEC_AUTHENTICATED OR BTM_SEC_ENCRYPTED)) OR
                                       BTM_SEC_16_DIGIT_PIN_AUTHED
                                  else sec_flags r OR
                                         (BTM_SEC_AUTHENTICATED OR BTM_SEC_ENCRYPTED))\<rparr>) w0
                          else if ble_hci_handle r0 = handle
                          then upd_dev p (\<lambda>r. r\<lparr>sec_flags :=
                                 sec_flags r OR BTM_SEC_LE_ENCRYPTED\<rparr>) w0
                          else w0
                        else
                          if hci_handle r0 = handle
                          then upd_dev p (\<lambda>r. r\<lparr>sec_flags :=
                                 sec_flags r AND NOT BTM_SEC_ENCRYPTED\<rparr>) w0
                          else if ble_hci_handle r0 = handle
                          then upd_dev p (\<lambda>r. r\<lparr>sec_flags :=
                                 sec_flags r AND NOT BTM_SEC_LE_ENCRYPTED\<rparr>) w0
                          else w0
                      else w0);
                   w2 = btm_sec_check_pending_enc_req e p transport encr_enable w1
               in
               if transport = BT_TRANSPORT_LE
               then
                 let w3 = (if status = HCI_ERR_KEY_MISSING \<or> status = HCI_ERR_AUTH_FAILURE \<or>
                              status = HCI_ERR_ENCRY_MODE_NOT_ACCEPTABLE
                           then upd_dev p (\<lambda>r. r\<lparr>sec_flags :=
                                  sec_flags r AND NOT BTM_SEC_LE_LINK_KEY_KNOWN,
                                  ble_key_type := BTM_LE_KEY_NONE\<rparr>) w2
                           else w2);
                     w4 = upd_dev p (\<lambda>r. r\<lparr>sec_status := status\<rparr>) w3
                 in call_out e
                      (btm_ble_link_encrypted (ble_pseudo_addr (dev w4 p)) encr_enable) w4
               else
                 let w3 = upd_dev p (\<lambda>r. r\<lparr>enc_key_size := 16\<rparr>) w2;
                     w4 =
                       (if status = HCI_SUCCESS \<and> encr_enable \<noteq> 0 \<and>
                           hci_handle (dev w3 p) = handle
                        then
                          let derive_ltk =
                                \<not> (rmt_auth_req (dev w3 p) = BTM_AUTH_SP_NO \<and>
                                   loc_auth_req w3 = BTM_AUTH_SP_NO);
                              role = BTM_GetRole e (bd_addr (dev w3 p))
                          in
                          if new_encryption_key_is_p256 (dev w3 p) \<and>
                             btm_sec_use_smp_br_chnl e (dev w3 p) \<and>
                             role = HCI_ROLE_CENTRAL \<and>
                             (sec_flags (dev w3 p) AND BTM_SEC_LE_LINK_KEY_KNOWN = 0 \<or>
                              (sec_flags (dev w3 p) AND BTM_SEC_LE_LINK_KEY_AUTHED = 0 \<and>
                               sec_flags (dev w3 p) AND BTM_SEC_LINK_KEY_AUTHED \<noteq> 0)) \<and>
                             derive_ltk
                          then call_out e (SMP_BR_PairWith (bd_addr (dev w3 p)))
                                 (upd_dev p (\<lambda>r. r\<lparr>new_encryption_key_is_p256 := False\<rparr>) w3)
                          else w3
                        else w3);
                     finish =
                       (\<lambda>w4.
                          let w5 = upd_dev p (\<lambda>r. r\<lparr>sec_state := BTM_SEC_STATE_IDLE\<rparr>) w4
                          in if status \<noteq> HCI_SUCCESS
                             then btm_sec_dev_rec_cback_event e p BTM_ERR_PROCESSING False w5
                             else
                               (case btm_sec_execute_procedure e p w5 of
                                  (btm_status, w6) \<Rightarrow>
                                    if status \<noteq> 1
                                    then btm_sec_dev_rec_cback_event e p btm_status False w6
                                    else w6))
                 in
                 if \<not> is_security_state_bredr_encrypting (dev w4 p)
                 then
                   if sec_state (dev w4 p) = BTM_SEC_STATE_DELAY_FOR_ENC
                   then
                     let w5 = upd_dev p (\<lambda>r. r\<lparr>sec_state := BTM_SEC_STATE_IDLE,
                                p_callback := None\<rparr>) w4
                     in run_l2cu_resubmit e (Some (bd_addr (dev w5 p)))
                          (emit (l2cu_resubmit_pending_sec_req (Some (bd_addr (dev w5 p)))) w5)
                   else if \<not> concurrentPeerAuthIsEnabled e \<and>
                           sec_state (dev w4 p) = BTM_SEC_STATE_AUTHENTICATING
                   then upd_dev p (\<lambda>r. r\<lparr>sec_state := BTM_SEC_STATE_IDLE\<rparr>) w4
                   else if \<not> handleUnexpectedEncryptionChange e then w4
                   else finish w4
                 else finish w4))"

subsection \<open>Dedicated bonding\<close>

text \<open>Modelled from the spec: the constants below come from headers that are not among
  the sources (the class-of-device masks of btm_api_types.h, the device types and the
  public address type of bt_types.h and ble_address_with_type.h, \<open>PIN_CODE_LEN\<close>,
  \<open>HCI_PIN_TYPE_FIXED\<close>). \<open>BTM_IsAclConnectionUpAndHandleValid\<close> belongs to the ACL layer:
  the link is in the ACL table and its handle is not the invalid handle. The build option
  \<open>BTM_SEC_FORCE_RNR_FOR_DBOND\<close> has its default, \<open>FALSE\<close>.\<close>

definition PIN_CODE_LEN :: "8 word" where "PIN_CODE_LEN = 16"
definition HCI_PIN_TYPE_FIXED :: "8 word" where "HCI_PIN_TYPE_FIXED = 1"
definition BTM_COD_MAJOR_CLASS_MASK :: "8 word" where "BTM_COD_MAJOR_CLASS_MASK = 0x1F"
definition BTM_COD_MINOR_CLASS_MASK :: "8 word" where "BTM_COD_MINOR_CLASS_MASK = 0xFC"
definition BTM_COD_MAJOR_AUDIO :: "8 word" where "BTM_COD_MAJOR_AUDIO = 0x04"
definition BTM_COD_MAJOR_PERIPHERAL :: "8 word" where "BTM_COD_MAJOR_PERIPHERAL = 0x05"
definition BTM_COD_MINOR_KEYBOARD :: "8 word" where "BTM_COD_MINOR_KEYBOARD = 0x40"
definition BTM_COD_MINOR_CONFM_HANDSFREE :: "8 word" where
  "BTM_COD_MINOR_CONFM_HANDSFREE = 0x08"
definition BTM_COD_MINOR_CAR_AUDIO :: "8 word" where "BTM_COD_MINOR_CAR_AUDIO = 0x20"
definition BT_DEVICE_TYPE_BREDR :: "8 word" where "BT_DEVICE_TYPE_BREDR = 0x01"
definition BT_DEVICE_TYPE_BLE :: "8 word" where "BT_DEVICE_TYPE_BLE = 0x02"
definition BLE_ADDR_PUBLIC :: "8 word" where "BLE_ADDR_PUBLIC = 0x00"
definition BTM_SEC_LE_MASK :: "16 word" where
  "BTM_SEC_LE_MASK =
     (BTM_SEC_LE_AUTHENTICATED OR BTM_SEC_LE_ENCRYPTED OR BTM_SEC_LE_LINK_KEY_KNOWN OR
      BTM_SEC_LE_LINK_KEY_AUTHED)"

definition BTM_IsAclConnectionUpAndHandleValid ::
  "tBTM_CB \<Rightarrow> RawAddress \<Rightarrow> tBT_TRANSPORT \<Rightarrow> bool" where
  "BTM_IsAclConnectionUpAndHandleValid w a tr =
     (case acl_links w a tr of None \<Rightarrow> False | Some h \<Rightarrow> h \<noteq> HCI_INVALID_HANDLE)"

definition btm_sec_dd_create_conn :: "env \<Rightarrow> nat \<Rightarrow> tBTM_CB \<Rightarrow> tBTM_STATUS \<times> tBTM_CB" where
  "btm_sec_dd_create_conn e p w =
     (let status = l2cu_ConnectAclForSecurity_status e (bd_addr (dev w p));
          w1 = call_out e (l2cu_ConnectAclForSecurity (bd_addr (dev w p))) w
      in if status = BTM_CMD_STARTED
         then (BTM_CMD_STARTED, btm_sec_change_pairing_state e BTM_PAIR_STATE_WAIT_PIN_REQ w1)
         else if status = BTM_NO_RESOURCES
         then (BTM_NO_RESOURCES, w1)
         else
           let w2 = w1\<lparr>pairing_flags := pairing_flags w1 OR BTM_PAIR_FLAGS_DISC_WHEN_DONE\<rparr>
           in (BTM_CMD_STARTED,
               btm_sec_change_pairing_state e BTM_PAIR_STATE_WAIT_PIN_REQ w2))"

text \<open>\<open>BTM_PINCodeReply\<close>. The PIN is \<open>None\<close> for a null pointer; \<open>memcpy(btm_cb.pin_code,
  p_pin, pin_len)\<close> overwrites the first \<open>pin_len\<close> bytes of the stored PIN.\<close>

definition BTM_PINCodeReply ::
  "env \<Rightarrow> RawAddress \<Rightarrow> tBTM_STATUS \<Rightarrow> 8 word \<Rightarrow> 8 word list option \<Rightarrow> tBTM_CB \<Rightarrow> tBTM_CB" where
  "BTM_PINCodeReply e a res0 pin_len p_pin w =
     (if pairing_state w \<noteq> BTM_PAIR_STATE_WAIT_LOCAL_PIN then w
      else if a \<noteq> pairing_bda w then w
      else
        (case btm_find_dev w a of
           None \<Rightarrow> w
         | Some p \<Rightarrow>
             let res = (if PIN_CODE_LEN < pin_len \<or> pin_len = 0 \<or> p_pin = None
                        then BTM_ILLEGAL_VALUE else res0);
                 pin = (case p_pin of None \<Rightarrow> [] | Some b \<Rightarrow> b)
             in
             if res \<noteq> BTM_SUCCESS
             then
               if pairing_flags w AND BTM_PAIR_FLAGS_PEER_STARTED_DD \<noteq> 0 \<or>
                  (pairing_flags w AND BTM_PAIR_FLAGS_WE_STARTED_DD \<noteq> 0 \<and>
                   pairing_flags w AND BTM_PAIR_FLAGS_DISC_WHEN_DONE \<noteq> 0)
               then
                 let w1 = btm_sec_change_pairing_state e BTM_PAIR_STATE_WAIT_AUTH_COMPLETE w;
                     w2 = call_out e (acl_set_disconnect_reason HCI_ERR_HOST_REJECT_SECURITY) w1
                 in emit (btsnd_hcic_pin_code_neg_reply a) w2
               else
                 btm_sec_change_pairing_state e BTM_PAIR_STATE_IDLE
                   (upd_dev p (\<lambda>r. r\<lparr>security_required := BTM_SEC_NONE\<rparr>) w)
             else
               let w1 = upd_dev p (\<lambda>r. r\<lparr>sec_flags :=
                            (if 16 \<le> pin_len
                             then (sec_flags r OR BTM_SEC_LINK_KEY_AUTHED) OR
                                    BTM_SEC_16_DIGIT_PIN_AUTHED
                             else sec_flags r OR BTM_SEC_LINK_KEY_AUTHED),
                          pin_code_length := pin_len\<rparr>) w
               in
               if pairing_flags w1 AND BTM_PAIR_FLAGS_WE_STARTED_DD \<noteq> 0 \<and>
                  hci_handle (dev w1 p) = HCI_INVALID_HANDLE \<and> \<not> security_mode_changed w1
               then
                 let w2 = w1\<lparr>pin_code_len := pin_len,
                            pin_code := take (unat pin_len) pin @
                                        drop (unat pin_len) (pin_code w1),
                            security_mode_changed := True\<rparr>;
                     w3 = emit (btsnd_hcic_write_auth_enable True) w2;
                     w4 = call_out e (acl_set_disconnect_reason HCI_ERR_UNDEFINED) w3
                 in
                 if pairing_flags w4 AND BTM_PAIR_FLAGS_REJECTED_CONNECT \<noteq> 0
                 then btm_sec_change_pairing_state e BTM_PAIR_STATE_WAIT_PIN_REQ w4
                 else if sm4 (dev w4 p) AND BTM_SM4_CONN_PEND \<noteq> 0
                 then btm_sec_change_pairing_state e BTM_PAIR_STATE_WAIT_PIN_REQ w4
                 else
                   (case btm_sec_dd_create_conn e p w4 of
                      (st, w5) \<Rightarrow>
                        if st \<noteq> BTM_CMD_STARTED
                        then
                          let w6 = btm_sec_change_pairing_state e BTM_PAIR_STATE_IDLE w5;
                              w7 = upd_dev p (\<lambda>r. r\<lparr>sec_flags :=
                                     sec_flags r AND NOT BTM_SEC_LINK_KEY_AUTHED\<rparr>) w6
                          in NotifyBondingChange e p HCI_ERR_AUTH_FAILURE w7
                        else w5)
               else
                 let w2 = btm_sec_change_pairing_state e BTM_PAIR_STATE_WAIT_AUTH_COMPLETE w1;
                     w3 = call_out e (acl_set_disconnect_reason HCI_SUCCESS) w2
                 in emit (btsnd_hcic_pin_code_req_reply a pin_len pin) w3))"

definition btm_sec_check_prefetch_pin :: "env \<Rightarrow> nat \<Rightarrow> tBTM_CB \<Rightarrow> bool \<times> tBTM_CB" where
  "btm_sec_check_prefetch_pin e p w =
     (let major = dev_class (dev w p) ! 1 AND BTM_COD_MAJOR_CLASS_MASK;
          minor = dev_class (dev w p) ! 2 AND BTM_COD_MINOR_CLASS_MASK
      in if major = BTM_COD_MAJOR_AUDIO \<and>
            (minor = BTM_COD_MINOR_CONFM_HANDSFREE \<or> minor = BTM_COD_MINOR_CAR_AUDIO)
         then
           (False,
            if \<not> security_mode_changed w
            then emit (btsnd_hcic_write_auth_enable True) (w\<lparr>security_mode_changed := True\<rparr>)
            else w)
         else
           let w1 = btm_sec_change_pairing_state e BTM_PAIR_STATE_WAIT_LOCAL_PIN w
           in (True,
               if pin_code_len w1 \<noteq> 0
               then BTM_PINCodeReply e (bd_addr (dev w1 p)) BTM_SUCCESS (pin_code_len w1)
                      (Some (pin_code w1)) w1
               else
                 (case p_pin_callback w1 of
                    None \<Rightarrow> w1
                  | Some f \<Rightarrow>
                      if pairing_flags w1 AND BTM_PAIR_FLAGS_PIN_REQD = 0
                      then
                        let w2 = (if BTM_IsAclConnectionUp w1 (bd_addr (dev w1 p))
                                       BT_TRANSPORT_BR_EDR
                                  then w1\<lparr>pairing_flags :=
                                         pairing_flags w1 OR BTM_PAIR_FLAGS_PIN_REQD\<rparr>
                                  else w1)
                        in call_out e
                             (pin_callback f (bd_addr (dev w2 p)) (dev_class (dev w2 p))
                                (sec_bd_name (dev w2 p))
                                (required_security_flags_for_pairing (dev w2 p) AND
                                   BTM_SEC_IN_MIN_16_DIGIT_PIN \<noteq> 0)) w2
                      else w1)))"

text \<open>\<open>btm_sec_bond_by_transport\<close>. \<open>memcpy(btm_cb.pin_code, p_pin, PIN_CODE_LEN)\<close> copies the
  first \<open>PIN_CODE_LEN\<close> bytes of the caller's buffer.\<close>

definition btm_sec_bond_by_transport ::
  "env \<Rightarrow> RawAddress \<Rightarrow> 8 word \<Rightarrow> tBT_TRANSPORT \<Rightarrow> 8 word \<Rightarrow> 8 word list option \<Rightarrow> tBTM_CB \<Rightarrow>
   tBTM_STATUS \<times> tBTM_CB" where
  "btm_sec_bond_by_transport e a addr_type transport pin_len p_pin w =
     (if pairing_state w \<noteq> BTM_PAIR_STATE_IDLE then (BTM_WRONG_MODE, w)
      else
        (case btm_find_or_alloc_dev e a w of
           (None, w0) \<Rightarrow> (BTM_NO_RESOURCES, w0)
         | (Some p, w0) \<Rightarrow>
             if \<not> controller_get_is_ready e then (BTM_NO_RESOURCES, w0)
             else if (hci_handle (dev w0 p) \<noteq> HCI_INVALID_HANDLE \<and>
                      transport = BT_TRANSPORT_BR_EDR \<and>
                      sec_flags (dev w0 p) AND BTM_SEC_AUTHENTICATED \<noteq> 0) \<or>
                     (ble_hci_handle (dev w0 p) \<noteq> HCI_INVALID_HANDLE \<and>
                      transport = BT_TRANSPORT_LE \<and>
                      sec_flags (dev w0 p) AND BTM_SEC_LE_AUTHENTICATED \<noteq> 0)
             then (BTM_SUCCESS, w0)
             else
               let w1 = call_out e (BTM_DeleteStoredLinkKey a) w0 in
               if BTM_DeleteStoredLinkKey_status e a \<noteq> BTM_SUCCESS
               then (BTM_NO_RESOURCES, w1)
               else
                 let w2 = (case p_pin of
                             None \<Rightarrow> w1
                           | Some pin \<Rightarrow>
                               if pin_len \<le> PIN_CODE_LEN \<and> pin_len \<noteq> 0
                               then (upd_dev p (\<lambda>r. r\<lparr>pin_code_length := pin_len\<rparr>) w1)
                                      \<lparr>pin_code_len := pin_len,
                                       pin_code := take (unat PIN_CODE_LEN) pin\<rparr>
                               else w1);
                     w3 = w2\<lparr>pairing_bda := a, pairing_flags := BTM_PAIR_FLAGS_WE_STARTED_DD\<rparr>;
                     w4 = upd_dev p (\<lambda>r. r\<lparr>security_required := BTM_SEC_OUT_AUTHENTICATE,
                            is_originator := True\<rparr>) w3
                 in
                 if transport = BT_TRANSPORT_LE
                 then
                   let w5 = call_out e (btm_ble_init_pseudo_addr p a) w4;
                       w6 = upd_dev p (\<lambda>r. r\<lparr>sec_flags :=
                              sec_flags r AND NOT BTM_SEC_LE_MASK\<rparr>) w5;
                       w7 = call_out e (SMP_Pair a addr_type) w6
                   in
                   if SMP_Pair_started e a addr_type
                   then
                     let w8 = w7\<lparr>pairing_flags :=
                                pairing_flags w7 OR BTM_PAIR_FLAGS_LE_ACTIVE\<rparr>;
                         w9 = upd_dev p (\<lambda>r. r\<lparr>sec_state :=
                                BTM_SEC_STATE_AUTHENTICATING\<rparr>) w8
                     in (BTM_CMD_STARTED,
                         btm_sec_change_pairing_state e BTM_PAIR_STATE_WAIT_AUTH_COMPLETE w9)
                   else (BTM_NO_RESOURCES, w7\<lparr>pairing_flags := 0\<rparr>)
                 else
                   let w5 = upd_dev p (\<lambda>r. r\<lparr>sec_flags := sec_flags r AND
                              NOT (BTM_SEC_LINK_KEY_KNOWN OR BTM_SEC_AUTHENTICATED OR
                                   BTM_SEC_ENCRYPTED OR BTM_SEC_ROLE_SWITCHED OR
                                   BTM_SEC_LINK_KEY_AUTHED)\<rparr>) w4;
                       w6 = (if \<not> controller_supports_simple_pairing e \<and>
                                dev_class (dev w5 p) ! 1 AND BTM_COD_MAJOR_CLASS_MASK =
                                  BTM_COD_MAJOR_PERIPHERAL \<and>
                                dev_class (dev w5 p) ! 2 AND BTM_COD_MINOR_KEYBOARD \<noteq> 0 \<and>
                                cfg_pin_type w5 \<noteq> HCI_PIN_TYPE_FIXED
                             then emit (btsnd_hcic_write_pin_type HCI_PIN_TYPE_FIXED)
                                    (w5\<lparr>pin_type_changed := True\<rparr>)
                             else w5)
                   in
                   if BTM_IsAclConnectionUpAndHandleValid w6 a transport
                   then
                     let w7 = btm_sec_wait_and_start_authentication e p w6;
                         w8 = btm_sec_change_pairing_state e BTM_PAIR_STATE_WAIT_PIN_REQ w7
                     in (BTM_CMD_STARTED, call_out e (l2cu_update_lcb_4_bonding a True) w8)
                   else
                     (case (if \<not> controller_supports_simple_pairing e \<or>
                               sm4 (dev w6 p) = BTM_SM4_KNOWN
                            then btm_sec_check_prefetch_pin e p w6
                            else (False, w6)) of
                        (True, w7) \<Rightarrow> (BTM_CMD_STARTED, w7)
                      | (False, w7) \<Rightarrow>
                          (case (if (security_mode w7 = BTM_SEC_MODE_SP \<or>
                                     security_mode w7 = BTM_SEC_MODE_SC) \<and>
                                    BTM_SEC_IS_SM4_UNKNOWN (sm4 (dev w7 p))
                                 then
                                   if sm4 (dev w7 p) AND BTM_SM4_CONN_PEND = 0
                                   then
                                     (BTM_ReadRemoteDeviceName_status e a,
                                      call_out e
                                        (BTM_ReadRemoteDeviceName a BT_TRANSPORT_BR_EDR)
                                        (btm_sec_change_pairing_state e
                                           BTM_PAIR_STATE_GET_REM_NAME w7))
                                   else
                                     (BTM_CMD_STARTED,
                                      btm_sec_change_pairing_state e
                                        BTM_PAIR_STATE_WAIT_PIN_REQ w7)
                                 else btm_sec_dd_create_conn e p w7) of
                             (status, w8) \<Rightarrow>
                               if status \<noteq> BTM_CMD_STARTED
                               then (status,
                                     btm_sec_change_pairing_state e BTM_PAIR_STATE_IDLE w8)
                               else (status, w8)))))"

text \<open>\<open>BTM_SecBond\<close>. \<open>BTM_ReadDevInfo\<close> overwrites the address type that the caller gave;
  the parameter \<open>device_type\<close> is not read.\<close>

definition BTM_SecBond ::
  "env \<Rightarrow> RawAddress \<Rightarrow> 8 word \<Rightarrow> tBT_TRANSPORT \<Rightarrow> 8 word \<Rightarrow> 8 word \<Rightarrow> 8 word list option \<Rightarrow>
   tBTM_CB \<Rightarrow> tBTM_STATUS \<times> tBTM_CB" where
  "BTM_SecBond e a addr_type0 transport0 device_type pin_len p_pin w =
     (let transport =
            (if transport0 = BT_TRANSPORT_AUTO
             then
               if addr_type0 = BLE_ADDR_PUBLIC
               then (if BTM_UseLeLink e a then BT_TRANSPORT_LE else BT_TRANSPORT_BR_EDR)
               else BT_TRANSPORT_LE
             else transport0);
          dev_type = fst (BTM_ReadDevInfo e a);
          addr_type = snd (BTM_ReadDevInfo e a)
      in if (transport = BT_TRANSPORT_LE \<and> dev_type AND BT_DEVICE_TYPE_BLE = 0) \<or>
            (transport = BT_TRANSPORT_BR_EDR \<and> dev_type AND BT_DEVICE_TYPE_BREDR = 0)
         then (BTM_ILLEGAL_ACTION, w)
         else btm_sec_bond_by_transport e a addr_type transport pin_len p_pin w)"

subsection \<open>Conditions of the procedure, and sample states\<close>

text \<open>The conditions of the steps of the procedure, in the words of the spec: a procedure
  is running when the state is neither idle nor LE-encrypting (step 1); the name is needed
  when it is unknown and a connection handle exists (step 2); authentication is needed when
  a handle exists and either the link is not authenticated and the flags of the
  initiating side ask for authentication or encryption, or the 16-digit PIN policy of an
  incoming request is not met (step 3); encryption is needed when it is required for the
  initiating side and not active on an existing link (step 4).\<close>

definition procedure_running :: "tBTM_SEC_DEV_REC \<Rightarrow> bool" where
  "procedure_running r \<longleftrightarrow>
     sec_state r \<noteq> BTM_SEC_STATE_IDLE \<and> sec_state r \<noteq> BTM_SEC_STATE_LE_ENCRYPTING"

definition name_needed :: "tBTM_SEC_DEV_REC \<Rightarrow> bool" where
  "name_needed r \<longleftrightarrow>
     sec_flags r AND BTM_SEC_NAME_KNOWN = 0 \<and> hci_handle r \<noteq> HCI_INVALID_HANDLE"

definition auth_needed :: "tBTM_SEC_DEV_REC \<Rightarrow> bool" where
  "auth_needed r \<longleftrightarrow> hci_handle r \<noteq> HCI_INVALID_HANDLE \<and>
     ((sec_flags r AND BTM_SEC_AUTHENTICATED = 0 \<and>
       (if is_originator r
        then security_required r AND (BTM_SEC_OUT_AUTHENTICATE OR BTM_SEC_OUT_ENCRYPT) \<noteq> 0
        else security_required r AND (BTM_SEC_IN_AUTHENTICATE OR BTM_SEC_IN_ENCRYPT) \<noteq> 0)) \<or>
      (sec_flags r AND BTM_SEC_16_DIGIT_PIN_AUTHED = 0 \<and> \<not> is_originator r \<and>
       security_required r AND BTM_SEC_IN_MIN_16_DIGIT_PIN \<noteq> 0))"

definition encrypt_needed :: "tBTM_SEC_DEV_REC \<Rightarrow> bool" where
  "encrypt_needed r \<longleftrightarrow> sec_flags r AND BTM_SEC_ENCRYPTED = 0 \<and>
     ((is_originator r \<and> security_required r AND BTM_SEC_OUT_ENCRYPT \<noteq> 0) \<or>
      (\<not> is_originator r \<and> security_required r AND BTM_SEC_IN_ENCRYPT \<noteq> 0)) \<and>
     hci_handle r \<noteq> HCI_INVALID_HANDLE"

text \<open>The calls made between two states of the control block.\<close>

definition new_calls :: "tBTM_CB \<Rightarrow> tBTM_CB \<Rightarrow> ext_call list" where
  "new_calls w w' = drop (length (calls w)) (calls w')"

text \<open>A device with a classic link of handle 11, whose name is known, and a control block
  that holds this device only, with an idle pairing state and an empty queue.\<close>

definition sample_dev :: tBTM_SEC_DEV_REC where
  "sample_dev =
     \<lparr>bd_addr = 0x112233445566, ble_pseudo_addr = 0x112233445566, dev_class = [0, 0, 0],
      sec_bd_name = ''peer'', hci_handle = 11, ble_hci_handle = HCI_INVALID_HANDLE,
      sec_flags = BTM_SEC_IN_USE OR BTM_SEC_NAME_KNOWN, security_required = BTM_SEC_NONE,
      required_security_flags_for_pairing = 0, is_originator = False,
      sm4 = BTM_SM4_TRUE, sec_state = BTM_SEC_STATE_IDLE,
      link_key_type = BTM_LKEY_TYPE_AUTH_COMB, pin_code_length = 0, rmt_io_caps = 1,
      rmt_auth_req = 0, enc_key_size = 16, p_callback = None, p_ref_data = 0,
      bond_type = BOND_TYPE_PERSISTENT, remote_supports_secure_connections = True,
      new_encryption_key_is_p256 = False, sec_status = 0, ble_key_type = 0\<rparr>"

definition sample_cb :: "tBTM_SEC_DEV_REC \<Rightarrow> tBTM_CB" where
  "sample_cb r =
     \<lparr>pairing_state = BTM_PAIR_STATE_IDLE, pairing_bda = 0, pairing_flags = 0,
      security_mode = BTM_SEC_MODE_SP, security_mode_changed = False,
      pin_type_changed = False, cfg_pin_type = 0, pin_code_len = 0, pin_code = [],
      sec_req_pending = False, sec_pending_q = [], collision_start_time = 0,
      p_collided_dev_rec = None, loc_io_caps = 1, loc_auth_req = 0,
      p_auth_complete_callback = None, p_pin_callback = None, sec_dev_rec = [r],
      acl_links = (\<lambda>a tr. if a = 0x112233445566 \<and> tr = BT_TRANSPORT_BR_EDR
                            then Some 11 else None),
      calls = []\<rparr>"

text \<open>Collaborators whose callbacks leave the control block as it is.\<close>

definition sample_env :: env where
  "sample_env =
     \<lparr>run_callback = (\<lambda>cb a tr ref st w. w), BTM_IsDeviceUp = True,
      post_delayed_ok = True, supports_secure_connections = True,
      btm_sec_alloc_dev = (\<lambda>a w. (None, w)),
      run_l2cu_resubmit = (\<lambda>a w. w),
      run_ble_set_encryption = (\<lambda>a act role w. (BTM_CMD_STARTED, w)),
      L2CA_GetBleConnRole = (\<lambda>a. HCI_ROLE_CENTRAL),
      run_external = (\<lambda>c w. w), BTM_GetRole = (\<lambda>a. HCI_ROLE_CENTRAL),
      BTM_IsBleConnection = (\<lambda>h. h = 12), L2CA_GetPeerFeatures = (\<lambda>a. None),
      concurrentPeerAuthIsEnabled = True, handleUnexpectedEncryptionChange = False,
      BTM_UseLeLink = (\<lambda>a. False),
      BTM_ReadDevInfo = (\<lambda>a. (BT_DEVICE_TYPE_BREDR OR BT_DEVICE_TYPE_BLE, BLE_ADDR_PUBLIC)),
      controller_get_is_ready = True, controller_supports_simple_pairing = True,
      BTM_DeleteStoredLinkKey_status = (\<lambda>a. BTM_SUCCESS),
      SMP_Pair_started = (\<lambda>a t. True),
      BTM_ReadRemoteDeviceName_status = (\<lambda>a. BTM_CMD_STARTED),
      l2cu_ConnectAclForSecurity_status = (\<lambda>a. BTM_CMD_STARTED)\<rparr>"

text \<open>The sample device authenticated but not encrypted, and the sample device with an
  unknown name, each asked for incoming authentication and encryption.\<close>

definition authenticated_cb :: tBTM_CB where
  "authenticated_cb =
     sample_cb (sample_dev\<lparr>sec_flags := BTM_SEC_NAME_KNOWN OR BTM_SEC_AUTHENTICATED,
       security_required := BTM_SEC_IN_AUTHENTICATE OR BTM_SEC_IN_ENCRYPT\<rparr>)"

definition nameless_cb :: tBTM_CB where
  "nameless_cb =
     sample_cb (sample_dev\<lparr>sec_flags := 0,
       security_required := BTM_SEC_IN_AUTHENTICATE OR BTM_SEC_IN_ENCRYPT\<rparr>)"

text \<open>The sample device authenticated and encrypted, asked for incoming authentication
  and encryption; and the same device while it is authenticating.\<close>

definition encrypted_cb :: tBTM_CB where
  "encrypted_cb =
     sample_cb (sample_dev\<lparr>sec_flags :=
         BTM_SEC_NAME_KNOWN OR BTM_SEC_AUTHENTICATED OR BTM_SEC_ENCRYPTED,
       security_required := BTM_SEC_IN_AUTHENTICATE OR BTM_SEC_IN_ENCRYPT\<rparr>)"

definition authenticating_cb :: tBTM_CB where
  "authenticating_cb =
     sample_cb (sample_dev\<lparr>security_required :=
         BTM_SEC_IN_AUTHENTICATE OR BTM_SEC_IN_ENCRYPT,
       sec_state := BTM_SEC_STATE_AUTHENTICATING\<rparr>)"


text \<open>The sample device while it is encrypting, with an outstanding callback.\<close>

definition encrypting_cb :: tBTM_CB where
  "encrypting_cb =
     sample_cb (sample_dev\<lparr>sec_flags := BTM_SEC_NAME_KNOWN OR BTM_SEC_AUTHENTICATED,
       sm4 := BTM_SM4_KNOWN, sec_state := BTM_SEC_STATE_ENCRYPTING,
       p_callback := Some 5\<rparr>)"

text \<open>The sample device with an LE link only (handle 12), first while that link is being
  encrypted, then idle but with the flag \<open>BTM_SEC_ENCRYPTED\<close> left set; and the sample
  device with an encrypted classic link.\<close>

definition le_encrypting_cb :: tBTM_CB where
  "le_encrypting_cb =
     sample_cb (sample_dev\<lparr>hci_handle := HCI_INVALID_HANDLE, ble_hci_handle := 12,
       sec_state := BTM_SEC_STATE_LE_ENCRYPTING\<rparr>)"

definition stale_flag_cb :: tBTM_CB where
  "stale_flag_cb =
     sample_cb (sample_dev\<lparr>hci_handle := HCI_INVALID_HANDLE, ble_hci_handle := 12,
       sec_flags := BTM_SEC_NAME_KNOWN OR BTM_SEC_AUTHENTICATED OR BTM_SEC_ENCRYPTED\<rparr>)"

definition link_encrypted_cb :: tBTM_CB where
  "link_encrypted_cb =
     sample_cb (sample_dev\<lparr>sec_flags :=
       BTM_SEC_NAME_KNOWN OR BTM_SEC_AUTHENTICATED OR BTM_SEC_ENCRYPTED\<rparr>)"

text \<open>The sample device with a stored callback, and collaborators whose callbacks call
  straight back into \<open>btm_sec_dev_rec_cback_event\<close> for the same record.\<close>

definition callback_stored_cb :: tBTM_CB where
  "callback_stored_cb = sample_cb (sample_dev\<lparr>p_callback := Some 7, p_ref_data := 3\<rparr>)"

definition reentrant_env :: env where
  "reentrant_env =
     sample_env\<lparr>run_callback :=
       (\<lambda>cb a tr ref st w. btm_sec_dev_rec_cback_event sample_env 0 st False w)\<rparr>"

text \<open>The control block of the encrypted sample device with two queued requests: a
  multiplexor request for a peer that has no link, and an encryption request for the
  sample device.\<close>

definition queued_cb :: tBTM_CB where
  "queued_cb =
     link_encrypted_cb\<lparr>sec_pending_q :=
       [\<lparr>q_bd_addr = 0x665544332211, q_psm = BT_PSM_RFCOMM, q_is_orig = True,
         q_p_callback = Some 4, q_p_ref_data = 0, q_transport = BT_TRANSPORT_BR_EDR,
         q_sec_act = BTM_BLE_SEC_NONE, q_rfcomm_security_requirement = 0\<rparr>,
        \<lparr>q_bd_addr = 0x112233445566, q_psm = 0, q_is_orig = False,
         q_p_callback = Some 6, q_p_ref_data = 0, q_transport = BT_TRANSPORT_BR_EDR,
         q_sec_act = BTM_BLE_SEC_NONE, q_rfcomm_security_requirement = 0\<rparr>]\<rparr>"

text \<open>The authenticating sample device with a collision window that was opened at the
  clock reading 1000.\<close>

definition collided_cb :: tBTM_CB where
  "collided_cb = authenticating_cb\<lparr>collision_start_time := 1000\<rparr>"

text \<open>A device whose link key is known and whose authentication is running, with no
  pairing in progress; the same after its one retry; and the same while it is being
  bonded.\<close>

definition key_missing_cb :: tBTM_CB where
  "key_missing_cb =
     sample_cb (sample_dev\<lparr>sec_flags :=
         BTM_SEC_IN_USE OR BTM_SEC_NAME_KNOWN OR BTM_SEC_LINK_KEY_KNOWN,
       security_required := BTM_SEC_OUT_AUTHENTICATE,
       sec_state := BTM_SEC_STATE_AUTHENTICATING\<rparr>)"

definition retry_used_cb :: tBTM_CB where
  "retry_used_cb =
     sample_cb (sample_dev\<lparr>sec_flags := BTM_SEC_IN_USE OR BTM_SEC_NAME_KNOWN,
       security_required := BTM_SEC_OUT_AUTHENTICATE,
       sm4 := BTM_SM4_TRUE OR BTM_SM4_RETRY,
       sec_state := BTM_SEC_STATE_AUTHENTICATING\<rparr>)"

definition bonding_cb :: tBTM_CB where
  "bonding_cb =
     key_missing_cb\<lparr>pairing_state := BTM_PAIR_STATE_WAIT_AUTH_COMPLETE,
       pairing_bda := 0x112233445566, pairing_flags := BTM_PAIR_FLAGS_WE_STARTED_DD\<rparr>"

text \<open>Collaborators for which \<open>BTM_ReadDevInfo\<close> reports a device of the LE type only.\<close>

definition le_only_env :: env where
  "le_only_env = sample_env\<lparr>BTM_ReadDevInfo := (\<lambda>a. (BT_DEVICE_TYPE_BLE, BLE_ADDR_PUBLIC))\<rparr>"

text \<open>A run of collision events (the two clock readings and the handle of a call of
  \<open>btm_sec_auth_collision\<close>) and of expiries of the collision timer, in the order in which
  they come; and the runs in which every expiry finds a collided record and starts its
  procedure again.\<close>

datatype collision_event = Collision "64 word" "64 word" "16 word" | Timer_expiry

fun retry_run :: "env \<Rightarrow> collision_event list \<Rightarrow> tBTM_CB \<Rightarrow> tBTM_CB" where
  "retry_run e [] w = w"
| "retry_run e (Collision t1 t2 h # evs) w =
     retry_run e evs (btm_sec_auth_collision t1 t2 h w)"
| "retry_run e (Timer_expiry # evs) w = retry_run e evs (btm_sec_collision_timeout e w)"

fun restarts :: "env \<Rightarrow> collision_event list \<Rightarrow> tBTM_CB \<Rightarrow> bool" where
  "restarts e [] w = True"
| "restarts e (Collision t1 t2 h # evs) w =
     restarts e evs (btm_sec_auth_collision t1 t2 h w)"
| "restarts e (Timer_expiry # evs) w =
     (case p_collided_dev_rec w of
        None \<Rightarrow> False
      | Some p \<Rightarrow>
          fst (btm_sec_execute_procedure e p w) = BTM_CMD_STARTED \<and>
          restarts e evs (btm_sec_collision_timeout e w))"

section \<open>Properties\<close>

subsection \<open>Bits, records and calls\<close>

lemma and_or_nonzeroI1: "(x::'a::len word) AND a \<noteq> 0 \<Longrightarrow> x AND (a OR b) \<noteq> 0"
  by (metis bit.conj_disj_distrib or_eq_0_iff)

lemma and_or_nonzeroI2: "(x::'a::len word) AND b \<noteq> 0 \<Longrightarrow> x AND (a OR b) \<noteq> 0"
  by (metis bit.conj_disj_distrib or_eq_0_iff)

lemma calls_upd_dev [simp]: "calls (upd_dev p f w) = calls w"
  by (simp add: upd_dev_def)

lemma calls_emit [simp]: "calls (emit c w) = calls w @ [c]"
  by (simp add: emit_def)

lemma dev_emit [simp]: "dev (emit c w) p = dev w p"
  by (simp add: emit_def dev_def)

lemma sec_dev_rec_emit [simp]: "sec_dev_rec (emit c w) = sec_dev_rec w"
  by (simp add: emit_def)

lemma dev_upd_dev_same:
  "p < length (sec_dev_rec w) \<Longrightarrow> dev (upd_dev p f w) p = f (dev w p)"
  by (simp add: upd_dev_def dev_def)

lemma dev_upd_dev_other: "p \<noteq> q \<Longrightarrow> dev (upd_dev p f w) q = dev w q"
  by (simp add: upd_dev_def dev_def)

lemma new_calls_append [simp]: "calls w' = calls w @ cs \<Longrightarrow> new_calls w w' = cs"
  by (simp add: new_calls_def)

lemma new_calls_same [simp]: "new_calls w w = []"
  by (simp add: new_calls_def)

subsection \<open>The steps of \<open>btm_sec_execute_procedure\<close>\<close>

lemma exec_unfold:
  "btm_sec_execute_procedure e p w =
     (let r = dev w p in
      if procedure_running r then (BTM_CMD_STARTED, w)
      else if name_needed r then
        (case btm_sec_start_get_name e p w of
           (started, w1) \<Rightarrow>
             if \<not> started then (BTM_NO_RESOURCES, w1) else (BTM_CMD_STARTED, w1))
      else if auth_needed r then
          (BTM_CMD_STARTED, btm_sec_wait_and_start_authentication e p
                (if sec_flags r AND BTM_SEC_LINK_KEY_KNOWN \<noteq> 0 \<and>
                    sec_flags r AND BTM_SEC_16_DIGIT_PIN_AUTHED = 0 \<and>
                    \<not> is_originator r \<and>
                    security_required r AND BTM_SEC_IN_MIN_16_DIGIT_PIN \<noteq> 0
                 then upd_dev p (\<lambda>r. r\<lparr>sec_flags := sec_flags r AND
                        NOT (BTM_SEC_LINK_KEY_KNOWN OR BTM_SEC_LINK_KEY_AUTHED OR
                             BTM_SEC_AUTHENTICATED)\<rparr>) w
                 else w))
      else if encrypt_needed r then
          (BTM_CMD_STARTED,
              upd_dev p (\<lambda>r. r\<lparr>sec_state := BTM_SEC_STATE_ENCRYPTING\<rparr>)
                (emit (btsnd_hcic_set_conn_encrypt (hci_handle r) True) w))
      else if security_required r AND BTM_SEC_MODE4_LEVEL4 \<noteq> 0 \<and>
                link_key_type r \<noteq> BTM_LKEY_TYPE_AUTH_COMB_P_256
        then (BTM_FAILED_ON_SECURITY, w)
      else if access_secure_service_from_temp_bond r (is_originator r) (security_required r)
        then (BTM_FAILED_ON_SECURITY, w)
      else
          (BTM_SUCCESS,
           upd_dev p (\<lambda>r. r\<lparr>security_required := security_required r AND
              NOT (BTM_SEC_OUT_AUTHENTICATE OR BTM_SEC_IN_AUTHENTICATE OR
                   BTM_SEC_OUT_ENCRYPT OR BTM_SEC_IN_ENCRYPT)\<rparr>) w))"
  unfolding btm_sec_execute_procedure_def procedure_running_def name_needed_def
      auth_needed_def encrypt_needed_def IsLocallyInitiated_def Let_def
  by (rule refl)

lemma auth_timer_calls:
  "calls (btm_sec_auth_timer_timeout a w) = calls w \<or>
   (\<exists>h. calls (btm_sec_auth_timer_timeout a w) = calls w @ [btsnd_hcic_auth_request h])"
  by (simp add: btm_sec_auth_timer_timeout_def Let_def split: option.splits)

lemma wait_auth_calls:
  "calls (btm_sec_wait_and_start_authentication e p w) = calls w \<or>
   (\<exists>h. calls (btm_sec_wait_and_start_authentication e p w) =
          calls w @ [btsnd_hcic_auth_request h]) \<or>
   (\<exists>a. calls (btm_sec_wait_and_start_authentication e p w) =
          calls w @ [do_in_main_thread_delayed a])"
  using auth_timer_calls[of "bd_addr (dev w p)" w]
  by (auto simp add: btm_sec_wait_and_start_authentication_def Let_def)

lemma encrypt_needed_authenticated:
  "\<not> auth_needed r \<Longrightarrow> encrypt_needed r \<Longrightarrow> btm_dev_authenticated r"
  unfolding auth_needed_def encrypt_needed_def btm_dev_authenticated_def
  using and_or_nonzeroI2[of "security_required r" BTM_SEC_OUT_ENCRYPT BTM_SEC_OUT_AUTHENTICATE]
      and_or_nonzeroI2[of "security_required r" BTM_SEC_IN_ENCRYPT BTM_SEC_IN_AUTHENTICATE]
  by (cases "is_originator r") auto

lemma bd_addr_upd_sec_state [simp]:
  "bd_addr (dev (upd_dev p (\<lambda>r. r\<lparr>sec_state := s\<rparr>) w) q) = bd_addr (dev w q)"
  by (cases "p < length (sec_dev_rec w)"; cases "p = q")
     (simp_all add: upd_dev_def dev_def list_update_beyond)

lemma start_get_name_calls:
  "btm_sec_start_get_name e p w = (ok, w') \<Longrightarrow>
   (\<not> ok \<and> w' = w) \<or>
   (ok \<and> BTM_IsDeviceUp e \<and> calls w' = calls w @ [SendRemoteNameRequest (bd_addr (dev w p))])"
  by (auto simp: btm_sec_start_get_name_def Let_def split: if_splits)

lemma exec_new_calls:
  assumes "btm_sec_execute_procedure e p w = (st, w')"
  shows "calls w' = calls w \<or>
     (name_needed (dev w p) \<and>
      calls w' = calls w @ [SendRemoteNameRequest (bd_addr (dev w p))]) \<or>
     (\<not> name_needed (dev w p) \<and> (\<exists>h. calls w' = calls w @ [btsnd_hcic_auth_request h])) \<or>
     (\<not> name_needed (dev w p) \<and> (\<exists>a. calls w' = calls w @ [do_in_main_thread_delayed a])) \<or>
     (\<not> name_needed (dev w p) \<and> btm_dev_authenticated (dev w p) \<and>
      calls w' = calls w @ [btsnd_hcic_set_conn_encrypt (hci_handle (dev w p)) True])"
proof -
  let ?r = "dev w p"
  consider (run) "procedure_running ?r"
    | (name) "\<not> procedure_running ?r" "name_needed ?r"
    | (auth) "\<not> procedure_running ?r" "\<not> name_needed ?r" "auth_needed ?r"
    | (enc) "\<not> procedure_running ?r" "\<not> name_needed ?r" "\<not> auth_needed ?r"
        "encrypt_needed ?r"
    | (sat) "\<not> procedure_running ?r" "\<not> name_needed ?r" "\<not> auth_needed ?r"
        "\<not> encrypt_needed ?r"
    by blast
  then show ?thesis
  proof cases
    case run
    with assms show ?thesis by (simp add: exec_unfold)
  next
    case name
    obtain ok w1 where sg: "btm_sec_start_get_name e p w = (ok, w1)"
      by (cases "btm_sec_start_get_name e p w")
    with assms name have "w' = w1" by (simp add: exec_unfold split: if_splits)
    with start_get_name_calls[OF sg] name show ?thesis by auto
  next
    case auth
    define w2 where "w2 = upd_dev p (\<lambda>r. r\<lparr>sec_flags := sec_flags r AND
                        NOT (BTM_SEC_LINK_KEY_KNOWN OR BTM_SEC_LINK_KEY_AUTHED OR
                             BTM_SEC_AUTHENTICATED)\<rparr>) w"
    have c2: "calls w2 = calls w" by (simp add: w2_def)
    from assms auth have "w' = btm_sec_wait_and_start_authentication e p w \<or>
        w' = btm_sec_wait_and_start_authentication e p w2"
      unfolding w2_def by (auto simp add: exec_unfold Let_def split: if_splits)
    then show ?thesis
    proof
      assume "w' = btm_sec_wait_and_start_authentication e p w"
      with wait_auth_calls[of e p w] auth(2) show ?thesis by auto
    next
      assume "w' = btm_sec_wait_and_start_authentication e p w2"
      with wait_auth_calls[of e p w2] auth(2) c2 show ?thesis by auto
    qed
  next
    case enc
    with assms have "calls w' = calls w @ [btsnd_hcic_set_conn_encrypt (hci_handle ?r) True]"
      by (auto simp add: exec_unfold)
    with enc encrypt_needed_authenticated show ?thesis by blast
  next
    case sat
    with assms have "calls w' = calls w"
      by (auto simp add: exec_unfold Let_def split: if_splits)
    then show ?thesis by simp
  qed
qed

text \<open>
  C1. Whatever the device record requires, the calls that one run of
  \<open>btm_sec_execute_procedure\<close> adds follow the calls made before, and: if the HCI command
  that sets the encryption of the connection is among them, the record's \<open>sec_flags\<close>
  contained \<open>BTM_SEC_AUTHENTICATED\<close> when the procedure was entered; and if the remote name
  is unknown while a connection handle exists, neither the authentication timer nor the
  HCI authentication request nor the encryption command is among them: the only call
  that can be made is the remote name request for the record's address, and it is made
  when no procedure is running and the device is up.
\<close>

theorem execute_procedure_ordering:
  assumes "btm_sec_execute_procedure e p w = (st, w')"
  shows "calls w' = calls w @ new_calls w w' \<and>
    (btsnd_hcic_set_conn_encrypt h b \<in> set (new_calls w w') \<longrightarrow>
       sec_flags (dev w p) AND BTM_SEC_AUTHENTICATED \<noteq> 0) \<and>
    (sec_flags (dev w p) AND BTM_SEC_NAME_KNOWN = 0 \<and>
     hci_handle (dev w p) \<noteq> HCI_INVALID_HANDLE \<longrightarrow>
       do_in_main_thread_delayed a \<notin> set (new_calls w w') \<and>
       btsnd_hcic_auth_request h \<notin> set (new_calls w w') \<and>
       btsnd_hcic_set_conn_encrypt h b \<notin> set (new_calls w w') \<and>
       set (new_calls w w') \<subseteq> {SendRemoteNameRequest (bd_addr (dev w p))} \<and>
       (\<not> procedure_running (dev w p) \<and> BTM_IsDeviceUp e \<longrightarrow>
          st = BTM_CMD_STARTED \<and>
          new_calls w w' = [SendRemoteNameRequest (bd_addr (dev w p))]))"
proof -
  have started: "st = BTM_CMD_STARTED \<and>
      new_calls w w' = [SendRemoteNameRequest (bd_addr (dev w p))]"
    if "name_needed (dev w p)" "\<not> procedure_running (dev w p)" "BTM_IsDeviceUp e"
    using that assms
    by (auto simp add: exec_unfold btm_sec_start_get_name_def Let_def)
  show ?thesis
    using exec_new_calls[OF assms] started
    by (auto simp: name_needed_def btm_dev_authenticated_def)
qed

lemma sample_encrypt_run:
  "btm_sec_execute_procedure sample_env 0
      (sample_cb (sample_dev\<lparr>sec_flags := BTM_SEC_NAME_KNOWN OR BTM_SEC_AUTHENTICATED,
         security_required := BTM_SEC_IN_AUTHENTICATE OR BTM_SEC_IN_ENCRYPT\<rparr>)) =
     (BTM_CMD_STARTED,
      (sample_cb (sample_dev\<lparr>sec_flags := BTM_SEC_NAME_KNOWN OR BTM_SEC_AUTHENTICATED,
         security_required := BTM_SEC_IN_AUTHENTICATE OR BTM_SEC_IN_ENCRYPT,
         sec_state := BTM_SEC_STATE_ENCRYPTING\<rparr>))
        \<lparr>calls := [btsnd_hcic_set_conn_encrypt 11 True]\<rparr>)"
  by (simp add: btm_sec_execute_procedure_def sample_cb_def sample_dev_def dev_def
      upd_dev_def emit_def IsLocallyInitiated_def HCI_INVALID_HANDLE_def
      BTM_SEC_NAME_KNOWN_def BTM_SEC_AUTHENTICATED_def BTM_SEC_IN_AUTHENTICATE_def
      BTM_SEC_IN_ENCRYPT_def BTM_SEC_16_DIGIT_PIN_AUTHED_def BTM_SEC_ENCRYPTED_def
      BTM_SEC_IN_MIN_16_DIGIT_PIN_def BTM_SEC_OUT_ENCRYPT_def BTM_SEC_OUT_AUTHENTICATE_def)

lemma sample_name_run:
  "btm_sec_execute_procedure sample_env 0 (sample_cb (sample_dev\<lparr>sec_flags := 0,
         security_required := BTM_SEC_IN_AUTHENTICATE OR BTM_SEC_IN_ENCRYPT\<rparr>)) =
     (BTM_CMD_STARTED,
      (sample_cb (sample_dev\<lparr>sec_flags := 0,
         security_required := BTM_SEC_IN_AUTHENTICATE OR BTM_SEC_IN_ENCRYPT,
         sec_state := BTM_SEC_STATE_GETTING_NAME\<rparr>))
        \<lparr>calls := [SendRemoteNameRequest 0x112233445566]\<rparr>)"
  by (simp add: btm_sec_execute_procedure_def sample_cb_def sample_dev_def dev_def
      upd_dev_def emit_def sample_env_def btm_sec_start_get_name_def
      HCI_INVALID_HANDLE_def)

theorem execute_procedure_ordering_witness:
  "fst (btm_sec_execute_procedure sample_env 0 authenticated_cb) = BTM_CMD_STARTED \<and>
   btsnd_hcic_set_conn_encrypt 11 True \<in>
     set (new_calls authenticated_cb
            (snd (btm_sec_execute_procedure sample_env 0 authenticated_cb))) \<and>
   sec_flags (dev authenticated_cb 0) AND BTM_SEC_AUTHENTICATED \<noteq> 0 \<and>
   sec_flags (dev nameless_cb 0) AND BTM_SEC_NAME_KNOWN = 0 \<and>
   hci_handle (dev nameless_cb 0) \<noteq> HCI_INVALID_HANDLE \<and>
   \<not> procedure_running (dev nameless_cb 0) \<and> BTM_IsDeviceUp sample_env \<and>
   new_calls nameless_cb (snd (btm_sec_execute_procedure sample_env 0 nameless_cb)) =
     [SendRemoteNameRequest 0x112233445566]"
proof -
  obtain w1 where run1:
    "btm_sec_execute_procedure sample_env 0 authenticated_cb = (BTM_CMD_STARTED, w1)"
    and c1: "calls w1 = [btsnd_hcic_set_conn_encrypt 11 True]"
    unfolding authenticated_cb_def by (simp add: sample_encrypt_run)
  have c0: "calls authenticated_cb = []"
    by (simp add: authenticated_cb_def sample_cb_def)
  have mem: "btsnd_hcic_set_conn_encrypt 11 True \<in> set (new_calls authenticated_cb w1)"
    by (simp add: new_calls_def c0 c1)
  from execute_procedure_ordering[OF run1, of 11 True] mem
  have auth: "sec_flags (dev authenticated_cb 0) AND BTM_SEC_AUTHENTICATED \<noteq> 0" by blast
  obtain w2 where run2:
    "btm_sec_execute_procedure sample_env 0 nameless_cb = (BTM_CMD_STARTED, w2)"
    unfolding nameless_cb_def by (simp add: sample_name_run)
  have nm: "sec_flags (dev nameless_cb 0) AND BTM_SEC_NAME_KNOWN = 0"
    by (simp add: nameless_cb_def sample_cb_def sample_dev_def dev_def)
  have hd: "hci_handle (dev nameless_cb 0) \<noteq> HCI_INVALID_HANDLE"
    by (simp add: nameless_cb_def sample_cb_def sample_dev_def dev_def HCI_INVALID_HANDLE_def)
  have pr: "\<not> procedure_running (dev nameless_cb 0)"
    by (simp add: nameless_cb_def sample_cb_def sample_dev_def dev_def procedure_running_def)
  have up: "BTM_IsDeviceUp sample_env"
    by (simp add: sample_env_def)
  have ad: "bd_addr (dev nameless_cb 0) = 0x112233445566"
    by (simp add: nameless_cb_def sample_cb_def sample_dev_def dev_def)
  from execute_procedure_ordering[OF run2, of 11 True] nm hd pr up ad
  have "new_calls nameless_cb w2 = [SendRemoteNameRequest 0x112233445566]" by simp
  with run1 run2 mem auth nm hd pr up show ?thesis by simp
qed

text \<open>
  C5. On a record whose \<open>sec_state\<close> is neither idle nor LE-encrypting,
  \<open>btm_sec_execute_procedure\<close> returns \<open>BTM_CMD_STARTED\<close> and changes nothing and calls
  nothing. When no procedure is running and neither the name nor authentication nor
  encryption is needed, it returns \<open>BTM_FAILED_ON_SECURITY\<close>, with no change, if mode 4
  level 4 is required and the link key type is not \<open>BTM_LKEY_TYPE_AUTH_COMB_P_256\<close>; it
  returns the same, with no change, if the request is not locally initiated, requires
  incoming authentication and the bond is temporary; otherwise it clears the four
  authenticate and encrypt bits of \<open>security_required\<close> and returns \<open>BTM_SUCCESS\<close>.
\<close>

theorem execute_procedure_results:
  "(sec_state (dev w p) \<noteq> BTM_SEC_STATE_IDLE \<and>
    sec_state (dev w p) \<noteq> BTM_SEC_STATE_LE_ENCRYPTING \<longrightarrow>
      btm_sec_execute_procedure e p w = (BTM_CMD_STARTED, w)) \<and>
   ((sec_state (dev w p) = BTM_SEC_STATE_IDLE \<or>
     sec_state (dev w p) = BTM_SEC_STATE_LE_ENCRYPTING) \<and>
    \<not> name_needed (dev w p) \<and> \<not> auth_needed (dev w p) \<and> \<not> encrypt_needed (dev w p) \<longrightarrow>
      btm_sec_execute_procedure e p w =
        (if security_required (dev w p) AND BTM_SEC_MODE4_LEVEL4 \<noteq> 0 \<and>
            link_key_type (dev w p) \<noteq> BTM_LKEY_TYPE_AUTH_COMB_P_256
         then (BTM_FAILED_ON_SECURITY, w)
         else if \<not> is_originator (dev w p) \<and>
                 security_required (dev w p) AND BTM_SEC_IN_AUTHENTICATE \<noteq> 0 \<and>
                 bond_type (dev w p) = BOND_TYPE_TEMPORARY
         then (BTM_FAILED_ON_SECURITY, w)
         else (BTM_SUCCESS,
               upd_dev p (\<lambda>r. r\<lparr>security_required := security_required r AND
                 NOT (BTM_SEC_OUT_AUTHENTICATE OR BTM_SEC_IN_AUTHENTICATE OR
                      BTM_SEC_OUT_ENCRYPT OR BTM_SEC_IN_ENCRYPT)\<rparr>) w)))"
proof (intro conjI impI)
  assume "sec_state (dev w p) \<noteq> BTM_SEC_STATE_IDLE \<and>
    sec_state (dev w p) \<noteq> BTM_SEC_STATE_LE_ENCRYPTING"
  then show "btm_sec_execute_procedure e p w = (BTM_CMD_STARTED, w)"
    by (simp add: exec_unfold procedure_running_def)
next
  assume a: "(sec_state (dev w p) = BTM_SEC_STATE_IDLE \<or>
     sec_state (dev w p) = BTM_SEC_STATE_LE_ENCRYPTING) \<and>
    \<not> name_needed (dev w p) \<and> \<not> auth_needed (dev w p) \<and> \<not> encrypt_needed (dev w p)"
  then have "\<not> procedure_running (dev w p)"
    by (auto simp: procedure_running_def)
  with a show "btm_sec_execute_procedure e p w =
        (if security_required (dev w p) AND BTM_SEC_MODE4_LEVEL4 \<noteq> 0 \<and>
            link_key_type (dev w p) \<noteq> BTM_LKEY_TYPE_AUTH_COMB_P_256
         then (BTM_FAILED_ON_SECURITY, w)
         else if \<not> is_originator (dev w p) \<and>
                 security_required (dev w p) AND BTM_SEC_IN_AUTHENTICATE \<noteq> 0 \<and>
                 bond_type (dev w p) = BOND_TYPE_TEMPORARY
         then (BTM_FAILED_ON_SECURITY, w)
         else (BTM_SUCCESS,
               upd_dev p (\<lambda>r. r\<lparr>security_required := security_required r AND
                 NOT (BTM_SEC_OUT_AUTHENTICATE OR BTM_SEC_IN_AUTHENTICATE OR
                      BTM_SEC_OUT_ENCRYPT OR BTM_SEC_IN_ENCRYPT)\<rparr>) w))"
    unfolding exec_unfold Let_def access_secure_service_from_temp_bond_def
      is_bond_type_temporary_def
    by (simp only: if_False simp_thms)
qed

lemmas flag_defs =
  HCI_INVALID_HANDLE_def BTM_SEC_NONE_def BTM_SEC_IN_AUTHENTICATE_def BTM_SEC_IN_ENCRYPT_def
  BTM_SEC_OUT_AUTHENTICATE_def BTM_SEC_OUT_ENCRYPT_def BTM_SEC_MODE4_LEVEL4_def
  BTM_SEC_IN_MITM_def BTM_SEC_OUT_MITM_def BTM_SEC_IN_MIN_16_DIGIT_PIN_def
  BTM_SEC_OUT_FLAGS_def BTM_SEC_IN_FLAGS_def BTM_SEC_AUTHENTICATED_def
  BTM_SEC_ENCRYPTED_def BTM_SEC_NAME_KNOWN_def BTM_SEC_LINK_KEY_KNOWN_def
  BTM_SEC_LINK_KEY_AUTHED_def BTM_SEC_ROLE_SWITCHED_def BTM_SEC_IN_USE_def
  BTM_SEC_LE_AUTHENTICATED_def BTM_SEC_LE_ENCRYPTED_def BTM_SEC_LE_LINK_KEY_KNOWN_def
  BTM_SEC_LE_LINK_KEY_AUTHED_def BTM_SEC_16_DIGIT_PIN_AUTHED_def
  BTM_SM4_UNKNOWN_def BTM_SM4_KNOWN_def BTM_SM4_TRUE_def BTM_SM4_REQ_PEND_def
  BTM_SM4_UPGRADE_def BTM_SM4_RETRY_def BTM_SM4_CONN_PEND_def
  BTM_LKEY_TYPE_UNAUTH_COMB_def BTM_LKEY_TYPE_AUTH_COMB_def
  BTM_LKEY_TYPE_UNAUTH_COMB_P_256_def BTM_LKEY_TYPE_AUTH_COMB_P_256_def
  BTM_SEC_MODE_SERVICE_def BTM_SEC_MODE_SP_def BTM_SEC_MODE_SC_def BTM_IO_CAP_MAX_def

theorem execute_procedure_results_witness:
  "sec_state (dev authenticating_cb 0) \<noteq> BTM_SEC_STATE_IDLE \<and>
   sec_state (dev authenticating_cb 0) \<noteq> BTM_SEC_STATE_LE_ENCRYPTING \<and>
   btm_sec_execute_procedure sample_env 0 authenticating_cb =
     (BTM_CMD_STARTED, authenticating_cb) \<and>
   sec_state (dev encrypted_cb 0) = BTM_SEC_STATE_IDLE \<and>
   \<not> name_needed (dev encrypted_cb 0) \<and> \<not> auth_needed (dev encrypted_cb 0) \<and>
   \<not> encrypt_needed (dev encrypted_cb 0) \<and>
   btm_sec_execute_procedure sample_env 0 encrypted_cb =
     (BTM_SUCCESS,
      sample_cb (sample_dev\<lparr>sec_flags :=
         BTM_SEC_NAME_KNOWN OR BTM_SEC_AUTHENTICATED OR BTM_SEC_ENCRYPTED,
       security_required := 0\<rparr>))"
proof -
  have d1: "dev authenticating_cb 0 = sample_dev\<lparr>security_required :=
         BTM_SEC_IN_AUTHENTICATE OR BTM_SEC_IN_ENCRYPT,
       sec_state := BTM_SEC_STATE_AUTHENTICATING\<rparr>"
    by (simp add: authenticating_cb_def sample_cb_def dev_def)
  have s1: "sec_state (dev authenticating_cb 0) \<noteq> BTM_SEC_STATE_IDLE \<and>
     sec_state (dev authenticating_cb 0) \<noteq> BTM_SEC_STATE_LE_ENCRYPTING"
    by (simp add: d1)
  have d2: "dev encrypted_cb 0 = sample_dev\<lparr>sec_flags :=
         BTM_SEC_NAME_KNOWN OR BTM_SEC_AUTHENTICATED OR BTM_SEC_ENCRYPTED,
       security_required := BTM_SEC_IN_AUTHENTICATE OR BTM_SEC_IN_ENCRYPT\<rparr>"
    by (simp add: encrypted_cb_def sample_cb_def dev_def)
  have s2: "sec_state (dev encrypted_cb 0) = BTM_SEC_STATE_IDLE"
    by (simp add: d2 sample_dev_def)
  have n2: "\<not> name_needed (dev encrypted_cb 0)"
    by (simp add: d2 name_needed_def flag_defs)
  have a2: "\<not> auth_needed (dev encrypted_cb 0)"
    by (simp add: d2 auth_needed_def flag_defs sample_dev_def)
  have e2: "\<not> encrypt_needed (dev encrypted_cb 0)"
    by (simp add: d2 encrypt_needed_def flag_defs)
  have r2: "btm_sec_execute_procedure sample_env 0 encrypted_cb =
     (BTM_SUCCESS,
      sample_cb (sample_dev\<lparr>sec_flags :=
         BTM_SEC_NAME_KNOWN OR BTM_SEC_AUTHENTICATED OR BTM_SEC_ENCRYPTED,
       security_required := 0\<rparr>))"
  proof -
    have "btm_sec_execute_procedure sample_env 0 encrypted_cb =
        (if security_required (dev encrypted_cb 0) AND BTM_SEC_MODE4_LEVEL4 \<noteq> 0 \<and>
            link_key_type (dev encrypted_cb 0) \<noteq> BTM_LKEY_TYPE_AUTH_COMB_P_256
         then (BTM_FAILED_ON_SECURITY, encrypted_cb)
         else if \<not> is_originator (dev encrypted_cb 0) \<and>
                 security_required (dev encrypted_cb 0) AND BTM_SEC_IN_AUTHENTICATE \<noteq> 0 \<and>
                 bond_type (dev encrypted_cb 0) = BOND_TYPE_TEMPORARY
         then (BTM_FAILED_ON_SECURITY, encrypted_cb)
         else (BTM_SUCCESS,
               upd_dev 0 (\<lambda>r. r\<lparr>security_required := security_required r AND
                 NOT (BTM_SEC_OUT_AUTHENTICATE OR BTM_SEC_IN_AUTHENTICATE OR
                      BTM_SEC_OUT_ENCRYPT OR BTM_SEC_IN_ENCRYPT)\<rparr>) encrypted_cb))"
      using execute_procedure_results[of encrypted_cb 0 sample_env] s2 n2 a2 e2 by blast
    also have "\<dots> = (BTM_SUCCESS,
      sample_cb (sample_dev\<lparr>sec_flags :=
         BTM_SEC_NAME_KNOWN OR BTM_SEC_AUTHENTICATED OR BTM_SEC_ENCRYPTED,
       security_required := 0\<rparr>))"
      by (simp add: dev_def upd_dev_def encrypted_cb_def sample_cb_def sample_dev_def
          flag_defs)
    finally show ?thesis .
  qed
  from execute_procedure_results[of authenticating_cb 0 sample_env] s1 s2 n2 a2 e2 r2
  show ?thesis by simp
qed

subsection \<open>The busy paths of the two access requests\<close>



lemma find_index_Some:
  "find_index P xs = Some i \<Longrightarrow> i < length xs \<and> P (xs ! i)"
proof (induction xs arbitrary: i)
  case Nil
  then show ?case by simp
next
  case (Cons x xs)
  show ?case
  proof (cases "P x")
    case True
    with Cons.prems show ?thesis by simp
  next
    case False
    with Cons.prems obtain j where "find_index P xs = Some j" "i = Suc j"
      by (auto simp: map_option_case split: option.splits)
    with Cons.IH[of j] show ?thesis by simp
  qed
qed







subsection \<open>\<open>BTM_SetEncryption\<close>\<close>

lemma set_encryption_found:
  assumes "btm_find_dev w a = Some p"
    and "tr = BT_TRANSPORT_BR_EDR \<and>
           (hci_handle (dev w p) = HCI_INVALID_HANDLE \<or>
            sec_flags (dev w p) AND BTM_SEC_ENCRYPTED \<noteq> 0) \<or>
         tr = BT_TRANSPORT_LE \<and>
           (ble_hci_handle (dev w p) = HCI_INVALID_HANDLE \<or>
            sec_flags (dev w p) AND BTM_SEC_LE_ENCRYPTED \<noteq> 0) \<or>
         p_callback (dev w p) \<noteq> None \<or> sec_state (dev w p) \<noteq> BTM_SEC_STATE_IDLE"
  shows "BTM_SetEncryption e a tr cb ref act w =
     (if tr = BT_TRANSPORT_BR_EDR \<and> hci_handle (dev w p) = HCI_INVALID_HANDLE
      then (BTM_WRONG_MODE, post_callback cb a tr ref BTM_WRONG_MODE w)
      else if tr = BT_TRANSPORT_BR_EDR \<and> sec_flags (dev w p) AND BTM_SEC_ENCRYPTED \<noteq> 0
      then (BTM_SUCCESS, post_callback cb a tr ref BTM_SUCCESS w)
      else if tr = BT_TRANSPORT_LE \<and> ble_hci_handle (dev w p) = HCI_INVALID_HANDLE
      then (BTM_WRONG_MODE, post_callback cb a tr ref BTM_WRONG_MODE w)
      else if tr = BT_TRANSPORT_LE \<and> sec_flags (dev w p) AND BTM_SEC_LE_ENCRYPTED \<noteq> 0
      then (BTM_SUCCESS, post_callback cb a tr ref BTM_SUCCESS w)
      else (BTM_CMD_STARTED, btm_sec_queue_encrypt_request a tr cb ref act w))"
proof -
  let ?c1 = "tr = BT_TRANSPORT_BR_EDR \<and> hci_handle (dev w p) = HCI_INVALID_HANDLE"
  let ?c2 = "tr = BT_TRANSPORT_BR_EDR \<and> sec_flags (dev w p) AND BTM_SEC_ENCRYPTED \<noteq> 0"
  let ?c3 = "tr = BT_TRANSPORT_LE \<and> ble_hci_handle (dev w p) = HCI_INVALID_HANDLE"
  let ?c4 = "tr = BT_TRANSPORT_LE \<and> sec_flags (dev w p) AND BTM_SEC_LE_ENCRYPTED \<noteq> 0"
  let ?c5 = "p_callback (dev w p) \<noteq> None \<or> sec_state (dev w p) \<noteq> BTM_SEC_STATE_IDLE"
  consider (1) ?c1 | (2) "\<not> ?c1" ?c2 | (3) "\<not> ?c1" "\<not> ?c2" ?c3
    | (4) "\<not> ?c1" "\<not> ?c2" "\<not> ?c3" ?c4 | (5) "\<not> ?c1" "\<not> ?c2" "\<not> ?c3" "\<not> ?c4" ?c5
    using assms(2) by blast
  then show ?thesis
  proof cases
    case 1
    then show ?thesis
      unfolding BTM_SetEncryption_def assms(1) option.case Let_def
      by (simp only: if_True if_False simp_thms)
  next
    case 2
    then show ?thesis
      unfolding BTM_SetEncryption_def assms(1) option.case Let_def
      by (simp only: if_True if_False simp_thms)
  next
    case 3
    then show ?thesis
      unfolding BTM_SetEncryption_def assms(1) option.case Let_def
      by (simp only: if_True if_False simp_thms)
  next
    case 4
    then show ?thesis
      unfolding BTM_SetEncryption_def assms(1) option.case Let_def
      by (simp only: if_True if_False simp_thms)
  next
    case 5
    then show ?thesis
      unfolding BTM_SetEncryption_def assms(1) option.case Let_def
      by (simp only: if_True if_False simp_thms)
  qed
qed

text \<open>
  C10. For an address that has no device record, \<open>BTM_SetEncryption\<close> returns
  \<open>BTM_WRONG_MODE\<close> and leaves the control block as it is: the callback is neither called
  nor posted nor stored. For a known device with no link on the requested transport (an
  invalid classic handle for BR/EDR, an invalid LE handle for LE), it posts the supplied
  callback with \<open>BTM_WRONG_MODE\<close> to the main thread, changes nothing else, and returns
  \<open>BTM_WRONG_MODE\<close>.
\<close>

theorem set_encryption_wrong_mode:
  "(btm_find_dev w a = None \<longrightarrow>
      BTM_SetEncryption e a tr cb ref act w = (BTM_WRONG_MODE, w)) \<and>
   (btm_find_dev w a = Some p \<and>
    (tr = BT_TRANSPORT_BR_EDR \<and> hci_handle (dev w p) = HCI_INVALID_HANDLE \<or>
     tr = BT_TRANSPORT_LE \<and> ble_hci_handle (dev w p) = HCI_INVALID_HANDLE) \<longrightarrow>
      BTM_SetEncryption e a tr (Some c) ref act w =
        (BTM_WRONG_MODE,
         w\<lparr>calls := calls w @ [do_in_main_thread c a tr ref BTM_WRONG_MODE]\<rparr>))"
proof (intro conjI impI)
  assume "btm_find_dev w a = None"
  then show "BTM_SetEncryption e a tr cb ref act w = (BTM_WRONG_MODE, w)"
    by (simp add: BTM_SetEncryption_def)
next
  assume h: "btm_find_dev w a = Some p \<and>
    (tr = BT_TRANSPORT_BR_EDR \<and> hci_handle (dev w p) = HCI_INVALID_HANDLE \<or>
     tr = BT_TRANSPORT_LE \<and> ble_hci_handle (dev w p) = HCI_INVALID_HANDLE)"
  then have f: "btm_find_dev w a = Some p" by simp
  from h have "tr = BT_TRANSPORT_BR_EDR \<and>
           (hci_handle (dev w p) = HCI_INVALID_HANDLE \<or>
            sec_flags (dev w p) AND BTM_SEC_ENCRYPTED \<noteq> 0) \<or>
         tr = BT_TRANSPORT_LE \<and>
           (ble_hci_handle (dev w p) = HCI_INVALID_HANDLE \<or>
            sec_flags (dev w p) AND BTM_SEC_LE_ENCRYPTED \<noteq> 0) \<or>
         p_callback (dev w p) \<noteq> None \<or> sec_state (dev w p) \<noteq> BTM_SEC_STATE_IDLE"
    by blast
  from set_encryption_found[OF f this]
  have eq: "BTM_SetEncryption e a tr (Some c) ref act w =
     (if tr = BT_TRANSPORT_BR_EDR \<and> hci_handle (dev w p) = HCI_INVALID_HANDLE
      then (BTM_WRONG_MODE, post_callback (Some c) a tr ref BTM_WRONG_MODE w)
      else if tr = BT_TRANSPORT_BR_EDR \<and> sec_flags (dev w p) AND BTM_SEC_ENCRYPTED \<noteq> 0
      then (BTM_SUCCESS, post_callback (Some c) a tr ref BTM_SUCCESS w)
      else if tr = BT_TRANSPORT_LE \<and> ble_hci_handle (dev w p) = HCI_INVALID_HANDLE
      then (BTM_WRONG_MODE, post_callback (Some c) a tr ref BTM_WRONG_MODE w)
      else if tr = BT_TRANSPORT_LE \<and> sec_flags (dev w p) AND BTM_SEC_LE_ENCRYPTED \<noteq> 0
      then (BTM_SUCCESS, post_callback (Some c) a tr ref BTM_SUCCESS w)
      else (BTM_CMD_STARTED, btm_sec_queue_encrypt_request a tr (Some c) ref act w))" .
  have pc: "post_callback (Some c) a tr ref BTM_WRONG_MODE w =
      w\<lparr>calls := calls w @ [do_in_main_thread c a tr ref BTM_WRONG_MODE]\<rparr>"
    by (simp add: post_callback_def emit_def)
  from h consider "tr = BT_TRANSPORT_BR_EDR" "hci_handle (dev w p) = HCI_INVALID_HANDLE"
    | "tr = BT_TRANSPORT_LE" "ble_hci_handle (dev w p) = HCI_INVALID_HANDLE" by blast
  then show "BTM_SetEncryption e a tr (Some c) ref act w =
        (BTM_WRONG_MODE,
         w\<lparr>calls := calls w @ [do_in_main_thread c a tr ref BTM_WRONG_MODE]\<rparr>)"
  proof cases
    case 1
    then show ?thesis unfolding eq pc[symmetric] by simp
  next
    case 2
    then show ?thesis unfolding eq pc[symmetric] by simp
  qed
qed

theorem set_encryption_wrong_mode_witness:
  "btm_find_dev link_encrypted_cb 0x665544332211 = None \<and>
   BTM_SetEncryption sample_env 0x665544332211 BT_TRANSPORT_BR_EDR (Some 9) 0
     BTM_BLE_SEC_NONE link_encrypted_cb = (BTM_WRONG_MODE, link_encrypted_cb) \<and>
   btm_find_dev le_encrypting_cb 0x112233445566 = Some 0 \<and>
   hci_handle (dev le_encrypting_cb 0) = HCI_INVALID_HANDLE \<and>
   BTM_SetEncryption sample_env 0x112233445566 BT_TRANSPORT_BR_EDR (Some 9) 0
     BTM_BLE_SEC_NONE le_encrypting_cb =
     (BTM_WRONG_MODE,
      le_encrypting_cb\<lparr>calls := calls le_encrypting_cb @
        [do_in_main_thread 9 0x112233445566 BT_TRANSPORT_BR_EDR 0 BTM_WRONG_MODE]\<rparr>)"
proof -
  have n: "btm_find_dev link_encrypted_cb 0x665544332211 = None"
    by (simp add: btm_find_dev_def link_encrypted_cb_def sample_cb_def sample_dev_def)
  have f: "btm_find_dev le_encrypting_cb 0x112233445566 = Some 0"
    by (simp add: btm_find_dev_def le_encrypting_cb_def sample_cb_def sample_dev_def)
  have h: "hci_handle (dev le_encrypting_cb 0) = HCI_INVALID_HANDLE"
    by (simp add: le_encrypting_cb_def sample_cb_def dev_def)
  from set_encryption_wrong_mode[of link_encrypted_cb "0x665544332211" sample_env
      BT_TRANSPORT_BR_EDR "Some 9" 0 BTM_BLE_SEC_NONE 0 9] n
  have r1: "BTM_SetEncryption sample_env 0x665544332211 BT_TRANSPORT_BR_EDR (Some 9) 0
     BTM_BLE_SEC_NONE link_encrypted_cb = (BTM_WRONG_MODE, link_encrypted_cb)"
    by blast
  from set_encryption_wrong_mode[of le_encrypting_cb "0x112233445566" sample_env
      BT_TRANSPORT_BR_EDR "Some 9" 0 BTM_BLE_SEC_NONE 0 9] f h
  have r2: "BTM_SetEncryption sample_env 0x112233445566 BT_TRANSPORT_BR_EDR (Some 9) 0
     BTM_BLE_SEC_NONE le_encrypting_cb =
     (BTM_WRONG_MODE,
      le_encrypting_cb\<lparr>calls := calls le_encrypting_cb @
        [do_in_main_thread 9 0x112233445566 BT_TRANSPORT_BR_EDR 0 BTM_WRONG_MODE]\<rparr>)"
    by blast
  from n f h r1 r2 show ?thesis by (intro conjI)
qed

text \<open>
  C4, as the claim states it, fails: with no classic link to a known device,
  \<open>BTM_SetEncryption\<close> returns \<open>BTM_WRONG_MODE\<close> both when the device is busy (here with the
  encryption of its LE link), and then it queues nothing, and when the flag
  \<open>BTM_SEC_ENCRYPTED\<close> is set.
\<close>

theorem set_encryption_not_connected_counterexample:
  "btm_find_dev le_encrypting_cb 0x112233445566 = Some 0 \<and>
   sec_state (dev le_encrypting_cb 0) \<noteq> BTM_SEC_STATE_IDLE \<and>
   sec_flags (dev le_encrypting_cb 0) AND BTM_SEC_ENCRYPTED = 0 \<and>
   fst (BTM_SetEncryption sample_env 0x112233445566 BT_TRANSPORT_BR_EDR (Some 9) 0
     BTM_BLE_SEC_NONE le_encrypting_cb) = BTM_WRONG_MODE \<and>
   sec_pending_q (snd (BTM_SetEncryption sample_env 0x112233445566 BT_TRANSPORT_BR_EDR
     (Some 9) 0 BTM_BLE_SEC_NONE le_encrypting_cb)) = [] \<and>
   btm_find_dev stale_flag_cb 0x112233445566 = Some 0 \<and>
   sec_flags (dev stale_flag_cb 0) AND BTM_SEC_ENCRYPTED \<noteq> 0 \<and>
   fst (BTM_SetEncryption sample_env 0x112233445566 BT_TRANSPORT_BR_EDR (Some 9) 0
     BTM_BLE_SEC_NONE stale_flag_cb) = BTM_WRONG_MODE"
proof -
  have f1: "btm_find_dev le_encrypting_cb 0x112233445566 = Some 0"
    by (simp add: btm_find_dev_def le_encrypting_cb_def sample_cb_def sample_dev_def)
  have f2: "btm_find_dev stale_flag_cb 0x112233445566 = Some 0"
    by (simp add: btm_find_dev_def stale_flag_cb_def sample_cb_def sample_dev_def)
  have d1: "dev le_encrypting_cb 0 =
      sample_dev\<lparr>hci_handle := HCI_INVALID_HANDLE, ble_hci_handle := 12,
       sec_state := BTM_SEC_STATE_LE_ENCRYPTING\<rparr>"
    by (simp add: le_encrypting_cb_def sample_cb_def dev_def)
  have d2: "dev stale_flag_cb 0 =
      sample_dev\<lparr>hci_handle := HCI_INVALID_HANDLE, ble_hci_handle := 12,
       sec_flags := BTM_SEC_NAME_KNOWN OR BTM_SEC_AUTHENTICATED OR BTM_SEC_ENCRYPTED\<rparr>"
    by (simp add: stale_flag_cb_def sample_cb_def dev_def)
  have q: "sec_pending_q le_encrypting_cb = []"
    by (simp add: le_encrypting_cb_def sample_cb_def)
  have s1: "sec_state (dev le_encrypting_cb 0) \<noteq> BTM_SEC_STATE_IDLE"
    by (simp add: d1)
  have h2: "hci_handle (dev stale_flag_cb 0) = HCI_INVALID_HANDLE"
    by (simp add: d2)
  have r1: "BTM_SetEncryption sample_env 0x112233445566 BT_TRANSPORT_BR_EDR (Some 9) 0
     BTM_BLE_SEC_NONE le_encrypting_cb =
       (BTM_WRONG_MODE, post_callback (Some 9) 0x112233445566 BT_TRANSPORT_BR_EDR 0
          BTM_WRONG_MODE le_encrypting_cb)"
    using s1 by (subst set_encryption_found[OF f1]) (simp_all add: d1)
  have r2: "BTM_SetEncryption sample_env 0x112233445566 BT_TRANSPORT_BR_EDR (Some 9) 0
     BTM_BLE_SEC_NONE stale_flag_cb =
       (BTM_WRONG_MODE, post_callback (Some 9) 0x112233445566 BT_TRANSPORT_BR_EDR 0
          BTM_WRONG_MODE stale_flag_cb)"
    using h2 by (subst set_encryption_found[OF f2]) (simp_all add: d2)
  show ?thesis
    by (simp add: f1 f2 r1 r2 d1 d2 post_callback_def emit_def q)
       (simp add: sample_dev_def flag_defs)
qed

text \<open>
  C4, amended. For a known device whose link on the requested transport is up (a valid
  classic handle for BR/EDR, a valid LE handle for LE): if the transport is already
  encrypted (\<open>BTM_SEC_ENCRYPTED\<close>, or \<open>BTM_SEC_LE_ENCRYPTED\<close> for LE), \<open>BTM_SetEncryption\<close>
  returns \<open>BTM_SUCCESS\<close>, posts the callback, if one is supplied, with \<open>BTM_SUCCESS\<close>, and
  changes nothing else: no HCI command, and the device record is as before. If it is not
  encrypted and the record holds a callback or its \<open>sec_state\<close> is not idle, the request
  is appended to the queue, nothing else changes, and \<open>BTM_CMD_STARTED\<close> is returned.
\<close>

theorem set_encryption_encrypted_or_busy:
  assumes "btm_find_dev w a = Some p"
    and "tr = BT_TRANSPORT_BR_EDR \<and> hci_handle (dev w p) \<noteq> HCI_INVALID_HANDLE \<and>
           flag = BTM_SEC_ENCRYPTED \<or>
         tr = BT_TRANSPORT_LE \<and> ble_hci_handle (dev w p) \<noteq> HCI_INVALID_HANDLE \<and>
           flag = BTM_SEC_LE_ENCRYPTED"
  shows "(sec_flags (dev w p) AND flag \<noteq> 0 \<longrightarrow>
      BTM_SetEncryption e a tr cb ref act w =
        (BTM_SUCCESS,
         case cb of
           None \<Rightarrow> w
         | Some c \<Rightarrow> w\<lparr>calls := calls w @ [do_in_main_thread c a tr ref BTM_SUCCESS]\<rparr>)) \<and>
    (sec_flags (dev w p) AND flag = 0 \<and>
     (p_callback (dev w p) \<noteq> None \<or> sec_state (dev w p) \<noteq> BTM_SEC_STATE_IDLE) \<longrightarrow>
      BTM_SetEncryption e a tr cb ref act w =
        (BTM_CMD_STARTED,
         w\<lparr>sec_pending_q := sec_pending_q w @
            [\<lparr>q_bd_addr = a, q_psm = 0, q_is_orig = False, q_p_callback = cb,
              q_p_ref_data = ref, q_transport = tr, q_sec_act = act,
              q_rfcomm_security_requirement = 0\<rparr>]\<rparr>))"
proof (intro conjI impI)
  assume enc: "sec_flags (dev w p) AND flag \<noteq> 0"
  with assms(2) have "tr = BT_TRANSPORT_BR_EDR \<and>
           (hci_handle (dev w p) = HCI_INVALID_HANDLE \<or>
            sec_flags (dev w p) AND BTM_SEC_ENCRYPTED \<noteq> 0) \<or>
         tr = BT_TRANSPORT_LE \<and>
           (ble_hci_handle (dev w p) = HCI_INVALID_HANDLE \<or>
            sec_flags (dev w p) AND BTM_SEC_LE_ENCRYPTED \<noteq> 0) \<or>
         p_callback (dev w p) \<noteq> None \<or> sec_state (dev w p) \<noteq> BTM_SEC_STATE_IDLE"
    by blast
  note eq = set_encryption_found[OF assms(1) this, of e cb ref act]
  have pc: "post_callback cb a tr ref BTM_SUCCESS w =
      (case cb of
           None \<Rightarrow> w
         | Some c \<Rightarrow> w\<lparr>calls := calls w @ [do_in_main_thread c a tr ref BTM_SUCCESS]\<rparr>)"
    by (simp add: post_callback_def emit_def split: option.splits)
  from assms(2) enc consider "tr = BT_TRANSPORT_BR_EDR"
      "hci_handle (dev w p) \<noteq> HCI_INVALID_HANDLE"
      "sec_flags (dev w p) AND BTM_SEC_ENCRYPTED \<noteq> 0"
    | "tr = BT_TRANSPORT_LE" "ble_hci_handle (dev w p) \<noteq> HCI_INVALID_HANDLE"
      "sec_flags (dev w p) AND BTM_SEC_LE_ENCRYPTED \<noteq> 0" by blast
  then show "BTM_SetEncryption e a tr cb ref act w =
        (BTM_SUCCESS,
         case cb of
           None \<Rightarrow> w
         | Some c \<Rightarrow> w\<lparr>calls := calls w @ [do_in_main_thread c a tr ref BTM_SUCCESS]\<rparr>)"
  proof cases
    case 1
    then show ?thesis unfolding eq pc[symmetric] by simp
  next
    case 2
    then show ?thesis unfolding eq pc[symmetric] by simp
  qed
next
  assume busy: "sec_flags (dev w p) AND flag = 0 \<and>
     (p_callback (dev w p) \<noteq> None \<or> sec_state (dev w p) \<noteq> BTM_SEC_STATE_IDLE)"
  then have "tr = BT_TRANSPORT_BR_EDR \<and>
           (hci_handle (dev w p) = HCI_INVALID_HANDLE \<or>
            sec_flags (dev w p) AND BTM_SEC_ENCRYPTED \<noteq> 0) \<or>
         tr = BT_TRANSPORT_LE \<and>
           (ble_hci_handle (dev w p) = HCI_INVALID_HANDLE \<or>
            sec_flags (dev w p) AND BTM_SEC_LE_ENCRYPTED \<noteq> 0) \<or>
         p_callback (dev w p) \<noteq> None \<or> sec_state (dev w p) \<noteq> BTM_SEC_STATE_IDLE"
    by blast
  note eq = set_encryption_found[OF assms(1) this, of e cb ref act]
  from assms(2) busy consider "tr = BT_TRANSPORT_BR_EDR"
      "hci_handle (dev w p) \<noteq> HCI_INVALID_HANDLE"
      "sec_flags (dev w p) AND BTM_SEC_ENCRYPTED = 0"
    | "tr = BT_TRANSPORT_LE" "ble_hci_handle (dev w p) \<noteq> HCI_INVALID_HANDLE"
      "sec_flags (dev w p) AND BTM_SEC_LE_ENCRYPTED = 0" by blast
  then show "BTM_SetEncryption e a tr cb ref act w =
        (BTM_CMD_STARTED,
         w\<lparr>sec_pending_q := sec_pending_q w @
            [\<lparr>q_bd_addr = a, q_psm = 0, q_is_orig = False, q_p_callback = cb,
              q_p_ref_data = ref, q_transport = tr, q_sec_act = act,
              q_rfcomm_security_requirement = 0\<rparr>]\<rparr>)"
  proof cases
    case 1
    then show ?thesis
      unfolding eq btm_sec_queue_encrypt_request_def[symmetric] by simp
  next
    case 2
    then show ?thesis
      unfolding eq btm_sec_queue_encrypt_request_def[symmetric] by simp
  qed
qed

theorem set_encryption_encrypted_or_busy_witness:
  "btm_find_dev link_encrypted_cb 0x112233445566 = Some 0 \<and>
   hci_handle (dev link_encrypted_cb 0) \<noteq> HCI_INVALID_HANDLE \<and>
   sec_flags (dev link_encrypted_cb 0) AND BTM_SEC_ENCRYPTED \<noteq> 0 \<and>
   BTM_SetEncryption sample_env 0x112233445566 BT_TRANSPORT_BR_EDR (Some 9) 0
     BTM_BLE_SEC_NONE link_encrypted_cb =
     (BTM_SUCCESS,
      link_encrypted_cb\<lparr>calls := calls link_encrypted_cb @
        [do_in_main_thread 9 0x112233445566 BT_TRANSPORT_BR_EDR 0 BTM_SUCCESS]\<rparr>) \<and>
   btm_find_dev encrypting_cb 0x112233445566 = Some 0 \<and>
   hci_handle (dev encrypting_cb 0) \<noteq> HCI_INVALID_HANDLE \<and>
   sec_flags (dev encrypting_cb 0) AND BTM_SEC_ENCRYPTED = 0 \<and>
   sec_state (dev encrypting_cb 0) \<noteq> BTM_SEC_STATE_IDLE \<and>
   fst (BTM_SetEncryption sample_env 0x112233445566 BT_TRANSPORT_BR_EDR (Some 9) 0
     BTM_BLE_SEC_NONE encrypting_cb) = BTM_CMD_STARTED"
proof -
  have f1: "btm_find_dev link_encrypted_cb 0x112233445566 = Some 0"
    by (simp add: btm_find_dev_def link_encrypted_cb_def sample_cb_def sample_dev_def)
  have f2: "btm_find_dev encrypting_cb 0x112233445566 = Some 0"
    by (simp add: btm_find_dev_def encrypting_cb_def sample_cb_def sample_dev_def)
  have h1: "hci_handle (dev link_encrypted_cb 0) \<noteq> HCI_INVALID_HANDLE"
    by (simp add: link_encrypted_cb_def sample_cb_def dev_def sample_dev_def flag_defs)
  have h2: "hci_handle (dev encrypting_cb 0) \<noteq> HCI_INVALID_HANDLE"
    by (simp add: encrypting_cb_def sample_cb_def dev_def sample_dev_def flag_defs)
  have e1: "sec_flags (dev link_encrypted_cb 0) AND BTM_SEC_ENCRYPTED \<noteq> 0"
    by (simp add: link_encrypted_cb_def sample_cb_def dev_def flag_defs)
  have e2: "sec_flags (dev encrypting_cb 0) AND BTM_SEC_ENCRYPTED = 0"
    by (simp add: encrypting_cb_def sample_cb_def dev_def flag_defs)
  have s2: "sec_state (dev encrypting_cb 0) \<noteq> BTM_SEC_STATE_IDLE"
    by (simp add: encrypting_cb_def sample_cb_def dev_def)
  from set_encryption_encrypted_or_busy[OF f1, of BT_TRANSPORT_BR_EDR BTM_SEC_ENCRYPTED
      sample_env "Some 9" 0 BTM_BLE_SEC_NONE] h1 e1
  have r1: "BTM_SetEncryption sample_env 0x112233445566 BT_TRANSPORT_BR_EDR (Some 9) 0
     BTM_BLE_SEC_NONE link_encrypted_cb =
     (BTM_SUCCESS,
      link_encrypted_cb\<lparr>calls := calls link_encrypted_cb @
        [do_in_main_thread 9 0x112233445566 BT_TRANSPORT_BR_EDR 0 BTM_SUCCESS]\<rparr>)"
    by simp
  from set_encryption_encrypted_or_busy[OF f2, of BT_TRANSPORT_BR_EDR BTM_SEC_ENCRYPTED
      sample_env "Some 9" 0 BTM_BLE_SEC_NONE] h2 e2 s2
  have r2: "fst (BTM_SetEncryption sample_env 0x112233445566 BT_TRANSPORT_BR_EDR (Some 9) 0
     BTM_BLE_SEC_NONE encrypting_cb) = BTM_CMD_STARTED"
    by simp
  from f1 h1 e1 r1 f2 h2 e2 s2 r2 show ?thesis by (intro conjI)
qed

subsection \<open>Delivery of the stored callback\<close>

lemma dev_clear_callback:
  "dev (upd_dev p (\<lambda>r. r\<lparr>p_callback := None\<rparr>) w) q =
     (if q = p \<and> p < length (sec_dev_rec w) then (dev w p)\<lparr>p_callback := None\<rparr>
      else dev w q)"
  by (cases "p < length (sec_dev_rec w)"; cases "p = q")
     (simp_all add: upd_dev_def dev_def list_update_beyond)

lemma clear_callback_fields [simp]:
  "bd_addr (dev (upd_dev p (\<lambda>r. r\<lparr>p_callback := None\<rparr>) w) q) = bd_addr (dev w q)"
  "ble_pseudo_addr (dev (upd_dev p (\<lambda>r. r\<lparr>p_callback := None\<rparr>) w) q) =
     ble_pseudo_addr (dev w q)"
  "p_ref_data (dev (upd_dev p (\<lambda>r. r\<lparr>p_callback := None\<rparr>) w) q) = p_ref_data (dev w q)"
  by (simp_all add: dev_clear_callback)

lemma clear_callback_idem:
  "upd_dev p (\<lambda>r. r\<lparr>p_callback := None\<rparr>) (upd_dev p (\<lambda>r. r\<lparr>p_callback := None\<rparr>) w) =
   upd_dev p (\<lambda>r. r\<lparr>p_callback := None\<rparr>) w"
  by (cases "p < length (sec_dev_rec w)") (simp_all add: upd_dev_def list_update_beyond)

lemma upd_dev_emit: "upd_dev p f (emit c w) = emit c (upd_dev p f w)"
  by (simp add: upd_dev_def emit_def)

text \<open>
  C2. \<open>btm_sec_dev_rec_cback_event\<close> first sets \<open>p_callback\<close> of the record to null. If a
  callback was stored, it is then called once (with the pseudo address and the LE
  transport, or the address and the BR/EDR transport, the record's reference data and the
  given status) on the control block in which the field is already null, whatever the
  callback does; and \<open>btm_sec_check_pending_reqs\<close> runs on what the callback leaves, or on
  the control block with the cleared field when no callback was stored. A delivery for the
  same record that starts from the control block the callback sees calls no callback: it
  only runs \<open>btm_sec_check_pending_reqs\<close>.
\<close>

theorem callback_cleared_before_invocation:
  "btm_sec_dev_rec_cback_event e p st is_le w =
     btm_sec_check_pending_reqs e
       (case p_callback (dev w p) of
          None \<Rightarrow> upd_dev p (\<lambda>r. r\<lparr>p_callback := None\<rparr>) w
        | Some c \<Rightarrow>
            run_callback e c
              (if is_le then ble_pseudo_addr (dev w p) else bd_addr (dev w p))
              (if is_le then BT_TRANSPORT_LE else BT_TRANSPORT_BR_EDR)
              (p_ref_data (dev w p)) st
              (emit (sec_callback c
                       (if is_le then ble_pseudo_addr (dev w p) else bd_addr (dev w p))
                       (if is_le then BT_TRANSPORT_LE else BT_TRANSPORT_BR_EDR)
                       (p_ref_data (dev w p)) st)
                 (upd_dev p (\<lambda>r. r\<lparr>p_callback := None\<rparr>) w))) \<and>
   (p < length (sec_dev_rec w) \<longrightarrow>
      p_callback (dev (emit x (upd_dev p (\<lambda>r. r\<lparr>p_callback := None\<rparr>) w)) p) = None \<and>
      btm_sec_dev_rec_cback_event e p st' is_le'
          (emit x (upd_dev p (\<lambda>r. r\<lparr>p_callback := None\<rparr>) w)) =
        btm_sec_check_pending_reqs e
          (emit x (upd_dev p (\<lambda>r. r\<lparr>p_callback := None\<rparr>) w)))"
proof (intro conjI impI)
  show "btm_sec_dev_rec_cback_event e p st is_le w =
     btm_sec_check_pending_reqs e
       (case p_callback (dev w p) of
          None \<Rightarrow> upd_dev p (\<lambda>r. r\<lparr>p_callback := None\<rparr>) w
        | Some c \<Rightarrow>
            run_callback e c
              (if is_le then ble_pseudo_addr (dev w p) else bd_addr (dev w p))
              (if is_le then BT_TRANSPORT_LE else BT_TRANSPORT_BR_EDR)
              (p_ref_data (dev w p)) st
              (emit (sec_callback c
                       (if is_le then ble_pseudo_addr (dev w p) else bd_addr (dev w p))
                       (if is_le then BT_TRANSPORT_LE else BT_TRANSPORT_BR_EDR)
                       (p_ref_data (dev w p)) st)
                 (upd_dev p (\<lambda>r. r\<lparr>p_callback := None\<rparr>) w)))"
    unfolding btm_sec_dev_rec_cback_event_def Let_def invoke_callback_def
      clear_callback_fields
    by (cases "p_callback (dev w p)"; cases is_le) simp_all
next
  assume len: "p < length (sec_dev_rec w)"
  let ?w0 = "emit x (upd_dev p (\<lambda>r. r\<lparr>p_callback := None\<rparr>) w)"
  show none: "p_callback (dev ?w0 p) = None"
    using len by (simp add: dev_clear_callback)
  have "upd_dev p (\<lambda>r. r\<lparr>p_callback := None\<rparr>) ?w0 = ?w0"
    by (simp only: upd_dev_emit clear_callback_idem)
  then show "btm_sec_dev_rec_cback_event e p st' is_le' ?w0 =
        btm_sec_check_pending_reqs e ?w0"
    unfolding btm_sec_dev_rec_cback_event_def Let_def none by simp
qed

lemma check_pending_idle_empty:
  "pairing_state w = BTM_PAIR_STATE_IDLE \<Longrightarrow> \<not> sec_req_pending w \<Longrightarrow>
   sec_pending_q w = [] \<Longrightarrow> btm_sec_check_pending_reqs e w = w"
  by (simp add: btm_sec_check_pending_reqs_def)

theorem callback_cleared_before_invocation_witness:
  "0 < length (sec_dev_rec callback_stored_cb) \<and>
   p_callback (dev callback_stored_cb 0) = Some 7 \<and>
   btm_sec_dev_rec_cback_event reentrant_env 0 BTM_SUCCESS False callback_stored_cb =
     (sample_cb (sample_dev\<lparr>p_callback := None, p_ref_data := 3\<rparr>))
       \<lparr>calls := [sec_callback 7 0x112233445566 BT_TRANSPORT_BR_EDR 3 BTM_SUCCESS]\<rparr>"
proof -
  let ?x = "sec_callback 7 0x112233445566 BT_TRANSPORT_BR_EDR 3 BTM_SUCCESS"
  let ?w0 = "emit ?x (upd_dev 0 (\<lambda>r. r\<lparr>p_callback := None\<rparr>) callback_stored_cb)"
  have len: "0 < length (sec_dev_rec callback_stored_cb)"
    by (simp add: callback_stored_cb_def sample_cb_def)
  have d: "dev callback_stored_cb 0 = sample_dev\<lparr>p_callback := Some 7, p_ref_data := 3\<rparr>"
    by (simp add: callback_stored_cb_def sample_cb_def dev_def)
  have cb: "p_callback (dev callback_stored_cb 0) = Some 7" by (simp add: d)
  have ad: "bd_addr (dev callback_stored_cb 0) = 0x112233445566"
    "p_ref_data (dev callback_stored_cb 0) = 3"
    by (simp_all add: d sample_dev_def)
  have w0: "?w0 = (sample_cb (sample_dev\<lparr>p_callback := None, p_ref_data := 3\<rparr>))
       \<lparr>calls := [?x]\<rparr>"
    by (simp add: callback_stored_cb_def sample_cb_def upd_dev_def emit_def)
  have idle: "btm_sec_check_pending_reqs e ?w0 = ?w0" for e
    by (rule check_pending_idle_empty) (simp_all add: w0 sample_cb_def)
  from callback_cleared_before_invocation[of sample_env 0 BTM_SUCCESS False
      callback_stored_cb ?x BTM_SUCCESS False] len
  have inner: "btm_sec_dev_rec_cback_event sample_env 0 BTM_SUCCESS False ?w0 = ?w0"
    by (simp only: idle)
  from callback_cleared_before_invocation[of reentrant_env 0 BTM_SUCCESS False
      callback_stored_cb ?x BTM_SUCCESS False]
  have "btm_sec_dev_rec_cback_event reentrant_env 0 BTM_SUCCESS False callback_stored_cb =
      btm_sec_check_pending_reqs reentrant_env
        (run_callback reentrant_env 7 0x112233445566 BT_TRANSPORT_BR_EDR 3 BTM_SUCCESS ?w0)"
    by (simp add: cb ad)
  also have "run_callback reentrant_env 7 0x112233445566 BT_TRANSPORT_BR_EDR 3 BTM_SUCCESS ?w0
      = btm_sec_dev_rec_cback_event sample_env 0 BTM_SUCCESS False ?w0"
    by (simp add: reentrant_env_def)
  finally have "btm_sec_dev_rec_cback_event reentrant_env 0 BTM_SUCCESS False
      callback_stored_cb = ?w0"
    by (simp only: inner idle)
  with len cb w0 show ?thesis by simp
qed

subsection \<open>The drain of the pending queue\<close>

lemma resubmit_all_links_down:
  "\<forall>q \<in> set bq. \<not> BTM_IsAclConnectionUp w (q_bd_addr q) (q_transport q) \<Longrightarrow>
   resubmit_all e bq w = w"
  by (induction bq) simp_all

text \<open>
  C8. When the pairing state is not idle, \<open>btm_sec_check_pending_reqs\<close> changes nothing.
  When it is idle, the function (after L2CAP has resubmitted its own requests, if
  \<open>sec_req_pending\<close> was set) takes the whole queue out of the control block and goes
  through it in order. For each entry it tests whether the ACL link to the entry's address
  on the entry's transport is up, in the control block as the earlier entries have left it:
  if so, an entry with a PSM other than 0 goes to \<open>btm_sec_mx_access_request\<close> and an entry
  with PSM 0 to \<open>BTM_SetEncryption\<close>; if not, the entry is dropped and the control block is
  as before, so no callback is called and nothing is reported. A queue whose entries have
  all lost their link is emptied with no other effect.
\<close>

theorem check_pending_reqs_drain:
  "(pairing_state w \<noteq> BTM_PAIR_STATE_IDLE \<longrightarrow> btm_sec_check_pending_reqs e w = w) \<and>
   (pairing_state w = BTM_PAIR_STATE_IDLE \<longrightarrow>
      btm_sec_check_pending_reqs e w =
        (let w1 = (if sec_req_pending w
                   then run_l2cu_resubmit e None
                          (emit (l2cu_resubmit_pending_sec_req None)
                             (w\<lparr>sec_req_pending := False\<rparr>))
                   else w)
         in resubmit_all e (sec_pending_q w1) (w1\<lparr>sec_pending_q := []\<rparr>))) \<and>
   (BTM_IsAclConnectionUp w (q_bd_addr p_e) (q_transport p_e) \<and> q_psm p_e \<noteq> 0 \<longrightarrow>
      resubmit_all e (p_e # bq) w =
        resubmit_all e bq
          (snd (btm_sec_mx_access_request e (q_bd_addr p_e) (q_is_orig p_e)
                  (q_rfcomm_security_requirement p_e) (q_p_callback p_e)
                  (q_p_ref_data p_e) w))) \<and>
   (BTM_IsAclConnectionUp w (q_bd_addr p_e) (q_transport p_e) \<and> q_psm p_e = 0 \<longrightarrow>
      resubmit_all e (p_e # bq) w =
        resubmit_all e bq
          (snd (BTM_SetEncryption e (q_bd_addr p_e) (q_transport p_e) (q_p_callback p_e)
                  (q_p_ref_data p_e) (q_sec_act p_e) w))) \<and>
   (\<not> BTM_IsAclConnectionUp w (q_bd_addr p_e) (q_transport p_e) \<longrightarrow>
      resubmit_all e (p_e # bq) w = resubmit_all e bq w) \<and>
   (pairing_state w = BTM_PAIR_STATE_IDLE \<and> \<not> sec_req_pending w \<and>
    (\<forall>q \<in> set (sec_pending_q w).
        \<not> BTM_IsAclConnectionUp w (q_bd_addr q) (q_transport q)) \<longrightarrow>
      btm_sec_check_pending_reqs e w = w\<lparr>sec_pending_q := []\<rparr>)"
proof (intro conjI impI)
  assume "pairing_state w = BTM_PAIR_STATE_IDLE \<and> \<not> sec_req_pending w \<and>
    (\<forall>q \<in> set (sec_pending_q w).
        \<not> BTM_IsAclConnectionUp w (q_bd_addr q) (q_transport q))"
  then have i: "pairing_state w = BTM_PAIR_STATE_IDLE" and s: "\<not> sec_req_pending w"
    and d: "\<forall>q \<in> set (sec_pending_q w).
        \<not> BTM_IsAclConnectionUp (w\<lparr>sec_pending_q := []\<rparr>) (q_bd_addr q) (q_transport q)"
    by (simp_all add: BTM_IsAclConnectionUp_def)
  from i s have "btm_sec_check_pending_reqs e w =
      resubmit_all e (sec_pending_q w) (w\<lparr>sec_pending_q := []\<rparr>)"
    by (simp add: btm_sec_check_pending_reqs_def)
  with resubmit_all_links_down[OF d]
  show "btm_sec_check_pending_reqs e w = w\<lparr>sec_pending_q := []\<rparr>" by simp
qed (simp_all add: btm_sec_check_pending_reqs_def)

lemma sample_encrypted_request:
  "BTM_SetEncryption sample_env 0x112233445566 BT_TRANSPORT_BR_EDR (Some 6) 0
     BTM_BLE_SEC_NONE link_encrypted_cb =
   (BTM_SUCCESS,
    link_encrypted_cb\<lparr>calls :=
      [do_in_main_thread 6 0x112233445566 BT_TRANSPORT_BR_EDR 0 BTM_SUCCESS]\<rparr>)"
proof -
  have f: "btm_find_dev link_encrypted_cb 0x112233445566 = Some 0"
    by (simp add: btm_find_dev_def link_encrypted_cb_def sample_cb_def sample_dev_def)
  have h: "hci_handle (dev link_encrypted_cb 0) \<noteq> HCI_INVALID_HANDLE"
    by (simp add: link_encrypted_cb_def sample_cb_def dev_def sample_dev_def flag_defs)
  have en: "sec_flags (dev link_encrypted_cb 0) AND BTM_SEC_ENCRYPTED \<noteq> 0"
    by (simp add: link_encrypted_cb_def sample_cb_def dev_def flag_defs)
  have c: "calls link_encrypted_cb = []"
    by (simp add: link_encrypted_cb_def sample_cb_def)
  from en have "BTM_SetEncryption sample_env 0x112233445566 BT_TRANSPORT_BR_EDR (Some 6) 0
     BTM_BLE_SEC_NONE link_encrypted_cb =
     (BTM_SUCCESS, post_callback (Some 6) 0x112233445566 BT_TRANSPORT_BR_EDR 0 BTM_SUCCESS
        link_encrypted_cb)"
    using h by (subst set_encryption_found[OF f]) simp_all
  then show ?thesis by (simp add: post_callback_def emit_def c)
qed

theorem check_pending_reqs_drain_witness:
  "pairing_state queued_cb = BTM_PAIR_STATE_IDLE \<and>
   \<not> BTM_IsAclConnectionUp link_encrypted_cb 0x665544332211 BT_TRANSPORT_BR_EDR \<and>
   BTM_IsAclConnectionUp link_encrypted_cb 0x112233445566 BT_TRANSPORT_BR_EDR \<and>
   btm_sec_check_pending_reqs sample_env queued_cb =
     link_encrypted_cb\<lparr>calls :=
       [do_in_main_thread 6 0x112233445566 BT_TRANSPORT_BR_EDR 0 BTM_SUCCESS]\<rparr> \<and>
   pairing_state (queued_cb\<lparr>pairing_state := BTM_PAIR_STATE_WAIT_PIN_REQ\<rparr>) \<noteq>
     BTM_PAIR_STATE_IDLE \<and>
   btm_sec_check_pending_reqs sample_env
       (queued_cb\<lparr>pairing_state := BTM_PAIR_STATE_WAIT_PIN_REQ\<rparr>) =
     queued_cb\<lparr>pairing_state := BTM_PAIR_STATE_WAIT_PIN_REQ\<rparr>"
proof -
  let ?e1 = "\<lparr>q_bd_addr = 0x665544332211, q_psm = BT_PSM_RFCOMM, q_is_orig = True,
         q_p_callback = Some 4, q_p_ref_data = 0, q_transport = BT_TRANSPORT_BR_EDR,
         q_sec_act = BTM_BLE_SEC_NONE, q_rfcomm_security_requirement = 0\<rparr>"
  let ?e2 = "\<lparr>q_bd_addr = 0x112233445566, q_psm = 0, q_is_orig = False,
         q_p_callback = Some 6, q_p_ref_data = 0, q_transport = BT_TRANSPORT_BR_EDR,
         q_sec_act = BTM_BLE_SEC_NONE, q_rfcomm_security_requirement = 0\<rparr>"
  have i: "pairing_state queued_cb = BTM_PAIR_STATE_IDLE"
    by (simp add: queued_cb_def link_encrypted_cb_def sample_cb_def)
  have s: "\<not> sec_req_pending queued_cb"
    by (simp add: queued_cb_def link_encrypted_cb_def sample_cb_def)
  have q: "sec_pending_q queued_cb = [?e1, ?e2]"
    by (simp add: queued_cb_def)
  have e: "queued_cb\<lparr>sec_pending_q := []\<rparr> = link_encrypted_cb"
    by (simp add: queued_cb_def link_encrypted_cb_def sample_cb_def)
  have down: "\<not> BTM_IsAclConnectionUp link_encrypted_cb 0x665544332211 BT_TRANSPORT_BR_EDR"
    by (simp add: BTM_IsAclConnectionUp_def link_encrypted_cb_def sample_cb_def)
  have up: "BTM_IsAclConnectionUp link_encrypted_cb 0x112233445566 BT_TRANSPORT_BR_EDR"
    by (simp add: BTM_IsAclConnectionUp_def link_encrypted_cb_def sample_cb_def)
  from check_pending_reqs_drain[of queued_cb sample_env ?e1 "[?e2]"] i s
  have "btm_sec_check_pending_reqs sample_env queued_cb =
      resubmit_all sample_env [?e1, ?e2] link_encrypted_cb"
    by (simp add: q e)
  also from check_pending_reqs_drain[of link_encrypted_cb sample_env ?e1 "[?e2]"] down
  have "resubmit_all sample_env [?e1, ?e2] link_encrypted_cb =
      resubmit_all sample_env [?e2] link_encrypted_cb"
    by simp
  also from check_pending_reqs_drain[of link_encrypted_cb sample_env ?e2 "[]"] up
  have "resubmit_all sample_env [?e2] link_encrypted_cb =
      link_encrypted_cb\<lparr>calls :=
       [do_in_main_thread 6 0x112233445566 BT_TRANSPORT_BR_EDR 0 BTM_SUCCESS]\<rparr>"
    by (simp add: sample_encrypted_request)
  finally have r: "btm_sec_check_pending_reqs sample_env queued_cb =
     link_encrypted_cb\<lparr>calls :=
       [do_in_main_thread 6 0x112233445566 BT_TRANSPORT_BR_EDR 0 BTM_SUCCESS]\<rparr>" .
  have n: "pairing_state (queued_cb\<lparr>pairing_state := BTM_PAIR_STATE_WAIT_PIN_REQ\<rparr>) \<noteq>
     BTM_PAIR_STATE_IDLE" by simp
  from check_pending_reqs_drain[of "queued_cb\<lparr>pairing_state :=
      BTM_PAIR_STATE_WAIT_PIN_REQ\<rparr>" sample_env ?e1 "[]"] n
  have b: "btm_sec_check_pending_reqs sample_env
       (queued_cb\<lparr>pairing_state := BTM_PAIR_STATE_WAIT_PIN_REQ\<rparr>) =
     queued_cb\<lparr>pairing_state := BTM_PAIR_STATE_WAIT_PIN_REQ\<rparr>"
    by blast
  from i down up r n b show ?thesis by (intro conjI)
qed

subsection \<open>Collisions\<close>

lemma auth_collision_elapsed:
  "collision_start_time w \<noteq> 0 \<Longrightarrow>
   \<not> t2 - collision_start_time w < BTM_SEC_MAX_COLLISION_DELAY \<Longrightarrow>
   btm_sec_auth_collision t1 t2 handle w = w"
  by (simp add: btm_sec_auth_collision_def)

lemma auth_collision_in_window:
  assumes "start = (if collision_start_time w = 0 then t1 else collision_start_time w)"
    and "t2 - start < BTM_SEC_MAX_COLLISION_DELAY"
    and "handle \<noteq> HCI_INVALID_HANDLE"
    and "btm_find_dev_by_handle w handle = Some p"
    and "sec_state (dev w p) = BTM_SEC_STATE_AUTHENTICATING \<or>
         sec_state (dev w p) = BTM_SEC_STATE_ENCRYPTING"
  shows "btm_sec_auth_collision t1 t2 handle w =
     emit (alarm_set_sec_collision_timer BT_1SEC_TIMEOUT_MS)
       ((upd_dev p (\<lambda>r. r\<lparr>sec_state := BTM_SEC_STATE_IDLE\<rparr>)
           (w\<lparr>collision_start_time := start\<rparr>))\<lparr>p_collided_dev_rec := Some p\<rparr>)"
proof -
  define w1 where "w1 = w\<lparr>collision_start_time := start\<rparr>"
  have w1: "(if collision_start_time w = 0 then w\<lparr>collision_start_time := t1\<rparr> else w) = w1"
    unfolding w1_def assms(1) by simp
  have c: "collision_start_time w1 = start" by (simp add: w1_def)
  have f: "btm_find_dev_by_handle w1 handle = Some p"
    using assms(4) by (simp add: btm_find_dev_by_handle_def w1_def)
  have d: "dev w1 p = dev w p" by (simp add: dev_def w1_def)
  show ?thesis
    unfolding btm_sec_auth_collision_def w1 Let_def c w1_def[symmetric]
    using assms(2,3,5)
    by (simp add: f d is_security_state_bredr_encrypting_def)
qed

lemma auth_collision_calls:
  "calls (btm_sec_auth_collision t1 t2 handle w) = calls w \<or>
   calls (btm_sec_auth_collision t1 t2 handle w) =
     calls w @ [alarm_set_sec_collision_timer BT_1SEC_TIMEOUT_MS]"
  unfolding btm_sec_auth_collision_def Let_def
  by (simp split: option.splits)

lemma collided_upd_dev [simp]: "p_collided_dev_rec (upd_dev p f w) = p_collided_dev_rec w"
  by (simp add: upd_dev_def)

lemma collided_emit [simp]: "p_collided_dev_rec (emit c w) = p_collided_dev_rec w"
  by (simp add: emit_def)

lemma collided_auth_timer [simp]:
  "p_collided_dev_rec (btm_sec_auth_timer_timeout a w) = p_collided_dev_rec w"
  by (simp add: btm_sec_auth_timer_timeout_def Let_def split: option.splits)

lemma collided_wait_auth [simp]:
  "p_collided_dev_rec (btm_sec_wait_and_start_authentication e p w) = p_collided_dev_rec w"
  by (simp add: btm_sec_wait_and_start_authentication_def Let_def)

lemma collided_start_get_name [simp]:
  "p_collided_dev_rec (snd (btm_sec_start_get_name e p w)) = p_collided_dev_rec w"
  by (simp add: btm_sec_start_get_name_def Let_def)

lemma collided_exec:
  "p_collided_dev_rec (snd (btm_sec_execute_procedure e p w)) = p_collided_dev_rec w"
proof -
  let ?r = "dev w p"
  consider (run) "procedure_running ?r"
    | (name) "\<not> procedure_running ?r" "name_needed ?r"
    | (auth) "\<not> procedure_running ?r" "\<not> name_needed ?r" "auth_needed ?r"
    | (enc) "\<not> procedure_running ?r" "\<not> name_needed ?r" "\<not> auth_needed ?r"
        "encrypt_needed ?r"
    | (sat) "\<not> procedure_running ?r" "\<not> name_needed ?r" "\<not> auth_needed ?r"
        "\<not> encrypt_needed ?r"
    by blast
  then show ?thesis
  proof cases
    case run
    then show ?thesis by (simp add: exec_unfold)
  next
    case name
    then show ?thesis
      using collided_start_get_name[of e p w]
      by (simp add: exec_unfold split_def)
  next
    case auth
    then show ?thesis by (simp add: exec_unfold Let_def)
  next
    case enc
    then show ?thesis by (simp add: exec_unfold Let_def)
  next
    case sat
    then show ?thesis by (simp add: exec_unfold Let_def)
  qed
qed

text \<open>
  C6, as the claim states it, fails: once the collision window has elapsed, a collision
  status changes nothing at all, so a record that was authenticating when the event came
  is still authenticating afterwards, not idle.
\<close>

theorem collision_after_window_counterexample:
  "collision_start_time collided_cb = 1000 \<and>
   \<not> (7000 :: 64 word) - 1000 < BTM_SEC_MAX_COLLISION_DELAY \<and>
   btm_find_dev_by_handle collided_cb 11 = Some 0 \<and>
   sec_state (dev (btm_sec_auth_complete sample_env 7000 7000 11
       HCI_ERR_LMP_ERR_TRANS_COLLISION collided_cb) 0) = BTM_SEC_STATE_AUTHENTICATING \<and>
   sec_state (dev (btm_sec_auth_complete sample_env 7000 7000 11
       HCI_ERR_LMP_ERR_TRANS_COLLISION collided_cb) 0) \<noteq> BTM_SEC_STATE_IDLE"
proof -
  have c: "collision_start_time collided_cb = 1000"
    by (simp add: collided_cb_def)
  have n: "\<not> (7000 :: 64 word) - 1000 < BTM_SEC_MAX_COLLISION_DELAY"
    by (simp add: BTM_SEC_MAX_COLLISION_DELAY_def)
  have f: "btm_find_dev_by_handle collided_cb 11 = Some 0"
    by (simp add: btm_find_dev_by_handle_def collided_cb_def authenticating_cb_def
        sample_cb_def sample_dev_def)
  have "btm_sec_auth_collision 7000 7000 11 collided_cb = collided_cb"
    by (rule auth_collision_elapsed) (simp_all add: c BTM_SEC_MAX_COLLISION_DELAY_def)
  then have r: "btm_sec_auth_complete sample_env 7000 7000 11
       HCI_ERR_LMP_ERR_TRANS_COLLISION collided_cb = collided_cb"
    by (simp add: btm_sec_auth_complete_def)
  have s: "sec_state (dev collided_cb 0) = BTM_SEC_STATE_AUTHENTICATING"
    by (simp add: collided_cb_def authenticating_cb_def sample_cb_def dev_def)
  from c n f r s show ?thesis by simp
qed

lemma start_time_upd_dev [simp]:
  "collision_start_time (upd_dev p f w) = collision_start_time w"
  by (simp add: upd_dev_def)

lemma start_time_emit [simp]: "collision_start_time (emit c w) = collision_start_time w"
  by (simp add: emit_def)

lemma start_time_auth_timer [simp]:
  "collision_start_time (btm_sec_auth_timer_timeout a w) = collision_start_time w"
  by (simp add: btm_sec_auth_timer_timeout_def Let_def split: option.splits)

lemma start_time_wait_auth [simp]:
  "collision_start_time (btm_sec_wait_and_start_authentication e p w) =
   collision_start_time w"
  by (simp add: btm_sec_wait_and_start_authentication_def Let_def)

lemma start_time_start_get_name [simp]:
  "collision_start_time (snd (btm_sec_start_get_name e p w)) = collision_start_time w"
  by (simp add: btm_sec_start_get_name_def Let_def)

lemma start_time_exec:
  "collision_start_time (snd (btm_sec_execute_procedure e p w)) = collision_start_time w"
proof -
  let ?r = "dev w p"
  consider (run) "procedure_running ?r"
    | (name) "\<not> procedure_running ?r" "name_needed ?r"
    | (auth) "\<not> procedure_running ?r" "\<not> name_needed ?r" "auth_needed ?r"
    | (enc) "\<not> procedure_running ?r" "\<not> name_needed ?r" "\<not> auth_needed ?r"
        "encrypt_needed ?r"
    | (sat) "\<not> procedure_running ?r" "\<not> name_needed ?r" "\<not> auth_needed ?r"
        "\<not> encrypt_needed ?r"
    by blast
  then show ?thesis
  proof cases
    case run
    then show ?thesis by (simp add: exec_unfold)
  next
    case name
    then show ?thesis
      using start_time_start_get_name[of e p w]
      by (simp add: exec_unfold split_def)
  next
    case auth
    then show ?thesis by (simp add: exec_unfold Let_def)
  next
    case enc
    then show ?thesis by (simp add: exec_unfold Let_def)
  next
    case sat
    then show ?thesis by (simp add: exec_unfold Let_def)
  qed
qed

lemma find_by_sec_state_start [simp]:
  "btm_sec_find_dev_by_sec_state (w\<lparr>collision_start_time := t\<rparr>) s =
   btm_sec_find_dev_by_sec_state w s"
  by (simp add: btm_sec_find_dev_by_sec_state_def)

lemma find_by_handle_start [simp]:
  "btm_find_dev_by_handle (w\<lparr>collision_start_time := t\<rparr>) h = btm_find_dev_by_handle w h"
  by (simp add: btm_find_dev_by_handle_def)

lemma find_by_sec_state_Some:
  "btm_sec_find_dev_by_sec_state w s = Some p \<Longrightarrow> sec_state (dev w p) = s"
  unfolding btm_sec_find_dev_by_sec_state_def dev_def by (drule find_index_Some) simp

lemma auth_collision_found:
  assumes "start = (if collision_start_time w = 0 then t1 else collision_start_time w)"
    and "t2 - start < BTM_SEC_MAX_COLLISION_DELAY"
    and "found =
       (if handle = HCI_INVALID_HANDLE
        then (case btm_sec_find_dev_by_sec_state w BTM_SEC_STATE_AUTHENTICATING of
                None \<Rightarrow> btm_sec_find_dev_by_sec_state w BTM_SEC_STATE_ENCRYPTING
              | Some p \<Rightarrow> Some p)
        else btm_find_dev_by_handle w handle)"
  shows "btm_sec_auth_collision t1 t2 handle w =
     (case found of
        None \<Rightarrow> w\<lparr>collision_start_time := start\<rparr>
      | Some p \<Rightarrow>
          emit (alarm_set_sec_collision_timer BT_1SEC_TIMEOUT_MS)
            ((if sec_state (dev w p) = BTM_SEC_STATE_AUTHENTICATING \<or>
                 sec_state (dev w p) = BTM_SEC_STATE_ENCRYPTING
              then upd_dev p (\<lambda>r. r\<lparr>sec_state := BTM_SEC_STATE_IDLE\<rparr>)
                     (w\<lparr>collision_start_time := start\<rparr>)
              else w\<lparr>collision_start_time := start\<rparr>)\<lparr>p_collided_dev_rec := Some p\<rparr>))"
proof -
  define w1 where "w1 = w\<lparr>collision_start_time := start\<rparr>"
  have w1: "(if collision_start_time w = 0 then w\<lparr>collision_start_time := t1\<rparr> else w) = w1"
    unfolding w1_def assms(1) by simp
  have c: "collision_start_time w1 = start" by (simp add: w1_def)
  have f: "(if handle = HCI_INVALID_HANDLE
        then (case btm_sec_find_dev_by_sec_state w1 BTM_SEC_STATE_AUTHENTICATING of
                None \<Rightarrow> btm_sec_find_dev_by_sec_state w1 BTM_SEC_STATE_ENCRYPTING
              | Some p \<Rightarrow> Some p)
        else btm_find_dev_by_handle w1 handle) = found"
    unfolding assms(3) w1_def by (simp only: find_by_sec_state_start find_by_handle_start)
  have d: "\<And>p. dev w1 p = dev w p" by (simp add: dev_def w1_def)
  show ?thesis
    unfolding btm_sec_auth_collision_def w1 Let_def c f
    using assms(2)
    by (simp add: d is_security_state_bredr_encrypting_def w1_def[symmetric]
        split: option.splits)
qed

lemma auth_collision_start:
  "collision_start_time (btm_sec_auth_collision t1 t2 handle w) =
   (if collision_start_time w = 0 then t1 else collision_start_time w)"
  unfolding btm_sec_auth_collision_def Let_def
  by (simp split: option.splits)

lemma collision_timeout_restart:
  assumes "p_collided_dev_rec w = Some p"
    and "fst (btm_sec_execute_procedure e p w) = BTM_CMD_STARTED"
  shows "btm_sec_collision_timeout e w = snd (btm_sec_execute_procedure e p w)"
  using assms by (simp add: btm_sec_collision_timeout_def split_def)

lemma retry_run_start:
  "collision_start_time w \<noteq> 0 \<Longrightarrow> restarts e evs w \<Longrightarrow>
   collision_start_time (retry_run e evs w) = collision_start_time w"
proof (induction evs arbitrary: w)
  case Nil
  then show ?case by simp
next
  case (Cons ev evs)
  show ?case
  proof (cases ev)
    case (Collision t1 t2 h)
    have s: "collision_start_time (btm_sec_auth_collision t1 t2 h w) = collision_start_time w"
      using Cons.prems(1) by (simp add: auth_collision_start)
    have "collision_start_time (retry_run e evs (btm_sec_auth_collision t1 t2 h w)) =
        collision_start_time (btm_sec_auth_collision t1 t2 h w)"
      using Cons.prems s Collision by (intro Cons.IH) simp_all
    then show ?thesis using s Collision by simp
  next
    case Timer_expiry
    from Cons.prems(2) Timer_expiry obtain p where p: "p_collided_dev_rec w = Some p"
      and st: "fst (btm_sec_execute_procedure e p w) = BTM_CMD_STARTED"
      and r: "restarts e evs (btm_sec_collision_timeout e w)"
      by (auto split: option.splits)
    have s: "collision_start_time (btm_sec_collision_timeout e w) = collision_start_time w"
      by (simp add: collision_timeout_restart[OF p st] start_time_exec)
    have "collision_start_time (retry_run e evs (btm_sec_collision_timeout e w)) =
        collision_start_time (btm_sec_collision_timeout e w)"
      using Cons.prems(1) s r by (intro Cons.IH) simp_all
    then show ?thesis using s Timer_expiry by simp
  qed
qed

lemma encrypt_change_unknown_handle:
  assumes "status \<noteq> HCI_ERR_LMP_ERR_TRANS_COLLISION"
    and "status \<noteq> HCI_ERR_DIFF_TRANSACTION_COLLISION"
    and "btm_find_dev_by_handle w handle = None"
  shows "btm_sec_encrypt_change e t1 t2 handle status encr_enable w =
         w\<lparr>collision_start_time := 0\<rparr>"
  using assms by (simp add: btm_sec_encrypt_change_def Let_def)

lemma exec_auth_started:
  "\<not> procedure_running (dev w p) \<Longrightarrow> \<not> name_needed (dev w p) \<Longrightarrow> auth_needed (dev w p) \<Longrightarrow>
   fst (btm_sec_execute_procedure e p w) = BTM_CMD_STARTED"
  by (simp add: exec_unfold Let_def)

text \<open>
  C6, amended. An authentication-complete or an encryption-change event with one of the
  two transaction-collision statuses does what \<open>btm_sec_auth_collision\<close> does and nothing
  else: the only call it can make is to arm the collision timer for one second, so no
  callback is called and no failure is reported. The window starts at
  \<open>collision_start_time\<close>, or at the first clock reading if that is 0. The affected record
  is the record of the handle or, for the invalid handle, the first record that is
  authenticating, else the first that is encrypting (such a record is always reset).
  While less than \<open>BTM_SEC_MAX_COLLISION_DELAY\<close> (5000 ms) have passed since the start of
  the window: if there is an affected record, its \<open>sec_state\<close> becomes idle when it is
  authenticating or encrypting, the record becomes the collided record and the timer is
  armed; if there is none, only the start of the window is recorded. When the timer
  expires, \<open>btm_sec_execute_procedure\<close> runs for the collided record, and its result is
  delivered unless it is \<open>BTM_CMD_STARTED\<close>. Once the window has elapsed, the event arms no
  timer and leaves the control block as it is, \<open>sec_state\<close> included. Collisions, and
  expiries of the timer that start the procedure again, do not move the start of an open
  window: after any run of them, a collision that comes 5000 ms or more after the start
  still changes nothing. The window is opened again only after another event has set
  \<open>collision_start_time\<close> to 0, as an encryption-change event with another status does
  (for an unknown handle that is all it does).
\<close>

theorem collision_retry_window:
  assumes "status = HCI_ERR_LMP_ERR_TRANS_COLLISION \<or>
           status = HCI_ERR_DIFF_TRANSACTION_COLLISION"
    and "start = (if collision_start_time w = 0 then t1 else collision_start_time w)"
    and "found =
       (if handle = HCI_INVALID_HANDLE
        then (case btm_sec_find_dev_by_sec_state w BTM_SEC_STATE_AUTHENTICATING of
                None \<Rightarrow> btm_sec_find_dev_by_sec_state w BTM_SEC_STATE_ENCRYPTING
              | Some q \<Rightarrow> Some q)
        else btm_find_dev_by_handle w handle)"
  shows "btm_sec_auth_complete e t1 t2 handle status w =
      btm_sec_auth_collision t1 t2 handle w \<and>
    btm_sec_encrypt_change e t1 t2 handle status encr_enable w =
      btm_sec_auth_collision t1 t2 handle w \<and>
    (calls (btm_sec_auth_collision t1 t2 handle w) = calls w \<or>
     calls (btm_sec_auth_collision t1 t2 handle w) =
       calls w @ [alarm_set_sec_collision_timer 1000]) \<and>
    (t2 - start < 5000 \<and> found = Some p \<and>
     (sec_state (dev w p) = BTM_SEC_STATE_AUTHENTICATING \<or>
      sec_state (dev w p) = BTM_SEC_STATE_ENCRYPTING) \<longrightarrow>
       btm_sec_auth_collision t1 t2 handle w =
         emit (alarm_set_sec_collision_timer 1000)
           ((upd_dev p (\<lambda>r. r\<lparr>sec_state := BTM_SEC_STATE_IDLE\<rparr>)
               (w\<lparr>collision_start_time := start\<rparr>))\<lparr>p_collided_dev_rec := Some p\<rparr>)) \<and>
    (t2 - start < 5000 \<and> found = Some p \<and>
     \<not> (sec_state (dev w p) = BTM_SEC_STATE_AUTHENTICATING \<or>
        sec_state (dev w p) = BTM_SEC_STATE_ENCRYPTING) \<longrightarrow>
       btm_sec_auth_collision t1 t2 handle w =
         emit (alarm_set_sec_collision_timer 1000)
           (w\<lparr>collision_start_time := start, p_collided_dev_rec := Some p\<rparr>)) \<and>
    (t2 - start < 5000 \<and> found = None \<longrightarrow>
       btm_sec_auth_collision t1 t2 handle w = w\<lparr>collision_start_time := start\<rparr>) \<and>
    (handle = HCI_INVALID_HANDLE \<and> found = Some p \<longrightarrow>
       sec_state (dev w p) = BTM_SEC_STATE_AUTHENTICATING \<or>
       sec_state (dev w p) = BTM_SEC_STATE_ENCRYPTING) \<and>
    (collision_start_time w \<noteq> 0 \<and> \<not> t2 - collision_start_time w < 5000 \<longrightarrow>
       btm_sec_auth_collision t1 t2 handle w = w) \<and>
    (p_collided_dev_rec w = Some p \<longrightarrow>
       btm_sec_collision_timeout e w =
         (if fst (btm_sec_execute_procedure e p w) \<noteq> BTM_CMD_STARTED
          then btm_sec_dev_rec_cback_event e p (fst (btm_sec_execute_procedure e p w)) False
                 (snd (btm_sec_execute_procedure e p w))
          else snd (btm_sec_execute_procedure e p w))) \<and>
    collision_start_time (btm_sec_auth_collision t1 t2 handle w) = start \<and>
    (collision_start_time w \<noteq> 0 \<and> restarts e evs w \<longrightarrow>
       collision_start_time (retry_run e evs w) = collision_start_time w) \<and>
    (collision_start_time w \<noteq> 0 \<and> restarts e evs w \<and>
     \<not> t4 - collision_start_time w < 5000 \<longrightarrow>
       btm_sec_auth_collision t3 t4 handle2 (retry_run e evs w) = retry_run e evs w) \<and>
    (status2 \<noteq> HCI_ERR_LMP_ERR_TRANS_COLLISION \<and>
     status2 \<noteq> HCI_ERR_DIFF_TRANSACTION_COLLISION \<and>
     btm_find_dev_by_handle w handle2 = None \<longrightarrow>
       btm_sec_encrypt_change e t3 t4 handle2 status2 encr_enable w =
         w\<lparr>collision_start_time := 0\<rparr>)"
proof -
  have c1: "btm_sec_auth_complete e t1 t2 handle status w =
      btm_sec_auth_collision t1 t2 handle w"
    using assms(1) by (simp add: btm_sec_auth_complete_def Let_def)
  have c2: "btm_sec_encrypt_change e t1 t2 handle status encr_enable w =
      btm_sec_auth_collision t1 t2 handle w"
    using assms(1) by (simp add: btm_sec_encrypt_change_def)
  have c3: "calls (btm_sec_auth_collision t1 t2 handle w) = calls w \<or>
     calls (btm_sec_auth_collision t1 t2 handle w) =
       calls w @ [alarm_set_sec_collision_timer 1000]"
    using auth_collision_calls[of t1 t2 handle w] by (simp add: BT_1SEC_TIMEOUT_MS_def)
  have u: "t2 - start < 5000 \<Longrightarrow> btm_sec_auth_collision t1 t2 handle w =
     (case found of
        None \<Rightarrow> w\<lparr>collision_start_time := start\<rparr>
      | Some p \<Rightarrow>
          emit (alarm_set_sec_collision_timer 1000)
            ((if sec_state (dev w p) = BTM_SEC_STATE_AUTHENTICATING \<or>
                 sec_state (dev w p) = BTM_SEC_STATE_ENCRYPTING
              then upd_dev p (\<lambda>r. r\<lparr>sec_state := BTM_SEC_STATE_IDLE\<rparr>)
                     (w\<lparr>collision_start_time := start\<rparr>)
              else w\<lparr>collision_start_time := start\<rparr>)\<lparr>p_collided_dev_rec := Some p\<rparr>))"
  proof -
    assume "t2 - start < 5000"
    then have "t2 - start < BTM_SEC_MAX_COLLISION_DELAY"
      by (simp add: BTM_SEC_MAX_COLLISION_DELAY_def)
    from auth_collision_found[OF assms(2) this assms(3)] show ?thesis
      unfolding BT_1SEC_TIMEOUT_MS_def .
  qed
  have c4: "t2 - start < 5000 \<and> found = Some p \<and>
     (sec_state (dev w p) = BTM_SEC_STATE_AUTHENTICATING \<or>
      sec_state (dev w p) = BTM_SEC_STATE_ENCRYPTING) \<longrightarrow>
       btm_sec_auth_collision t1 t2 handle w =
         emit (alarm_set_sec_collision_timer 1000)
           ((upd_dev p (\<lambda>r. r\<lparr>sec_state := BTM_SEC_STATE_IDLE\<rparr>)
               (w\<lparr>collision_start_time := start\<rparr>))\<lparr>p_collided_dev_rec := Some p\<rparr>)"
  proof (intro impI)
    assume a: "t2 - start < 5000 \<and> found = Some p \<and>
     (sec_state (dev w p) = BTM_SEC_STATE_AUTHENTICATING \<or>
      sec_state (dev w p) = BTM_SEC_STATE_ENCRYPTING)"
    then have "t2 - start < 5000" and f: "found = Some p"
      and s: "(sec_state (dev w p) = BTM_SEC_STATE_AUTHENTICATING \<or>
        sec_state (dev w p) = BTM_SEC_STATE_ENCRYPTING) = True" by simp_all
    from u[OF this(1)] show "btm_sec_auth_collision t1 t2 handle w =
         emit (alarm_set_sec_collision_timer 1000)
           ((upd_dev p (\<lambda>r. r\<lparr>sec_state := BTM_SEC_STATE_IDLE\<rparr>)
               (w\<lparr>collision_start_time := start\<rparr>))\<lparr>p_collided_dev_rec := Some p\<rparr>)"
      by (simp only: f option.case s if_True)
  qed
  have c5: "t2 - start < 5000 \<and> found = Some p \<and>
     \<not> (sec_state (dev w p) = BTM_SEC_STATE_AUTHENTICATING \<or>
        sec_state (dev w p) = BTM_SEC_STATE_ENCRYPTING) \<longrightarrow>
       btm_sec_auth_collision t1 t2 handle w =
         emit (alarm_set_sec_collision_timer 1000)
           (w\<lparr>collision_start_time := start, p_collided_dev_rec := Some p\<rparr>)"
  proof (intro impI)
    assume a: "t2 - start < 5000 \<and> found = Some p \<and>
     \<not> (sec_state (dev w p) = BTM_SEC_STATE_AUTHENTICATING \<or>
        sec_state (dev w p) = BTM_SEC_STATE_ENCRYPTING)"
    then have "t2 - start < 5000" and f: "found = Some p"
      and s: "(sec_state (dev w p) = BTM_SEC_STATE_AUTHENTICATING \<or>
        sec_state (dev w p) = BTM_SEC_STATE_ENCRYPTING) = False" by simp_all
    from u[OF this(1)] show "btm_sec_auth_collision t1 t2 handle w =
         emit (alarm_set_sec_collision_timer 1000)
           (w\<lparr>collision_start_time := start, p_collided_dev_rec := Some p\<rparr>)"
      by (simp only: f option.case s if_False)
  qed
  have c6: "t2 - start < 5000 \<and> found = None \<longrightarrow>
       btm_sec_auth_collision t1 t2 handle w = w\<lparr>collision_start_time := start\<rparr>"
    using u by simp
  have c7: "handle = HCI_INVALID_HANDLE \<and> found = Some p \<longrightarrow>
       sec_state (dev w p) = BTM_SEC_STATE_AUTHENTICATING \<or>
       sec_state (dev w p) = BTM_SEC_STATE_ENCRYPTING"
  proof (intro impI)
    assume a: "handle = HCI_INVALID_HANDLE \<and> found = Some p"
    then have h: "handle = HCI_INVALID_HANDLE" and f: "found = Some p" by simp_all
    have k: "(case btm_sec_find_dev_by_sec_state w BTM_SEC_STATE_AUTHENTICATING of
                None \<Rightarrow> btm_sec_find_dev_by_sec_state w BTM_SEC_STATE_ENCRYPTING
              | Some q \<Rightarrow> Some q) = Some p"
      using f unfolding assms(3) h by simp
    show "sec_state (dev w p) = BTM_SEC_STATE_AUTHENTICATING \<or>
       sec_state (dev w p) = BTM_SEC_STATE_ENCRYPTING"
    proof (cases "btm_sec_find_dev_by_sec_state w BTM_SEC_STATE_AUTHENTICATING")
      case None
      with k have "btm_sec_find_dev_by_sec_state w BTM_SEC_STATE_ENCRYPTING = Some p"
        by simp
      then show ?thesis by (simp add: find_by_sec_state_Some)
    next
      case (Some q)
      with k have "btm_sec_find_dev_by_sec_state w BTM_SEC_STATE_AUTHENTICATING = Some p"
        by simp
      then show ?thesis by (simp add: find_by_sec_state_Some)
    qed
  qed
  have c8: "collision_start_time w \<noteq> 0 \<and> \<not> t2 - collision_start_time w < 5000 \<longrightarrow>
       btm_sec_auth_collision t1 t2 handle w = w"
    by (intro impI auth_collision_elapsed) (simp_all add: BTM_SEC_MAX_COLLISION_DELAY_def)
  have c9: "p_collided_dev_rec w = Some p \<longrightarrow>
       btm_sec_collision_timeout e w =
         (if fst (btm_sec_execute_procedure e p w) \<noteq> BTM_CMD_STARTED
          then btm_sec_dev_rec_cback_event e p (fst (btm_sec_execute_procedure e p w)) False
                 (snd (btm_sec_execute_procedure e p w))
          else snd (btm_sec_execute_procedure e p w))"
  proof (intro impI)
    assume c: "p_collided_dev_rec w = Some p"
    obtain st w1 where x: "btm_sec_execute_procedure e p w = (st, w1)"
      by (cases "btm_sec_execute_procedure e p w")
    from collided_exec[of e p w] x c have "p_collided_dev_rec w1 = Some p" by simp
    then show "btm_sec_collision_timeout e w =
         (if fst (btm_sec_execute_procedure e p w) \<noteq> BTM_CMD_STARTED
          then btm_sec_dev_rec_cback_event e p (fst (btm_sec_execute_procedure e p w)) False
                 (snd (btm_sec_execute_procedure e p w))
          else snd (btm_sec_execute_procedure e p w))"
      by (simp add: btm_sec_collision_timeout_def c x)
  qed
  have c10: "collision_start_time (btm_sec_auth_collision t1 t2 handle w) = start"
    unfolding assms(2) by (rule auth_collision_start)
  have c11: "collision_start_time w \<noteq> 0 \<and> restarts e evs w \<longrightarrow>
       collision_start_time (retry_run e evs w) = collision_start_time w"
    using retry_run_start by blast
  have c12: "collision_start_time w \<noteq> 0 \<and> restarts e evs w \<and>
     \<not> t4 - collision_start_time w < 5000 \<longrightarrow>
       btm_sec_auth_collision t3 t4 handle2 (retry_run e evs w) = retry_run e evs w"
  proof (intro impI)
    assume a: "collision_start_time w \<noteq> 0 \<and> restarts e evs w \<and>
     \<not> t4 - collision_start_time w < 5000"
    then have s: "collision_start_time (retry_run e evs w) = collision_start_time w"
      using retry_run_start by blast
    show "btm_sec_auth_collision t3 t4 handle2 (retry_run e evs w) = retry_run e evs w"
      using a by (intro auth_collision_elapsed)
        (simp_all add: s BTM_SEC_MAX_COLLISION_DELAY_def)
  qed
  have c13: "status2 \<noteq> HCI_ERR_LMP_ERR_TRANS_COLLISION \<and>
     status2 \<noteq> HCI_ERR_DIFF_TRANSACTION_COLLISION \<and>
     btm_find_dev_by_handle w handle2 = None \<longrightarrow>
       btm_sec_encrypt_change e t3 t4 handle2 status2 encr_enable w =
         w\<lparr>collision_start_time := 0\<rparr>"
    using encrypt_change_unknown_handle by blast
  from c1 c2 c3 c4 c5 c6 c7 c8 c9 c10 c11 c12 c13 show ?thesis
    by (intro conjI)
qed

theorem collision_retry_window_witness:
  "sec_state (dev authenticating_cb 0) = BTM_SEC_STATE_AUTHENTICATING \<and>
   btm_sec_auth_complete sample_env 1000 1000 11 HCI_ERR_LMP_ERR_TRANS_COLLISION
       authenticating_cb =
     emit (alarm_set_sec_collision_timer 1000)
       ((upd_dev 0 (\<lambda>r. r\<lparr>sec_state := BTM_SEC_STATE_IDLE\<rparr>)
           (authenticating_cb\<lparr>collision_start_time := 1000\<rparr>))
        \<lparr>p_collided_dev_rec := Some 0\<rparr>) \<and>
   btm_sec_encrypt_change sample_env 1000 1000 HCI_INVALID_HANDLE
       HCI_ERR_DIFF_TRANSACTION_COLLISION 0 authenticating_cb =
     emit (alarm_set_sec_collision_timer 1000)
       ((upd_dev 0 (\<lambda>r. r\<lparr>sec_state := BTM_SEC_STATE_IDLE\<rparr>)
           (authenticating_cb\<lparr>collision_start_time := 1000\<rparr>))
        \<lparr>p_collided_dev_rec := Some 0\<rparr>) \<and>
   btm_sec_encrypt_change sample_env 7000 7000 11 HCI_ERR_DIFF_TRANSACTION_COLLISION 0
       collided_cb = collided_cb \<and>
   restarts sample_env [Collision 2000 2000 11, Timer_expiry] collided_cb \<and>
   collision_start_time
     (retry_run sample_env [Collision 2000 2000 11, Timer_expiry] collided_cb) = 1000 \<and>
   btm_sec_auth_collision 7000 7000 11
       (retry_run sample_env [Collision 2000 2000 11, Timer_expiry] collided_cb) =
     retry_run sample_env [Collision 2000 2000 11, Timer_expiry] collided_cb \<and>
   btm_sec_encrypt_change sample_env 7000 7000 99 HCI_SUCCESS 1 collided_cb =
     collided_cb\<lparr>collision_start_time := 0\<rparr> \<and>
   btm_sec_auth_complete sample_env 7001 7001 11 HCI_ERR_LMP_ERR_TRANS_COLLISION
       (collided_cb\<lparr>collision_start_time := 0\<rparr>) =
     emit (alarm_set_sec_collision_timer 1000)
       ((upd_dev 0 (\<lambda>r. r\<lparr>sec_state := BTM_SEC_STATE_IDLE\<rparr>)
           (collided_cb\<lparr>collision_start_time := 7001\<rparr>))
        \<lparr>p_collided_dev_rec := Some 0\<rparr>)"
proof -
  let ?evs = "[Collision 2000 2000 11, Timer_expiry]"
  have s: "sec_state (dev authenticating_cb 0) = BTM_SEC_STATE_AUTHENTICATING"
    by (simp add: authenticating_cb_def sample_cb_def dev_def)
  have s': "sec_state (dev collided_cb 0) = BTM_SEC_STATE_AUTHENTICATING"
    by (simp add: collided_cb_def authenticating_cb_def sample_cb_def dev_def)
  have f: "btm_find_dev_by_handle authenticating_cb 11 = Some 0"
    by (simp add: btm_find_dev_by_handle_def authenticating_cb_def
        sample_cb_def sample_dev_def)
  have f': "btm_find_dev_by_handle collided_cb 11 = Some 0"
    by (simp add: btm_find_dev_by_handle_def collided_cb_def authenticating_cb_def
        sample_cb_def sample_dev_def)
  have n': "btm_find_dev_by_handle collided_cb 99 = None"
    by (simp add: btm_find_dev_by_handle_def collided_cb_def authenticating_cb_def
        sample_cb_def sample_dev_def HCI_INVALID_HANDLE_def)
  have g: "btm_sec_find_dev_by_sec_state authenticating_cb BTM_SEC_STATE_AUTHENTICATING =
      Some 0"
    by (simp add: btm_sec_find_dev_by_sec_state_def authenticating_cb_def sample_cb_def)
  have c: "collision_start_time authenticating_cb = 0"
    by (simp add: authenticating_cb_def sample_cb_def)
  have c': "collision_start_time collided_cb = 1000"
    by (simp add: collided_cb_def)
  have a: "btm_sec_auth_complete sample_env 1000 1000 11 HCI_ERR_LMP_ERR_TRANS_COLLISION
       authenticating_cb =
     emit (alarm_set_sec_collision_timer 1000)
       ((upd_dev 0 (\<lambda>r. r\<lparr>sec_state := BTM_SEC_STATE_IDLE\<rparr>)
           (authenticating_cb\<lparr>collision_start_time := 1000\<rparr>))
        \<lparr>p_collided_dev_rec := Some 0\<rparr>)"
    using collision_retry_window[OF disjI1[OF refl] refl refl, where e = sample_env
        and ?t1.0 = 1000 and ?t2.0 = 1000 and handle = 11 and w = authenticating_cb
        and p = 0] s f c
    by (simp add: HCI_INVALID_HANDLE_def)
  have b: "btm_sec_encrypt_change sample_env 1000 1000 HCI_INVALID_HANDLE
       HCI_ERR_DIFF_TRANSACTION_COLLISION 0 authenticating_cb =
     emit (alarm_set_sec_collision_timer 1000)
       ((upd_dev 0 (\<lambda>r. r\<lparr>sec_state := BTM_SEC_STATE_IDLE\<rparr>)
           (authenticating_cb\<lparr>collision_start_time := 1000\<rparr>))
        \<lparr>p_collided_dev_rec := Some 0\<rparr>)"
    using collision_retry_window[OF disjI2[OF refl] refl refl, where e = sample_env
        and ?t1.0 = 1000 and ?t2.0 = 1000 and handle = HCI_INVALID_HANDLE
        and w = authenticating_cb and p = 0 and encr_enable = 0] s g c
    by simp
  have d: "btm_sec_encrypt_change sample_env 7000 7000 11
       HCI_ERR_DIFF_TRANSACTION_COLLISION 0 collided_cb = collided_cb"
    using collision_retry_window[OF disjI2[OF refl] refl refl, where e = sample_env
        and ?t1.0 = 7000 and ?t2.0 = 7000 and handle = 11 and w = collided_cb
        and encr_enable = 0] c'
    by simp
  define X where "X = emit (alarm_set_sec_collision_timer 1000)
       ((upd_dev 0 (\<lambda>r. r\<lparr>sec_state := BTM_SEC_STATE_IDLE\<rparr>)
           (collided_cb\<lparr>collision_start_time := 1000\<rparr>))
        \<lparr>p_collided_dev_rec := Some 0\<rparr>)"
  have x: "btm_sec_auth_collision 2000 2000 11 collided_cb = X"
    unfolding X_def
    using collision_retry_window[OF disjI1[OF refl] refl refl, where e = sample_env
        and ?t1.0 = 2000 and ?t2.0 = 2000 and handle = 11 and w = collided_cb
        and p = 0] s' f' c'
    by (simp add: HCI_INVALID_HANDLE_def)
  have pc: "p_collided_dev_rec X = Some 0"
    by (simp add: X_def)
  have dv: "dev X 0 = sample_dev\<lparr>security_required :=
         BTM_SEC_IN_AUTHENTICATE OR BTM_SEC_IN_ENCRYPT,
       sec_state := BTM_SEC_STATE_IDLE\<rparr>"
    by (simp add: X_def dev_def upd_dev_def emit_def collided_cb_def authenticating_cb_def
        sample_cb_def)
  have st: "fst (btm_sec_execute_procedure sample_env 0 X) = BTM_CMD_STARTED"
    by (rule exec_auth_started)
      (simp_all add: dv procedure_running_def name_needed_def auth_needed_def
        sample_dev_def flag_defs)
  have rs: "restarts sample_env ?evs collided_cb"
    by (simp add: x pc st)
  note run = collision_retry_window[OF disjI1[OF refl] refl refl, where e = sample_env
        and w = collided_cb and evs = ?evs and ?t3.0 = 7000 and ?t4.0 = 7000
        and ?handle2.0 = 11 and ?t1.0 = 7000 and ?t2.0 = 7000 and handle = 11]
  have r1: "collision_start_time (retry_run sample_env ?evs collided_cb) = 1000"
    using run rs c' by simp
  have r2: "btm_sec_auth_collision 7000 7000 11 (retry_run sample_env ?evs collided_cb) =
     retry_run sample_env ?evs collided_cb"
    using run rs c' by simp
  have z: "btm_sec_encrypt_change sample_env 7000 7000 99 HCI_SUCCESS 1 collided_cb =
     collided_cb\<lparr>collision_start_time := 0\<rparr>"
    using collision_retry_window[OF disjI1[OF refl] refl refl, where e = sample_env
        and w = collided_cb and ?t3.0 = 7000 and ?t4.0 = 7000 and ?handle2.0 = 99
        and ?status2.0 = HCI_SUCCESS and encr_enable = 1 and ?t1.0 = 7000 and ?t2.0 = 7000
        and handle = 11] n'
    by (simp add: HCI_SUCCESS_def HCI_ERR_LMP_ERR_TRANS_COLLISION_def
        HCI_ERR_DIFF_TRANSACTION_COLLISION_def)
  have s0: "sec_state (dev (collided_cb\<lparr>collision_start_time := 0\<rparr>) 0) =
      BTM_SEC_STATE_AUTHENTICATING"
    using s' by (simp add: dev_def)
  have f0: "btm_find_dev_by_handle (collided_cb\<lparr>collision_start_time := 0\<rparr>) 11 = Some 0"
    using f' by simp
  have y: "btm_sec_auth_complete sample_env 7001 7001 11 HCI_ERR_LMP_ERR_TRANS_COLLISION
       (collided_cb\<lparr>collision_start_time := 0\<rparr>) =
     emit (alarm_set_sec_collision_timer 1000)
       ((upd_dev 0 (\<lambda>r. r\<lparr>sec_state := BTM_SEC_STATE_IDLE\<rparr>)
           (collided_cb\<lparr>collision_start_time := 7001\<rparr>))
        \<lparr>p_collided_dev_rec := Some 0\<rparr>)"
    using collision_retry_window[OF disjI1[OF refl] refl refl, where e = sample_env
        and ?t1.0 = 7001 and ?t2.0 = 7001 and handle = 11
        and w = "collided_cb\<lparr>collision_start_time := 0\<rparr>" and p = 0] s0 f0
    by (simp add: HCI_INVALID_HANDLE_def)
  from s a b d rs r1 r2 z y show ?thesis by (intro conjI)
qed

subsection \<open>The retry for a missing key\<close>

lemma restore_mode_fields [simp]:
  "pairing_state (btm_restore_mode w) = pairing_state w"
  "pairing_flags (btm_restore_mode w) = pairing_flags w"
  "pairing_bda (btm_restore_mode w) = pairing_bda w"
  "sec_dev_rec (btm_restore_mode w) = sec_dev_rec w"
  "dev (btm_restore_mode w) p = dev w p"
  by (simp_all add: btm_restore_mode_def Let_def emit_def dev_def)

lemma upd_dev_fields [simp]:
  "pairing_state (upd_dev p f w) = pairing_state w"
  "pairing_flags (upd_dev p f w) = pairing_flags w"
  "pairing_bda (upd_dev p f w) = pairing_bda w"
  "length (sec_dev_rec (upd_dev p f w)) = length (sec_dev_rec w)"
  by (simp_all add: upd_dev_def)

lemma dev_collision_start [simp]: "dev (w\<lparr>collision_start_time := t\<rparr>) p = dev w p"
  by (simp add: dev_def)

lemma find_by_handle_Some:
  "btm_find_dev_by_handle w h = Some p \<Longrightarrow> p < length (sec_dev_rec w)"
  unfolding btm_find_dev_by_handle_def by (drule find_index_Some) simp

lemma is_sm4_clear_retry: "BTM_SEC_IS_SM4 (x AND NOT BTM_SM4_RETRY) = BTM_SEC_IS_SM4 x"
proof -
  have "(x AND NOT BTM_SM4_RETRY) AND BTM_SM4_TRUE = x AND (NOT BTM_SM4_RETRY AND BTM_SM4_TRUE)"
    by (simp only: and.assoc)
  also have "NOT BTM_SM4_RETRY AND BTM_SM4_TRUE = BTM_SM4_TRUE"
    by (simp add: BTM_SM4_RETRY_def BTM_SM4_TRUE_def)
  finally show ?thesis by (simp only: BTM_SEC_IS_SM4_def)
qed

lemma clear_retry_id:
  fixes x :: "8 word"
  assumes "x AND BTM_SM4_RETRY = 0"
  shows "x AND NOT BTM_SM4_RETRY = x"
proof -
  have "x = x AND (BTM_SM4_RETRY OR NOT BTM_SM4_RETRY)" by simp
  also have "\<dots> = (x AND BTM_SM4_RETRY) OR (x AND NOT BTM_SM4_RETRY)"
    by (simp only: bit.conj_disj_distrib)
  finally show ?thesis using assms by simp
qed

lemma upd_dev_clear_retry_id:
  assumes "sm4 (dev w p) AND BTM_SM4_RETRY = 0"
  shows "upd_dev p (\<lambda>r. r\<lparr>sm4 := sm4 r AND NOT BTM_SM4_RETRY\<rparr>) w = w"
  using clear_retry_id[OF assms] by (simp add: upd_dev_def dev_def)

lemma auth_retry_unfold:
  assumes "btm_find_dev_by_handle w handle = Some p"
  shows "btm_sec_auth_retry e handle status w =
     (if pairing_state w = BTM_PAIR_STATE_IDLE \<and> sm4 (dev w p) AND BTM_SM4_RETRY = 0 \<and>
         HCI_ERR_KEY_MISSING = status \<and> BTM_SEC_IS_SM4 (sm4 (dev w p))
      then (True, snd (btm_sec_execute_procedure e p
              (upd_dev p (\<lambda>r. r\<lparr>sm4 := sm4 r OR BTM_SM4_RETRY,
                  sec_flags := sec_flags r AND NOT BTM_SEC_LINK_KEY_KNOWN,
                  sec_state := BTM_SEC_STATE_IDLE\<rparr>)
                (btm_restore_mode
                  ((upd_dev p (\<lambda>r. r\<lparr>sm4 := sm4 r AND NOT BTM_SM4_RETRY\<rparr>) w)
                     \<lparr>collision_start_time := 0\<rparr>)))))
      else (False, upd_dev p (\<lambda>r. r\<lparr>sm4 := sm4 r AND NOT BTM_SM4_RETRY\<rparr>) w))"
proof -
  have l: "p < length (sec_dev_rec w)" using assms by (rule find_by_handle_Some)
  have s: "BTM_SEC_IS_SM4 (sm4 (dev (upd_dev p (\<lambda>r. r\<lparr>sm4 := sm4 r AND NOT BTM_SM4_RETRY\<rparr>) w) p)) =
        BTM_SEC_IS_SM4 (sm4 (dev w p))"
    by (simp add: dev_upd_dev_same[OF l] is_sm4_clear_retry)
  show ?thesis
    unfolding btm_sec_auth_retry_def assms option.case Let_def s upd_dev_fields
    by (rule refl)
qed

lemma auth_complete_retried:
  assumes "btm_find_dev_by_handle w handle = Some p"
    and "BTM_SEC_IS_SM4 (sm4 (dev w p))"
    and "pairing_state w = BTM_PAIR_STATE_IDLE"
    and "sm4 (dev w p) AND BTM_SM4_RETRY = 0"
  shows "btm_sec_auth_retry e handle HCI_ERR_KEY_MISSING w =
     (True, snd (btm_sec_execute_procedure e p
        (upd_dev p (\<lambda>r. r\<lparr>sm4 := sm4 r OR BTM_SM4_RETRY,
            sec_flags := sec_flags r AND NOT BTM_SEC_LINK_KEY_KNOWN,
            sec_state := BTM_SEC_STATE_IDLE\<rparr>)
          (btm_restore_mode (w\<lparr>collision_start_time := 0\<rparr>)))))"
  unfolding auth_retry_unfold[OF assms(1)] upd_dev_clear_retry_id[OF assms(4)]
  using assms(2,3,4) by simp

lemma auth_complete_not_retried:
  assumes "btm_find_dev_by_handle w handle = Some p"
    and "pairing_state w \<noteq> BTM_PAIR_STATE_IDLE \<or> sm4 (dev w p) AND BTM_SM4_RETRY \<noteq> 0"
  shows "btm_sec_auth_retry e handle status w =
     (False, upd_dev p (\<lambda>r. r\<lparr>sm4 := sm4 r AND NOT BTM_SM4_RETRY\<rparr>) w)"
  unfolding auth_retry_unfold[OF assms(1)]
  using assms(2) by (simp only: if_False simp_thms split: if_splits) blast

lemma key_missing_values:
  "HCI_ERR_KEY_MISSING \<noteq> HCI_ERR_LMP_ERR_TRANS_COLLISION"
  "HCI_ERR_KEY_MISSING \<noteq> HCI_ERR_DIFF_TRANSACTION_COLLISION"
  "HCI_ERR_KEY_MISSING \<noteq> HCI_ERR_COMMAND_DISALLOWED"
  "HCI_ERR_KEY_MISSING \<noteq> HCI_SUCCESS"
  by (simp_all add: HCI_ERR_KEY_MISSING_def HCI_ERR_LMP_ERR_TRANS_COLLISION_def
      HCI_ERR_DIFF_TRANSACTION_COLLISION_def HCI_ERR_COMMAND_DISALLOWED_def HCI_SUCCESS_def)

lemma auth_complete_surfaced:
  assumes f: "btm_find_dev_by_handle w handle = Some p"
    and i: "pairing_state w = BTM_PAIR_STATE_IDLE"
    and r: "sm4 (dev w p) AND BTM_SM4_RETRY \<noteq> 0"
    and a: "sec_state (dev w p) = BTM_SEC_STATE_AUTHENTICATING"
    and d: "\<not> (pairing_flags w AND BTM_PAIR_FLAGS_WE_STARTED_DD \<noteq> 0 \<and>
               pairing_flags w AND BTM_PAIR_FLAGS_DISC_WHEN_DONE = 0)"
    and w4: "w4 = upd_dev p (\<lambda>r. r\<lparr>sec_state := BTM_SEC_STATE_IDLE\<rparr>)
                 (btm_restore_mode
                    ((upd_dev p (\<lambda>r. r\<lparr>sm4 := sm4 r AND NOT BTM_SM4_RETRY\<rparr>) w)
                       \<lparr>collision_start_time := 0\<rparr>))"
    and w7: "w7 = btm_sec_dev_rec_cback_event e p BTM_ERR_PROCESSING False
                 (NotifyBondingChange e p HCI_ERR_KEY_MISSING w4)"
  shows "btm_sec_auth_complete e t1 t2 handle HCI_ERR_KEY_MISSING w =
     (if pairing_flags w7 AND BTM_PAIR_FLAGS_DISC_WHEN_DONE \<noteq> 0
      then snd (btm_sec_send_hci_disconnect e p HCI_ERR_AUTH_FAILURE (hci_handle (dev w7 p)) w7)
      else w7)"
proof -
  have l: "p < length (sec_dev_rec w)" using f by (rule find_by_handle_Some)
  have nr: "btm_sec_auth_retry e handle HCI_ERR_KEY_MISSING w =
     (False, upd_dev p (\<lambda>r. r\<lparr>sm4 := sm4 r AND NOT BTM_SM4_RETRY\<rparr>) w)"
    using auth_complete_not_retried[OF f] r by blast
  define w2 where "w2 = btm_restore_mode
                    ((upd_dev p (\<lambda>r. r\<lparr>sm4 := sm4 r AND NOT BTM_SM4_RETRY\<rparr>) w)
                       \<lparr>collision_start_time := 0\<rparr>)"
  have l2: "p < length (sec_dev_rec w2)" using l by (simp add: w2_def)
  have s2: "sec_state (dev w2 p) = BTM_SEC_STATE_AUTHENTICATING"
    using a by (simp add: w2_def dev_upd_dev_same[OF l])
  have p2: "pairing_state w2 = BTM_PAIR_STATE_IDLE" using i by (simp add: w2_def)
  have f2: "pairing_flags w2 = pairing_flags w" by (simp add: w2_def)
  have u: "upd_dev p (\<lambda>r. r\<lparr>sec_state := BTM_SEC_STATE_IDLE, sec_flags := sec_flags r\<rparr>) w2 = w4"
    by (simp add: w4 w2_def)
  have p4: "pairing_state w4 = BTM_PAIR_STATE_IDLE" using p2 by (simp add: w4 w2_def)
  have c3: "(pairing_flags w2 AND BTM_PAIR_FLAGS_WE_STARTED_DD \<noteq> 0 \<and>
             pairing_flags w2 AND BTM_PAIR_FLAGS_DISC_WHEN_DONE = 0) = False"
    using d f2 by simp
  have e1: "(HCI_ERR_KEY_MISSING = HCI_ERR_LMP_ERR_TRANS_COLLISION) = False"
    "(HCI_ERR_KEY_MISSING = HCI_ERR_DIFF_TRANSACTION_COLLISION) = False"
    "(HCI_ERR_KEY_MISSING = HCI_ERR_COMMAND_DISALLOWED) = False"
    "(HCI_ERR_KEY_MISSING = HCI_SUCCESS) = False"
    using key_missing_values by simp_all
  have s2': "(sec_state (dev w2 p) = BTM_SEC_STATE_AUTHENTICATING) = True"
    using s2 by simp
  have p4': "(pairing_state w4 = BTM_PAIR_STATE_IDLE) = True" using p4 by simp
  show ?thesis
    apply (simp only: btm_sec_auth_complete_def nr f Let_def prod.case bool.case
        option.case e1 simp_thms if_False if_True w2_def[symmetric])
    apply (simp only: c3 if_False if_True s2' simp_thms e1 u p4' w7[symmetric])
    done
qed

text \<open>
  C7, as the claim states it, fails: the retry is only made while no pairing is in
  progress. While the device is being bonded, a first key-missing status for an SM4 peer
  whose retry flag is not set is not retried: the retry flag is not set, the link key
  stays known and \<open>sec_state\<close> is not reset.
\<close>

theorem key_missing_while_pairing_counterexample:
  "pairing_state bonding_cb = BTM_PAIR_STATE_WAIT_AUTH_COMPLETE \<and>
   btm_find_dev_by_handle bonding_cb 11 = Some 0 \<and>
   BTM_SEC_IS_SM4 (sm4 (dev bonding_cb 0)) \<and>
   sm4 (dev bonding_cb 0) AND BTM_SM4_RETRY = 0 \<and>
   btm_sec_auth_retry sample_env 11 HCI_ERR_KEY_MISSING bonding_cb = (False, bonding_cb) \<and>
   sec_flags (dev bonding_cb 0) AND BTM_SEC_LINK_KEY_KNOWN \<noteq> 0 \<and>
   sec_state (dev bonding_cb 0) = BTM_SEC_STATE_AUTHENTICATING"
proof -
  have d: "dev bonding_cb 0 = sample_dev\<lparr>sec_flags :=
         BTM_SEC_IN_USE OR BTM_SEC_NAME_KNOWN OR BTM_SEC_LINK_KEY_KNOWN,
       security_required := BTM_SEC_OUT_AUTHENTICATE,
       sec_state := BTM_SEC_STATE_AUTHENTICATING\<rparr>"
    by (simp add: bonding_cb_def key_missing_cb_def sample_cb_def dev_def)
  have p: "pairing_state bonding_cb = BTM_PAIR_STATE_WAIT_AUTH_COMPLETE"
    by (simp add: bonding_cb_def)
  have f: "btm_find_dev_by_handle bonding_cb 11 = Some 0"
    by (simp add: btm_find_dev_by_handle_def bonding_cb_def key_missing_cb_def
        sample_cb_def sample_dev_def)
  have s: "BTM_SEC_IS_SM4 (sm4 (dev bonding_cb 0))"
    unfolding d by (simp add: sample_dev_def BTM_SEC_IS_SM4_def)
  have r: "sm4 (dev bonding_cb 0) AND BTM_SM4_RETRY = 0"
    unfolding d by (simp add: sample_dev_def BTM_SM4_TRUE_def BTM_SM4_RETRY_def)
  have "btm_sec_auth_retry sample_env 11 HCI_ERR_KEY_MISSING bonding_cb =
      (False, upd_dev 0 (\<lambda>r. r\<lparr>sm4 := sm4 r AND NOT BTM_SM4_RETRY\<rparr>) bonding_cb)"
    by (rule auth_complete_not_retried[OF f]) (simp add: p)
  then have a: "btm_sec_auth_retry sample_env 11 HCI_ERR_KEY_MISSING bonding_cb =
      (False, bonding_cb)"
    by (simp only: upd_dev_clear_retry_id[OF r])
  have k: "sec_flags (dev bonding_cb 0) AND BTM_SEC_LINK_KEY_KNOWN \<noteq> 0"
    unfolding d by (simp add: flag_defs)
  have t: "sec_state (dev bonding_cb 0) = BTM_SEC_STATE_AUTHENTICATING"
    unfolding d by simp
  from p f s r a k t show ?thesis by (intro conjI)
qed

text \<open>
  C7, amended. Let authentication complete with the key-missing status for the record of
  an SM4 (2.1 or later) peer. While the global pairing state is idle and the retry flag
  of the record is not set, \<open>btm_sec_auth_retry\<close> clears the start of the collision
  window, restores the security mode, sets the retry flag, clears
  \<open>BTM_SEC_LINK_KEY_KNOWN\<close>, resets \<open>sec_state\<close> to idle, runs
  \<open>btm_sec_execute_procedure\<close> for the record and returns true; the completion event then
  does nothing more, so no failure is surfaced. When the retry flag is already set, or a
  pairing is in progress, \<open>btm_sec_auth_retry\<close> only clears the retry flag and returns
  false: there is no retry. For an idle pairing state, a record that is authenticating and
  no dedicated bonding that keeps the link, the completion event then surfaces the second
  failure: it resets \<open>sec_state\<close>, reports the status through \<open>NotifyBondingChange\<close> and
  delivers \<open>BTM_ERR_PROCESSING\<close> through \<open>btm_sec_dev_rec_cback_event\<close>.
\<close>

theorem key_missing_retry_once:
  assumes "btm_find_dev_by_handle w handle = Some p"
    and "BTM_SEC_IS_SM4 (sm4 (dev w p))"
  shows
    "(pairing_state w = BTM_PAIR_STATE_IDLE \<and> sm4 (dev w p) AND BTM_SM4_RETRY = 0 \<longrightarrow>
        btm_sec_auth_retry e handle HCI_ERR_KEY_MISSING w =
          (True, snd (btm_sec_execute_procedure e p
             (upd_dev p (\<lambda>r. r\<lparr>sm4 := sm4 r OR BTM_SM4_RETRY,
                 sec_flags := sec_flags r AND NOT BTM_SEC_LINK_KEY_KNOWN,
                 sec_state := BTM_SEC_STATE_IDLE\<rparr>)
               (btm_restore_mode (w\<lparr>collision_start_time := 0\<rparr>))))) \<and>
        btm_sec_auth_complete e t1 t2 handle HCI_ERR_KEY_MISSING w =
          snd (btm_sec_execute_procedure e p
             (upd_dev p (\<lambda>r. r\<lparr>sm4 := sm4 r OR BTM_SM4_RETRY,
                 sec_flags := sec_flags r AND NOT BTM_SEC_LINK_KEY_KNOWN,
                 sec_state := BTM_SEC_STATE_IDLE\<rparr>)
               (btm_restore_mode (w\<lparr>collision_start_time := 0\<rparr>))))) \<and>
     (pairing_state w \<noteq> BTM_PAIR_STATE_IDLE \<or> sm4 (dev w p) AND BTM_SM4_RETRY \<noteq> 0 \<longrightarrow>
        btm_sec_auth_retry e handle HCI_ERR_KEY_MISSING w =
          (False, upd_dev p (\<lambda>r. r\<lparr>sm4 := sm4 r AND NOT BTM_SM4_RETRY\<rparr>) w)) \<and>
     (pairing_state w = BTM_PAIR_STATE_IDLE \<and> sm4 (dev w p) AND BTM_SM4_RETRY \<noteq> 0 \<and>
      sec_state (dev w p) = BTM_SEC_STATE_AUTHENTICATING \<and>
      \<not> (pairing_flags w AND BTM_PAIR_FLAGS_WE_STARTED_DD \<noteq> 0 \<and>
         pairing_flags w AND BTM_PAIR_FLAGS_DISC_WHEN_DONE = 0) \<longrightarrow>
        btm_sec_auth_complete e t1 t2 handle HCI_ERR_KEY_MISSING w =
          (let w4 = upd_dev p (\<lambda>r. r\<lparr>sec_state := BTM_SEC_STATE_IDLE\<rparr>)
                      (btm_restore_mode
                         ((upd_dev p (\<lambda>r. r\<lparr>sm4 := sm4 r AND NOT BTM_SM4_RETRY\<rparr>) w)
                            \<lparr>collision_start_time := 0\<rparr>));
               w7 = btm_sec_dev_rec_cback_event e p BTM_ERR_PROCESSING False
                      (NotifyBondingChange e p HCI_ERR_KEY_MISSING w4)
           in if pairing_flags w7 AND BTM_PAIR_FLAGS_DISC_WHEN_DONE \<noteq> 0
              then snd (btm_sec_send_hci_disconnect e p HCI_ERR_AUTH_FAILURE
                          (hci_handle (dev w7 p)) w7)
              else w7))"
proof (intro conjI impI)
  assume h: "pairing_state w = BTM_PAIR_STATE_IDLE \<and> sm4 (dev w p) AND BTM_SM4_RETRY = 0"
  then have i: "pairing_state w = BTM_PAIR_STATE_IDLE"
    and r: "sm4 (dev w p) AND BTM_SM4_RETRY = 0" by blast+
  show x: "btm_sec_auth_retry e handle HCI_ERR_KEY_MISSING w =
          (True, snd (btm_sec_execute_procedure e p
             (upd_dev p (\<lambda>r. r\<lparr>sm4 := sm4 r OR BTM_SM4_RETRY,
                 sec_flags := sec_flags r AND NOT BTM_SEC_LINK_KEY_KNOWN,
                 sec_state := BTM_SEC_STATE_IDLE\<rparr>)
               (btm_restore_mode (w\<lparr>collision_start_time := 0\<rparr>)))))"
    by (rule auth_complete_retried[OF assms i r])
  have e1: "(HCI_ERR_KEY_MISSING = HCI_ERR_LMP_ERR_TRANS_COLLISION) = False"
    "(HCI_ERR_KEY_MISSING = HCI_ERR_DIFF_TRANSACTION_COLLISION) = False"
    using key_missing_values by simp_all
  show "btm_sec_auth_complete e t1 t2 handle HCI_ERR_KEY_MISSING w =
          snd (btm_sec_execute_procedure e p
             (upd_dev p (\<lambda>r. r\<lparr>sm4 := sm4 r OR BTM_SM4_RETRY,
                 sec_flags := sec_flags r AND NOT BTM_SEC_LINK_KEY_KNOWN,
                 sec_state := BTM_SEC_STATE_IDLE\<rparr>)
               (btm_restore_mode (w\<lparr>collision_start_time := 0\<rparr>))))"
    by (simp only: btm_sec_auth_complete_def x Let_def prod.case bool.case e1 simp_thms
        if_False)
next
  assume "pairing_state w \<noteq> BTM_PAIR_STATE_IDLE \<or> sm4 (dev w p) AND BTM_SM4_RETRY \<noteq> 0"
  then show "btm_sec_auth_retry e handle HCI_ERR_KEY_MISSING w =
          (False, upd_dev p (\<lambda>r. r\<lparr>sm4 := sm4 r AND NOT BTM_SM4_RETRY\<rparr>) w)"
    by (rule auth_complete_not_retried[OF assms(1)])
next
  assume h: "pairing_state w = BTM_PAIR_STATE_IDLE \<and> sm4 (dev w p) AND BTM_SM4_RETRY \<noteq> 0 \<and>
      sec_state (dev w p) = BTM_SEC_STATE_AUTHENTICATING \<and>
      \<not> (pairing_flags w AND BTM_PAIR_FLAGS_WE_STARTED_DD \<noteq> 0 \<and>
         pairing_flags w AND BTM_PAIR_FLAGS_DISC_WHEN_DONE = 0)"
  then have i: "pairing_state w = BTM_PAIR_STATE_IDLE"
    and r: "sm4 (dev w p) AND BTM_SM4_RETRY \<noteq> 0"
    and a: "sec_state (dev w p) = BTM_SEC_STATE_AUTHENTICATING"
    and d: "\<not> (pairing_flags w AND BTM_PAIR_FLAGS_WE_STARTED_DD \<noteq> 0 \<and>
         pairing_flags w AND BTM_PAIR_FLAGS_DISC_WHEN_DONE = 0)" by blast+
  show "btm_sec_auth_complete e t1 t2 handle HCI_ERR_KEY_MISSING w =
          (let w4 = upd_dev p (\<lambda>r. r\<lparr>sec_state := BTM_SEC_STATE_IDLE\<rparr>)
                      (btm_restore_mode
                         ((upd_dev p (\<lambda>r. r\<lparr>sm4 := sm4 r AND NOT BTM_SM4_RETRY\<rparr>) w)
                            \<lparr>collision_start_time := 0\<rparr>));
               w7 = btm_sec_dev_rec_cback_event e p BTM_ERR_PROCESSING False
                      (NotifyBondingChange e p HCI_ERR_KEY_MISSING w4)
           in if pairing_flags w7 AND BTM_PAIR_FLAGS_DISC_WHEN_DONE \<noteq> 0
              then snd (btm_sec_send_hci_disconnect e p HCI_ERR_AUTH_FAILURE
                          (hci_handle (dev w7 p)) w7)
              else w7)"
    unfolding Let_def by (rule auth_complete_surfaced[OF assms(1) i r a d refl refl])
qed

theorem key_missing_retry_once_witness:
  "btm_find_dev_by_handle key_missing_cb 11 = Some 0 \<and>
   BTM_SEC_IS_SM4 (sm4 (dev key_missing_cb 0)) \<and>
   pairing_state key_missing_cb = BTM_PAIR_STATE_IDLE \<and>
   sm4 (dev key_missing_cb 0) AND BTM_SM4_RETRY = 0 \<and>
   btm_sec_auth_complete sample_env 0 0 11 HCI_ERR_KEY_MISSING key_missing_cb =
     snd (btm_sec_execute_procedure sample_env 0
       (upd_dev 0 (\<lambda>r. r\<lparr>sm4 := sm4 r OR BTM_SM4_RETRY,
           sec_flags := sec_flags r AND NOT BTM_SEC_LINK_KEY_KNOWN,
           sec_state := BTM_SEC_STATE_IDLE\<rparr>)
         (btm_restore_mode (key_missing_cb\<lparr>collision_start_time := 0\<rparr>)))) \<and>
   sm4 (dev retry_used_cb 0) AND BTM_SM4_RETRY \<noteq> 0 \<and>
   btm_sec_auth_retry sample_env 11 HCI_ERR_KEY_MISSING retry_used_cb =
     (False, upd_dev 0 (\<lambda>r. r\<lparr>sm4 := sm4 r AND NOT BTM_SM4_RETRY\<rparr>) retry_used_cb)"
proof -
  have d: "dev key_missing_cb 0 = sample_dev\<lparr>sec_flags :=
         BTM_SEC_IN_USE OR BTM_SEC_NAME_KNOWN OR BTM_SEC_LINK_KEY_KNOWN,
       security_required := BTM_SEC_OUT_AUTHENTICATE,
       sec_state := BTM_SEC_STATE_AUTHENTICATING\<rparr>"
    by (simp add: key_missing_cb_def sample_cb_def dev_def)
  have d': "dev retry_used_cb 0 = sample_dev\<lparr>sec_flags := BTM_SEC_IN_USE OR BTM_SEC_NAME_KNOWN,
       security_required := BTM_SEC_OUT_AUTHENTICATE,
       sm4 := BTM_SM4_TRUE OR BTM_SM4_RETRY,
       sec_state := BTM_SEC_STATE_AUTHENTICATING\<rparr>"
    by (simp add: retry_used_cb_def sample_cb_def dev_def)
  have f: "btm_find_dev_by_handle key_missing_cb 11 = Some 0"
    by (simp add: btm_find_dev_by_handle_def key_missing_cb_def sample_cb_def sample_dev_def)
  have f': "btm_find_dev_by_handle retry_used_cb 11 = Some 0"
    by (simp add: btm_find_dev_by_handle_def retry_used_cb_def sample_cb_def sample_dev_def)
  have s: "BTM_SEC_IS_SM4 (sm4 (dev key_missing_cb 0))"
    unfolding d by (simp add: sample_dev_def BTM_SEC_IS_SM4_def)
  have s': "BTM_SEC_IS_SM4 (sm4 (dev retry_used_cb 0))"
    unfolding d' by (simp add: BTM_SEC_IS_SM4_def BTM_SM4_TRUE_def BTM_SM4_RETRY_def)
  have i: "pairing_state key_missing_cb = BTM_PAIR_STATE_IDLE"
    by (simp add: key_missing_cb_def sample_cb_def)
  have r: "sm4 (dev key_missing_cb 0) AND BTM_SM4_RETRY = 0"
    unfolding d by (simp add: sample_dev_def BTM_SM4_TRUE_def BTM_SM4_RETRY_def)
  have r': "sm4 (dev retry_used_cb 0) AND BTM_SM4_RETRY \<noteq> 0"
    unfolding d' by (simp add: BTM_SM4_TRUE_def BTM_SM4_RETRY_def)
  have a: "btm_sec_auth_complete sample_env 0 0 11 HCI_ERR_KEY_MISSING key_missing_cb =
     snd (btm_sec_execute_procedure sample_env 0
       (upd_dev 0 (\<lambda>r. r\<lparr>sm4 := sm4 r OR BTM_SM4_RETRY,
           sec_flags := sec_flags r AND NOT BTM_SEC_LINK_KEY_KNOWN,
           sec_state := BTM_SEC_STATE_IDLE\<rparr>)
         (btm_restore_mode (key_missing_cb\<lparr>collision_start_time := 0\<rparr>))))"
    using key_missing_retry_once[OF f s, of sample_env 0 0] i r by blast
  have b: "btm_sec_auth_retry sample_env 11 HCI_ERR_KEY_MISSING retry_used_cb =
     (False, upd_dev 0 (\<lambda>r. r\<lparr>sm4 := sm4 r AND NOT BTM_SM4_RETRY\<rparr>) retry_used_cb)"
    using key_missing_retry_once[OF f' s', of sample_env 0 0] r' by blast
  from f s i r a r' b show ?thesis by (intro conjI)
qed

subsection \<open>Dedicated bonding while a pairing is in progress\<close>

lemma bond_by_transport_busy:
  "pairing_state w \<noteq> BTM_PAIR_STATE_IDLE \<Longrightarrow>
   btm_sec_bond_by_transport e a addr_type transport pin_len p_pin w = (BTM_WRONG_MODE, w)"
  by (simp add: btm_sec_bond_by_transport_def)

text \<open>
  C3, as the claim states it, fails for \<open>BTM_SecBond\<close>: the test of the transport against
  the type of the device comes before the test of the pairing state, so a request for the
  BR/EDR transport to a device known as LE only returns \<open>BTM_ILLEGAL_ACTION\<close>, not
  \<open>BTM_WRONG_MODE\<close>, while a pairing is in progress.
\<close>

theorem bond_illegal_action_counterexample:
  "pairing_state bonding_cb \<noteq> BTM_PAIR_STATE_IDLE \<and>
   BTM_SecBond le_only_env 0x112233445566 BLE_ADDR_PUBLIC BT_TRANSPORT_BR_EDR
       BT_DEVICE_TYPE_BLE 0 None bonding_cb = (BTM_ILLEGAL_ACTION, bonding_cb) \<and>
   BTM_ILLEGAL_ACTION \<noteq> BTM_WRONG_MODE"
  by (simp add: bonding_cb_def BTM_SecBond_def le_only_env_def sample_env_def Let_def
      BT_DEVICE_TYPE_BLE_def BT_DEVICE_TYPE_BREDR_def)

text \<open>
  C3, amended. While the global pairing state is not idle, every call of
  \<open>btm_sec_bond_by_transport\<close> returns \<open>BTM_WRONG_MODE\<close> at once and leaves the control
  block as it is: the pairing context and the device records are not changed and nothing
  is put in the queue. Every call of \<open>BTM_SecBond\<close> leaves the control block as it is too,
  and returns \<open>BTM_WRONG_MODE\<close>, unless the transport (the given one, or the one chosen for
  \<open>BT_TRANSPORT_AUTO\<close>) is not among the types that \<open>BTM_ReadDevInfo\<close> reports for the
  device: then it returns \<open>BTM_ILLEGAL_ACTION\<close>.
\<close>

theorem bond_while_pairing:
  assumes "pairing_state w \<noteq> BTM_PAIR_STATE_IDLE"
  shows "btm_sec_bond_by_transport e a addr_type transport pin_len p_pin w =
           (BTM_WRONG_MODE, w) \<and>
         BTM_SecBond e a addr_type transport device_type pin_len p_pin w =
           (let tr = (if transport = BT_TRANSPORT_AUTO
                      then
                        if addr_type = BLE_ADDR_PUBLIC
                        then (if BTM_UseLeLink e a then BT_TRANSPORT_LE
                              else BT_TRANSPORT_BR_EDR)
                        else BT_TRANSPORT_LE
                      else transport)
            in if (tr = BT_TRANSPORT_LE \<and>
                   fst (BTM_ReadDevInfo e a) AND BT_DEVICE_TYPE_BLE = 0) \<or>
                  (tr = BT_TRANSPORT_BR_EDR \<and>
                   fst (BTM_ReadDevInfo e a) AND BT_DEVICE_TYPE_BREDR = 0)
               then (BTM_ILLEGAL_ACTION, w)
               else (BTM_WRONG_MODE, w)) \<and>
         snd (BTM_SecBond e a addr_type transport device_type pin_len p_pin w) = w \<and>
         sec_pending_q (snd (BTM_SecBond e a addr_type transport device_type pin_len p_pin w)) =
           sec_pending_q w"
proof -
  have b: "\<And>t u. btm_sec_bond_by_transport e a u t pin_len p_pin w = (BTM_WRONG_MODE, w)"
    using assms by (rule bond_by_transport_busy)
  have s: "BTM_SecBond e a addr_type transport device_type pin_len p_pin w =
           (let tr = (if transport = BT_TRANSPORT_AUTO
                      then
                        if addr_type = BLE_ADDR_PUBLIC
                        then (if BTM_UseLeLink e a then BT_TRANSPORT_LE
                              else BT_TRANSPORT_BR_EDR)
                        else BT_TRANSPORT_LE
                      else transport)
            in if (tr = BT_TRANSPORT_LE \<and>
                   fst (BTM_ReadDevInfo e a) AND BT_DEVICE_TYPE_BLE = 0) \<or>
                  (tr = BT_TRANSPORT_BR_EDR \<and>
                   fst (BTM_ReadDevInfo e a) AND BT_DEVICE_TYPE_BREDR = 0)
               then (BTM_ILLEGAL_ACTION, w)
               else (BTM_WRONG_MODE, w))"
    by (simp only: BTM_SecBond_def b Let_def)
  have t: "snd (BTM_SecBond e a addr_type transport device_type pin_len p_pin w) = w"
    unfolding s Let_def by (simp only: if_distrib[of snd] snd_conv if_cancel)
  show ?thesis
    using b s t by (simp only: simp_thms)
qed

theorem bond_while_pairing_witness:
  "pairing_state bonding_cb \<noteq> BTM_PAIR_STATE_IDLE \<and>
   btm_sec_bond_by_transport sample_env 0x665544332211 BLE_ADDR_PUBLIC BT_TRANSPORT_BR_EDR
       4 (Some [1, 2, 3, 4]) bonding_cb = (BTM_WRONG_MODE, bonding_cb) \<and>
   BTM_SecBond sample_env 0x665544332211 BLE_ADDR_PUBLIC BT_TRANSPORT_BR_EDR
       BT_DEVICE_TYPE_BREDR 4 (Some [1, 2, 3, 4]) bonding_cb = (BTM_WRONG_MODE, bonding_cb)"
proof -
  have p: "pairing_state bonding_cb \<noteq> BTM_PAIR_STATE_IDLE"
    by (simp add: bonding_cb_def)
  note t = bond_while_pairing[OF p, of sample_env "0x665544332211" BLE_ADDR_PUBLIC
      BT_TRANSPORT_BR_EDR 4 "Some [1, 2, 3, 4]" BT_DEVICE_TYPE_BREDR]
  have i: "fst (BTM_ReadDevInfo sample_env 0x665544332211) AND BT_DEVICE_TYPE_BREDR \<noteq> 0"
    by (simp add: sample_env_def BT_DEVICE_TYPE_BREDR_def BT_DEVICE_TYPE_BLE_def)
  have a: "btm_sec_bond_by_transport sample_env 0x665544332211 BLE_ADDR_PUBLIC
       BT_TRANSPORT_BR_EDR 4 (Some [1, 2, 3, 4]) bonding_cb = (BTM_WRONG_MODE, bonding_cb)"
    using t by blast
  have "BTM_SecBond sample_env 0x665544332211 BLE_ADDR_PUBLIC BT_TRANSPORT_BR_EDR
       BT_DEVICE_TYPE_BREDR 4 (Some [1, 2, 3, 4]) bonding_cb =
     (if fst (BTM_ReadDevInfo sample_env 0x665544332211) AND BT_DEVICE_TYPE_BREDR = 0
      then (BTM_ILLEGAL_ACTION, bonding_cb) else (BTM_WRONG_MODE, bonding_cb))"
    using t by (simp add: Let_def)
  then have b: "BTM_SecBond sample_env 0x665544332211 BLE_ADDR_PUBLIC BT_TRANSPORT_BR_EDR
       BT_DEVICE_TYPE_BREDR 4 (Some [1, 2, 3, 4]) bonding_cb = (BTM_WRONG_MODE, bonding_cb)"
    using i by simp
  from p a b show ?thesis by (intro conjI)
qed

end
